theory Spec2Isabelle
  imports Main "HOL-Library.AList" "HOL-Library.Sublist"
begin

section \<open>Python values and the operations the scripts apply to them\<close>

text \<open>
  The five generator scripts hold their entity tables as nested Python literals: dictionaries
  with string keys, lists, strings, integers and a few floats. A dictionary is an association
  list in insertion order, which is the order \<^verbatim>\<open>json.dump\<close> writes its keys in. A string is the
  list of its UTF-8 bytes. A float literal \<^verbatim>\<open>2.5\<close> is kept as its decimal digits:
  \<open>PFloat 25 1\<close> stands for 25 / 10^1; the scripts never compute with floats.
\<close>

datatype pyval =
    PInt int
  | PFloat int nat
  | PStr string
  | PList "pyval list"
  | PDict "(string \<times> pyval) list"

text \<open>
  The exceptions that can end a run. \<open>Unmodelled\<close> marks the two places where the model stops
  short of Python: formatting a float, list or dictionary inside an f-string, and a reference
  that points outside the store (which Python cannot produce).
\<close>

datatype error = KeyError | TypeError | AttributeError | FileNotFoundError | Unmodelled

definition bind_err :: "error + 'a \<Rightarrow> ('a \<Rightarrow> error + 'b) \<Rightarrow> error + 'b" where
  "bind_err m f = (case m of Inl e \<Rightarrow> Inl e | Inr x \<Rightarrow> f x)"

text \<open>\<^verbatim>\<open>d[key]\<close> with a string key: KeyError on a dictionary without the key, TypeError on
  every other value.\<close>

fun subscript :: "pyval \<Rightarrow> string \<Rightarrow> error + pyval" where
  "subscript (PDict kvs) key = (case map_of kvs key of None \<Rightarrow> Inl KeyError | Some v \<Rightarrow> Inr v)"
| "subscript _ key = Inl TypeError"

text \<open>\<^verbatim>\<open>key in d\<close> with a string key: key membership on a dictionary, element membership on a
  list, substring test on a string, TypeError on a number.\<close>

fun contains :: "pyval \<Rightarrow> string \<Rightarrow> error + bool" where
  "contains (PDict kvs) key = Inr (key \<in> set (map fst kvs))"
| "contains (PList xs) key = Inr (PStr key \<in> set xs)"
| "contains (PStr s) key = Inr (sublist key s)"
| "contains _ key = Inl TypeError"

text \<open>\<^verbatim>\<open>d[key] = v\<close> with a string key: on a dictionary an existing key keeps its place and a
  new key goes to the end; every other value raises TypeError.\<close>

fun setitem :: "pyval \<Rightarrow> string \<Rightarrow> pyval \<Rightarrow> error + pyval" where
  "setitem (PDict kvs) key v = Inr (PDict (AList.update key v kvs))"
| "setitem _ key v = Inl TypeError"

text \<open>\<^verbatim>\<open>str.lower\<close> and \<^verbatim>\<open>str.upper\<close> on ASCII letters (the entity names and chapter tags are
  ASCII); a value that is not a string has no such method.\<close>

definition lower_char :: "char \<Rightarrow> char" where
  "lower_char c =
     (case map_of (zip ''ABCDEFGHIJKLMNOPQRSTUVWXYZ'' ''abcdefghijklmnopqrstuvwxyz'') c of
        Some l \<Rightarrow> l
      | None \<Rightarrow> c)"

definition upper_char :: "char \<Rightarrow> char" where
  "upper_char c =
     (case map_of (zip ''abcdefghijklmnopqrstuvwxyz'' ''ABCDEFGHIJKLMNOPQRSTUVWXYZ'') c of
        Some u \<Rightarrow> u
      | None \<Rightarrow> c)"

definition lower :: "string \<Rightarrow> string" where
  "lower s = map lower_char s"

definition upper :: "string \<Rightarrow> string" where
  "upper s = map upper_char s"

fun str_lower :: "pyval \<Rightarrow> error + string" where
  "str_lower (PStr s) = Inr (lower s)"
| "str_lower _ = Inl AttributeError"

text \<open>\<^verbatim>\<open>s.replace(old, new)\<close> where \<^verbatim>\<open>old\<close> is a single character, as in every call of the
  scripts.\<close>

definition replace :: "char \<Rightarrow> string \<Rightarrow> string \<Rightarrow> string" where
  "replace old new s = concat (map (\<lambda>c. if c = old then new else [c]) s)"

text \<open>\<^verbatim>\<open>str(n)\<close> for an integer, and the formatting of a value inside an f-string.\<close>

fun digits :: "nat \<Rightarrow> string" where
  "digits n =
     (if n < 10 then [''0123456789'' ! n] else digits (n div 10) @ [''0123456789'' ! (n mod 10)])"

declare digits.simps [simp del]

definition str_int :: "int \<Rightarrow> string" where
  "str_int i = (if i < 0 then CHR ''-'' # digits (nat (- i)) else digits (nat i))"

fun format_value :: "pyval \<Rightarrow> error + string" where
  "format_value (PStr s) = Inr s"
| "format_value (PInt i) = Inr (str_int i)"
| "format_value _ = Inl Unmodelled"

section \<open>Paths and the file system\<close>

text \<open>\<^verbatim>\<open>os.path.join\<close> with two arguments and \<^verbatim>\<open>os.path.dirname\<close>, as posixpath defines them.\<close>

definition join :: "string \<Rightarrow> string \<Rightarrow> string" where
  "join a b =
     (if b \<noteq> [] \<and> hd b = CHR ''/'' then b
      else if a = [] \<or> last a = CHR ''/'' then a @ b
      else a @ CHR ''/'' # b)"

definition rstrip_slash :: "string \<Rightarrow> string" where
  "rstrip_slash s = rev (dropWhile (\<lambda>c. c = CHR ''/'') (rev s))"

definition dirname :: "string \<Rightarrow> string" where
  "dirname p =
     (let head = rev (dropWhile (\<lambda>c. c \<noteq> CHR ''/'') (rev p))
      in if head \<noteq> [] \<and> \<not> list_all (\<lambda>c. c = CHR ''/'') head then rstrip_slash head else head)"

text \<open>
  A file system is the set of its directories and the content of its regular files. The
  content of a file written by \<^verbatim>\<open>json.dump(value, f, indent=4)\<close> is kept as the value itself:
  on values of type \<open>pyval\<close> the library's encoder is a function of the value (keys in
  dictionary order) and its decoder returns the value, so two files hold the same bytes when
  they hold the same value, and the JSON decoded from a file is the value stored here.

  The working directory (the empty path) and the root always exist. Of the ways a write can
  fail only the missing parent directory is modelled; permissions, a full disk, and a
  directory or regular file standing where the other kind is wanted are not.
\<close>

record filesystem =
  dirs :: "string set"
  files :: "string \<rightharpoonup> pyval"

definition is_dir :: "filesystem \<Rightarrow> string \<Rightarrow> bool" where
  "is_dir fs d = (list_all (\<lambda>c. c = CHR ''/'') d \<or> d \<in> dirs fs)"

text \<open>The path itself and the directories above it, nearest first.\<close>

function ancestors :: "string \<Rightarrow> string list" where
  "ancestors p = (if list_all (\<lambda>c. c = CHR ''/'') p then [] else p # ancestors (dirname p))"
  by pat_completeness auto
termination
proof (relation "measure length")
  show "wf (measure length)" by simp
next
  fix p :: string
  assume ns: "\<not> list_all (\<lambda>c. c = CHR ''/'') p"
  define h where "h = dropWhile (\<lambda>c. c \<noteq> CHR ''/'') (rev p)"
  have le: "length h \<le> length p"
    unfolding h_def using length_dropWhile_le [of _ "rev p"] by simp
  have ne: "p \<noteq> []" using ns by auto
  have "length (dirname p) < length p"
  proof (cases "h = []")
    case True
    then show ?thesis using ne by (simp add: dirname_def h_def [symmetric])
  next
    case False
    then have hd: "hd h = CHR ''/''"
      unfolding h_def using hd_dropWhile [of "\<lambda>c. c \<noteq> CHR ''/''" "rev p"] by simp
    show ?thesis
    proof (cases "list_all (\<lambda>c. c = CHR ''/'') (rev h)")
      case True
      have "h \<noteq> rev p"
      proof
        assume "h = rev p"
        then have "list_all (\<lambda>c. c = CHR ''/'') p" using True by (simp add: list_all_iff)
        then show False using ns by simp
      qed
      then have "length h < length p"
        unfolding h_def
        by (metis dropWhile_eq_self_iff h_def le length_rev nat_less_le takeWhile_dropWhile_id
            append_self_conv2 length_append add_diff_cancel_right' diff_is_0_eq' length_0_conv self_append_conv2 takeWhile_eq_Nil_iff)
      then show ?thesis using True False by (simp add: dirname_def h_def [symmetric])
    next
      case nall: False
      obtain t where t: "h = CHR ''/'' # t" using False hd by (cases h) auto
      have "length (dropWhile (\<lambda>c. c = CHR ''/'') h) \<le> length t"
        using length_dropWhile_le [of _ t] by (simp add: t)
      then have "length (dropWhile (\<lambda>c. c = CHR ''/'') h) < length p"
        using le t by simp
      then show ?thesis
        using nall False by (simp add: dirname_def rstrip_slash_def h_def [symmetric])
    qed
  qed
  then show "(dirname p, p) \<in> measure length" by simp
qed

declare ancestors.simps [simp del]

text \<open>\<^verbatim>\<open>os.makedirs(name, exist_ok=True)\<close>: creates the directory and every missing directory
  above it; the empty name raises FileNotFoundError.\<close>

definition makedirs :: "string \<Rightarrow> filesystem \<Rightarrow> error + filesystem" where
  "makedirs name fs =
     (if name = [] then Inl FileNotFoundError
      else Inr (fs\<lparr>dirs := dirs fs \<union> set (ancestors name)\<rparr>))"

text \<open>\<^verbatim>\<open>with open(path, 'w') as f: json.dump(value, f, indent=4)\<close>: creates or overwrites the
  file; FileNotFoundError when the directory of the path does not exist.\<close>

definition write_json :: "string \<Rightarrow> pyval \<Rightarrow> filesystem \<Rightarrow> error + filesystem" where
  "write_json path v fs =
     (if is_dir fs (dirname path) then Inr (fs\<lparr>files := (files fs)(path \<mapsto> v)\<rparr>)
      else Inl FileNotFoundError)"

section \<open>The store, the loop and a run\<close>

text \<open>
  Python passes the records of a table by reference, and one of the scripts updates the
  record it is given. The records therefore live in a store, a list of objects addressed by
  position; a table holds references, and a function that receives a record receives its
  reference. The state of a run is the store together with the file system. Progress lines
  printed to standard output are not part of the state.
\<close>

record world =
  heap :: "pyval list"
  fs :: filesystem

definition deref :: "world \<Rightarrow> nat \<Rightarrow> error + pyval" where
  "deref w r = (if r < length (heap w) then Inr (heap w ! r) else Inl Unmodelled)"

definition assign :: "nat \<Rightarrow> pyval \<Rightarrow> world \<Rightarrow> world" where
  "assign r v w = w\<lparr>heap := (heap w)[r := v]\<rparr>"

text \<open>A \<^verbatim>\<open>for\<close> loop over a list: the first exception ends it.\<close>

fun for_each :: "('a \<Rightarrow> world \<Rightarrow> error + world) \<Rightarrow> 'a list \<Rightarrow> world \<Rightarrow> error + world" where
  "for_each body [] w = Inr w"
| "for_each body (x # xs) w = bind_err (body x w) (for_each body xs)"

text \<open>\<^verbatim>\<open>table.items()\<close> of a dictionary whose values were allocated in order: each key with the
  reference of its record.\<close>

definition items :: "(string \<times> pyval) list \<Rightarrow> (string \<times> nat) list" where
  "items table = zip (map fst table) [0..<length table]"


section \<open>The entity tables\<close>

text \<open>Every record is the literal of the source, field by field and in the source order.\<close>

subsection \<open>generate\_bosses\_old.py\<close>

definition old_toriel :: pyval where
  "old_toriel = PDict [
    (''name'', PStr ''Toriel''),
    (''hp'', PInt 440),
    (''attack'', PInt 6),
    (''defense'', PInt 1),
    (''gold'', PInt 0),
    (''exp'', PInt 0),
    (''spareThreshold'', PInt 0),
    (''dialogue'', PList [
      PStr ''* Toriel prepares a magical attack.'',
      PStr ''* Toriel is acting aloof.'',
      PStr ''* Toriel is looking through you.'',
      PStr ''* Smells like butterscotch pie.'']),
    (''checkText'', PStr ''ATK 6 DEF 1\<newline>* Knows best for you.''),
    (''sprites'', PDict [(''idle'', PList [PStr ''Battle/Characters/Toriel/spr_toriel_talk_0.png''])]),
    (''acts'', PList [
      PDict [(''name'', PStr ''Check''), (''effect'', PStr ''check'')],
      PDict [
        (''name'', PStr ''Talk''),
        (''effect'', PStr ''talk''),
        (''text'', PStr ''* You talk to Toriel.\<newline>* She doesn't want to listen.''),
        (''mercyIncrease'', PInt 10)],
      PDict [
        (''name'', PStr ''Spare''),
        (''effect'', PStr ''spare''),
        (''text'', PStr ''* You spared Toriel.''),
        (''mercyIncrease'', PInt 5)]]),
    (''attackPatterns'', PList [
      PDict [
        (''name'', PStr ''Fire Magic''),
        (''duration'', PInt 5000),
        (''waves'', PList [
          PDict [
            (''time'', PInt 0),
            (''type'', PStr ''projectiles''),
            (''count'', PInt 8),
            (''speed'', PInt 2),
            (''size'', PInt 20),
            (''side'', PStr ''top'')],
          PDict [
            (''time'', PInt 1000),
            (''type'', PStr ''projectiles''),
            (''count'', PInt 8),
            (''speed'', PInt 2),
            (''size'', PInt 20),
            (''side'', PStr ''bottom'')],
          PDict [
            (''time'', PInt 2000),
            (''type'', PStr ''projectiles''),
            (''count'', PInt 8),
            (''speed'', PInt 2),
            (''size'', PInt 20),
            (''side'', PStr ''left'')],
          PDict [
            (''time'', PInt 3000),
            (''type'', PStr ''projectiles''),
            (''count'', PInt 8),
            (''speed'', PInt 2),
            (''size'', PInt 20),
            (''side'', PStr ''right'')]])]])]"

definition old_papyrus :: pyval where
  "old_papyrus = PDict [
    (''name'', PStr ''Papyrus''),
    (''hp'', PInt 680),
    (''attack'', PInt 8),
    (''defense'', PInt 2),
    (''gold'', PInt 0),
    (''exp'', PInt 0),
    (''spareThreshold'', PInt 0),
    (''dialogue'', PList [
      PStr ''* Papyrus is preparing a\<newline>  non-bone attack.'',
      PStr ''* Papyrus is rattling his bones.'',
      PStr ''* Papyrus is cooking.'',
      PStr ''* Smells like bones.'']),
    (''checkText'', PStr (''ATK 8 DEF 2\<newline>* Likes to say 'Nyeh Heh Heh!'' @ [CHR 0x27])),
    (''sprites'', PDict [(''idle'', PList [PStr ''Battle/Characters/Papyrus/spr_papyrus_0.png''])]),
    (''acts'', PList [
      PDict [(''name'', PStr ''Check''), (''effect'', PStr ''check'')],
      PDict [
        (''name'', PStr ''Compliment''),
        (''effect'', PStr ''compliment''),
        (''text'', PStr ''* You tell Papyrus he's cool.\<newline>* NYEH HEH HEH!!!''),
        (''mercyIncrease'', PInt 20)],
      PDict [
        (''name'', PStr ''Flirt''),
        (''effect'', PStr ''flirt''),
        (''text'', PStr ''* You flirt with Papyrus.\<newline>* His attack dropped!''),
        (''mercyIncrease'', PInt 30)]]),
    (''attackPatterns'', PList [
      PDict [
        (''name'', PStr ''Bone Attack''),
        (''duration'', PInt 4500),
        (''waves'', PList [
          PDict [
            (''time'', PInt 0),
            (''type'', PStr ''bones''),
            (''count'', PInt 3),
            (''speed'', PInt 3),
            (''orientation'', PStr ''horizontal'')],
          PDict [
            (''time'', PInt 1000),
            (''type'', PStr ''bones''),
            (''count'', PInt 3),
            (''speed'', PInt 3),
            (''orientation'', PStr ''vertical'')],
          PDict [
            (''time'', PInt 2000),
            (''type'', PStr ''bones''),
            (''count'', PInt 4),
            (''speed'', PFloat 35 1),
            (''orientation'', PStr ''horizontal'')],
          PDict [
            (''time'', PInt 3000),
            (''type'', PStr ''bones''),
            (''count'', PInt 4),
            (''speed'', PFloat 35 1),
            (''orientation'', PStr ''vertical'')]])]])]"

definition old_undyne :: pyval where
  "old_undyne = PDict [
    (''name'', PStr ''Undyne''),
    (''hp'', PInt 1500),
    (''attack'', PInt 10),
    (''defense'', PInt 0),
    (''gold'', PInt 0),
    (''exp'', PInt 0),
    (''spareThreshold'', PInt 0),
    (''dialogue'', PList [
      PStr ''* Undyne attacks!'',
      PStr ''* Undyne is smiling.'',
      PStr ''* Undyne points heroically\<newline>  at you.'',
      PStr ''* Smells like anime.'']),
    (''checkText'', PStr ''ATK 10 DEF 0\<newline>* The heroine that NEVER gives up.''),
    (''sprites'', PDict [(''idle'', PList [PStr ''Battle/Characters/Undyne/spr_undynebattle_0.png''])]),
    (''acts'', PList [
      PDict [(''name'', PStr ''Check''), (''effect'', PStr ''check'')],
      PDict [
        (''name'', PStr ''Challenge''),
        (''effect'', PStr ''challenge''),
        (''text'', PStr ''* You tell Undyne you'll fight her.''),
        (''mercyIncrease'', PInt 0)],
      PDict [
        (''name'', PStr ''Plead''),
        (''effect'', PStr ''plead''),
        (''text'', PStr ''* You plead with Undyne.''),
        (''mercyIncrease'', PInt 10)]]),
    (''attackPatterns'', PList [
      PDict [
        (''name'', PStr ''Spear Rain''),
        (''duration'', PInt 5000),
        (''waves'', PList [
          PDict [
            (''time'', PInt 0),
            (''type'', PStr ''projectiles''),
            (''count'', PInt 10),
            (''speed'', PInt 3),
            (''size'', PInt 15),
            (''side'', PStr ''top'')],
          PDict [
            (''time'', PInt 1500),
            (''type'', PStr ''projectiles''),
            (''count'', PInt 10),
            (''speed'', PInt 3),
            (''size'', PInt 15),
            (''side'', PStr ''top'')],
          PDict [
            (''time'', PInt 3000),
            (''type'', PStr ''projectiles''),
            (''count'', PInt 12),
            (''speed'', PFloat 35 1),
            (''size'', PInt 15),
            (''side'', PStr ''top'')]])]])]"

definition old_mettaton :: pyval where
  "old_mettaton = PDict [
    (''name'', PStr ''Mettaton EX''),
    (''hp'', PInt 1000),
    (''attack'', PInt 10),
    (''defense'', PInt 255),
    (''gold'', PInt 0),
    (''exp'', PInt 0),
    (''spareThreshold'', PInt 0),
    (''dialogue'', PList [
      PStr ''* Mettaton poses dramatically!'',
      PStr ''* Mettaton is checking his\<newline>  ratings.'',
      PStr ''* Mettaton adjusts his hair.'',
      PStr ''* Smells like a television studio.'']),
    (''checkText'', PStr ''ATK 10 DEF 255\<newline>* Lights! Camera! Action!''),
    (''sprites'', PDict [
      (''idle'', PList [PStr ''Battle/Characters/Mettaton EX/spr_mettatonbattle_pose_0.png''])]),
    (''acts'', PList [
      PDict [(''name'', PStr ''Check''), (''effect'', PStr ''check'')],
      PDict [
        (''name'', PStr ''Pose''),
        (''effect'', PStr ''pose''),
        (''text'', PStr ''* You strike a pose!\<newline>* The ratings went up!''),
        (''mercyIncrease'', PInt 20)],
      PDict [
        (''name'', PStr ''Boast''),
        (''effect'', PStr ''boast''),
        (''text'', PStr ''* You boast about your abilities!\<newline>* The ratings went up!''),
        (''mercyIncrease'', PInt 20)],
      PDict [
        (''name'', PStr ''Yellow''),
        (''effect'', PStr ''yellow''),
        (''text'', PStr ''* You turn the switch to yellow!''),
        (''mercyIncrease'', PInt 100)]]),
    (''attackPatterns'', PList [
      PDict [
        (''name'', PStr ''Leg Attack''),
        (''duration'', PInt 5000),
        (''waves'', PList [
          PDict [
            (''time'', PInt 0),
            (''type'', PStr ''projectiles''),
            (''count'', PInt 8),
            (''speed'', PInt 3),
            (''size'', PInt 20),
            (''side'', PStr ''left'')],
          PDict [
            (''time'', PInt 2000),
            (''type'', PStr ''projectiles''),
            (''count'', PInt 8),
            (''speed'', PInt 3),
            (''size'', PInt 20),
            (''side'', PStr ''right'')]])]])]"

definition old_asgore :: pyval where
  "old_asgore = PDict [
    (''name'', PStr ''Asgore''),
    (''hp'', PInt 3500),
    (''attack'', PInt 10),
    (''defense'', PInt 1),
    (''gold'', PInt 0),
    (''exp'', PInt 0),
    (''spareThreshold'', PInt 0),
    (''dialogue'', PList [
      PStr ''* Asgore prepares a magic attack.'',
      PStr ''* Asgore is filled with regret.'',
      PStr ''* Asgore gazes at you.'',
      PStr ''* Smells like golden flowers.'']),
    (''checkText'', PStr ''ATK 10 DEF 1\<newline>* The king of the monsters.''),
    (''sprites'', PDict [(''idle'', PList [PStr ''Battle/Characters/Asgore/Head/spr_asgore_head_0.png''])]),
    (''acts'', PList [
      PDict [(''name'', PStr ''Check''), (''effect'', PStr ''check'')],
      PDict [
        (''name'', PStr ''Talk''),
        (''effect'', PStr ''talk''),
        (''text'', PStr ''* You talk to Asgore.\<newline>* He looks away.''),
        (''mercyIncrease'', PInt 0)],
      PDict [
        (''name'', PStr ''Mercy''),
        (''effect'', PStr ''mercy''),
        (''text'', PStr ''* You beg for mercy.''),
        (''mercyIncrease'', PInt 0)]]),
    (''attackPatterns'', PList [
      PDict [
        (''name'', PStr ''Trident Swipe''),
        (''duration'', PInt 6000),
        (''waves'', PList [
          PDict [
            (''time'', PInt 0),
            (''type'', PStr ''projectiles''),
            (''count'', PInt 12),
            (''speed'', PInt 3),
            (''size'', PInt 25),
            (''side'', PStr ''top'')],
          PDict [
            (''time'', PInt 2000),
            (''type'', PStr ''projectiles''),
            (''count'', PInt 12),
            (''speed'', PInt 3),
            (''size'', PInt 25),
            (''side'', PStr ''bottom'')],
          PDict [
            (''time'', PInt 4000),
            (''type'', PStr ''projectiles''),
            (''count'', PInt 15),
            (''speed'', PFloat 35 1),
            (''size'', PInt 25),
            (''side'', PStr ''top'')]])]])]"

definition old_sans :: pyval where
  "old_sans = PDict [
    (''name'', PStr ''Sans''),
    (''hp'', PInt 1),
    (''attack'', PInt 1),
    (''defense'', PInt 1),
    (''gold'', PInt 0),
    (''exp'', PInt 0),
    (''spareThreshold'', PInt 0),
    (''dialogue'', PList [
      PStr ''* sans is judging your sins.'',
      PStr ''* sans is winking.'',
      PStr ''* ...  '',
      PStr ''* Smells like  bad times.'']),
    (''checkText'', PStr ''ATK 1 DEF 1\<newline>* The easiest enemy.\<newline>* Can only deal 1 damage.''),
    (''sprites'', PDict [(''idle'', PList [PStr ''Battle/Characters/Sans/spr_sansbattle_0.png''])]),
    (''acts'', PList [
      PDict [(''name'', PStr ''Check''), (''effect'', PStr ''check'')],
      PDict [
        (''name'', PStr ''Spare''),
        (''effect'', PStr ''spare''),
        (''text'', PStr ''* Sans spares you...''),
        (''mercyIncrease'', PInt 0)]]),
    (''attackPatterns'', PList [
      PDict [
        (''name'', PStr ''Gaster Blaster''),
        (''duration'', PInt 5000),
        (''waves'', PList [
          PDict [
            (''time'', PInt 0),
            (''type'', PStr ''bones''),
            (''count'', PInt 5),
            (''speed'', PInt 4),
            (''orientation'', PStr ''horizontal'')],
          PDict [
            (''time'', PInt 1000),
            (''type'', PStr ''bones''),
            (''count'', PInt 5),
            (''speed'', PInt 4),
            (''orientation'', PStr ''vertical'')],
          PDict [
            (''time'', PInt 2000),
            (''type'', PStr ''bones''),
            (''count'', PInt 6),
            (''speed'', PInt 5),
            (''orientation'', PStr ''horizontal'')],
          PDict [
            (''time'', PInt 3000),
            (''type'', PStr ''bones''),
            (''count'', PInt 6),
            (''speed'', PInt 5),
            (''orientation'', PStr ''vertical'')]])]])]"

definition old_flowey :: pyval where
  "old_flowey = PDict [
    (''name'', PStr ''Flowey''),
    (''hp'', PInt 1000),
    (''attack'', PInt 8),
    (''defense'', PInt 10),
    (''gold'', PInt 0),
    (''exp'', PInt 0),
    (''spareThreshold'', PInt 0),
    (''dialogue'', PList [
      PStr ''* Flowey laughs maniacally.'',
      PStr ''* Flowey is thinking about\<newline>  killing everyone.'',
      PStr ''* Flowey winks at you.'',
      PStr ''* Smells like flowers.'']),
    (''checkText'', PStr ''ATK 8 DEF 10\<newline>* Truly evil.''),
    (''sprites'', PDict [
      (''idle'', PList [PStr ''Battle/Characters/Flowey/General/spr_floweyboss_scared.png''])]),
    (''acts'', PList [
      PDict [(''name'', PStr ''Check''), (''effect'', PStr ''check'')],
      PDict [
        (''name'', PStr ''Struggle''),
        (''effect'', PStr ''struggle''),
        (''text'', PStr ''* You struggle...''),
        (''mercyIncrease'', PInt 0)]]),
    (''attackPatterns'', PList [
      PDict [
        (''name'', PStr ''Friendliness Pellets''),
        (''duration'', PInt 4500),
        (''waves'', PList [
          PDict [
            (''time'', PInt 0),
            (''type'', PStr ''circle''),
            (''startRadius'', PInt 10),
            (''endRadius'', PInt 100),
            (''duration'', PInt 80)],
          PDict [
            (''time'', PInt 1500),
            (''type'', PStr ''circle''),
            (''startRadius'', PInt 10),
            (''endRadius'', PInt 100),
            (''duration'', PInt 80)],
          PDict [
            (''time'', PInt 3000),
            (''type'', PStr ''circle''),
            (''startRadius'', PInt 10),
            (''endRadius'', PInt 100),
            (''duration'', PInt 80)]])]])]"

definition old_asriel :: pyval where
  "old_asriel = PDict [
    (''name'', PStr ''Asriel Dreemurr''),
    (''hp'', PInt 9999),
    (''attack'', PInt 10),
    (''defense'', PInt 9999),
    (''gold'', PInt 0),
    (''exp'', PInt 0),
    (''spareThreshold'', PInt 0),
    (''dialogue'', PList [
      PStr ''* Asriel prepares to use his\<newline>  full power.'',
      PStr ''* Asriel is smiling.'',
      PStr ''* Asriel readies CHAOS SABER.'',
      PStr ''* Smells like... hopes and dreams.'']),
    (''checkText'', PStr (''ATK '' @ CHR 0xE2 # CHR 0x88 # CHR 0x9E # '' DEF '' @ CHR 0xE2 # CHR 0x88 # CHR 0x9E # ''\<newline>* The absolute GOD of Hyperdeath!'')),
    (''sprites'', PDict [
      (''idle'', PList [
        PStr ''Battle/Characters/Asriel Dreemurr/God of Hyperdeath/spr_godhyperdeath_form_0.png''])]),
    (''acts'', PList [
      PDict [(''name'', PStr ''Check''), (''effect'', PStr ''check'')],
      PDict [
        (''name'', PStr ''Dream''),
        (''effect'', PStr ''dream''),
        (''text'', PStr ''* You think of your dreams.''),
        (''mercyIncrease'', PInt 10)],
      PDict [
        (''name'', PStr ''Hope''),
        (''effect'', PStr ''hope''),
        (''text'', PStr ''* You think of hope.''),
        (''mercyIncrease'', PInt 10)],
      PDict [
        (''name'', PStr ''Save''),
        (''effect'', PStr ''save''),
        (''text'', PStr ''* You saved Asriel.''),
        (''mercyIncrease'', PInt 50)]]),
    (''attackPatterns'', PList [
      PDict [
        (''name'', PStr ''Chaos Saber''),
        (''duration'', PInt 6000),
        (''waves'', PList [
          PDict [
            (''time'', PInt 0),
            (''type'', PStr ''projectiles''),
            (''count'', PInt 15),
            (''speed'', PInt 4),
            (''size'', PInt 30),
            (''side'', PStr ''top'')],
          PDict [
            (''time'', PInt 1500),
            (''type'', PStr ''projectiles''),
            (''count'', PInt 15),
            (''speed'', PInt 4),
            (''size'', PInt 30),
            (''side'', PStr ''bottom'')],
          PDict [
            (''time'', PInt 3000),
            (''type'', PStr ''projectiles''),
            (''count'', PInt 15),
            (''speed'', PInt 4),
            (''size'', PInt 30),
            (''side'', PStr ''left'')],
          PDict [
            (''time'', PInt 4500),
            (''type'', PStr ''projectiles''),
            (''count'', PInt 15),
            (''speed'', PInt 4),
            (''size'', PInt 30),
            (''side'', PStr ''right'')]])]])]"

text \<open>The dictionary \<^verbatim>\<open>BOSSES\<close> of generate_bosses_old.py, in insertion order.\<close>

definition BOSSES :: "(string \<times> pyval) list" where
  "BOSSES =
  [(''toriel'', old_toriel),
   (''papyrus'', old_papyrus),
   (''undyne'', old_undyne),
   (''mettaton'', old_mettaton),
   (''asgore'', old_asgore),
   (''sans'', old_sans),
   (''flowey'', old_flowey),
   (''asriel'', old_asriel)]"

subsection \<open>generate\_deltarune\_bosses.py\<close>

definition drb_jevil :: pyval where
  "drb_jevil = PDict [
    (''name'', PStr ''Jevil''),
    (''chapter'', PStr ''Ch1''),
    (''folder'', PStr ''Jevil/Body''),
    (''hp'', PInt 3500),
    (''attack'', PInt 12),
    (''defense'', PInt 10),
    (''dialogue'', PList [
      PStr ''* CHAOS, CHAOS!'',
      PStr ''* I CAN DO ANYTHING!'',
      PStr ''* Jevil laughs maniacally.'',
      PStr ''* Smells like chaos.'']),
    (''checkText'', PStr (''ATK 12 DEF 10'' @ CHR 0x5C # ''n* The Joker Card. Can do anything.'')),
    (''acts'', PList [
      PDict [(''name'', PStr ''Check''), (''effect'', PStr ''check'')],
      PDict [
        (''name'', PStr ''Pirouette''),
        (''effect'', PStr ''pirouette''),
        (''text'', PStr ''* You pirouette. Jevil is amused!''),
        (''mercyIncrease'', PInt 10)],
      PDict [
        (''name'', PStr ''Hypnosis''),
        (''effect'', PStr ''hypnosis''),
        (''text'', PStr ''* You hypnotize Jevil...''),
        (''mercyIncrease'', PInt 15)]]),
    (''attackPatterns'', PList [
      PDict [
        (''name'', PStr ''Chaos Carousel''),
        (''duration'', PInt 6000),
        (''waves'', PList [
          PDict [
            (''time'', PInt 0),
            (''type'', PStr ''carousel''),
            (''count'', PInt 8),
            (''speed'', PInt 3),
            (''pattern'', PStr ''circular'')],
          PDict [
            (''time'', PInt 2000),
            (''type'', PStr ''carousel''),
            (''count'', PInt 12),
            (''speed'', PFloat 35 1),
            (''pattern'', PStr ''spiral'')],
          PDict [
            (''time'', PInt 4000),
            (''type'', PStr ''devilsknife''),
            (''count'', PInt 4),
            (''speed'', PInt 4)]])]])]"

definition drb_king :: pyval where
  "drb_king = PDict [
    (''name'', PStr ''King''),
    (''chapter'', PStr ''Ch1''),
    (''folder'', PStr ''King/Ch1''),
    (''hp'', PInt 4000),
    (''attack'', PInt 13),
    (''defense'', PInt 8),
    (''dialogue'', PList [
      PStr ''* The King of Spades attacks!'',
      PStr ''* King laughs wickedly.'',
      PStr ''* King readies his weapon.'',
      PStr ''* Smells like tyranny.'']),
    (''checkText'', PStr (''ATK 13 DEF 8'' @ CHR 0x5C # ''n* The King of the Card Kingdom.'')),
    (''acts'', PList [
      PDict [(''name'', PStr ''Check''), (''effect'', PStr ''check'')],
      PDict [
        (''name'', PStr ''Pacify''),
        (''effect'', PStr ''pacify''),
        (''text'', PStr ''* You try to calm King down...''),
        (''mercyIncrease'', PInt 0)]]),
    (''attackPatterns'', PList [
      PDict [
        (''name'', PStr ''Spade Attack''),
        (''duration'', PInt 5500),
        (''waves'', PList [
          PDict [
            (''time'', PInt 0),
            (''type'', PStr ''spades''),
            (''count'', PInt 8),
            (''speed'', PInt 3),
            (''side'', PStr ''top'')],
          PDict [
            (''time'', PInt 1500),
            (''type'', PStr ''spades''),
            (''count'', PInt 10),
            (''speed'', PFloat 35 1),
            (''side'', PStr ''all'')],
          PDict [
            (''time'', PInt 3500),
            (''type'', PStr ''spades''),
            (''count'', PInt 15),
            (''speed'', PInt 4),
            (''side'', PStr ''all'')]])]])]"

definition drb_spamton_neo :: pyval where
  "drb_spamton_neo = PDict [
    (''name'', PStr ''Spamton NEO''),
    (''chapter'', PStr ''Ch2''),
    (''folder'', PStr ''Spamton NEO/Parts''),
    (''hp'', PInt 5000),
    (''attack'', PInt 14),
    (''defense'', PInt 10),
    (''dialogue'', PList [
      PStr ''* NOW'S YOUR CHANCE TO BE A [Big Shot]!'',
      PStr ''* SPAMTON NEO attacks!'',
      PStr ''* You hear ringing phones.'',
      PStr ''* Smells like hyperlink blocked.'']),
    (''checkText'', PStr (''ATK 14 DEF 10'' @ CHR 0x5C # ''n* NOW'S YOUR CHANCE TO BE A [Big Shot]'')),
    (''acts'', PList [
      PDict [(''name'', PStr ''Check''), (''effect'', PStr ''check'')],
      PDict [
        (''name'', PStr ''[Call]''),
        (''effect'', PStr ''call''),
        (''text'', PStr ''* You try to call someone...''),
        (''mercyIncrease'', PInt 5)],
      PDict [
        (''name'', PStr ''[Cut Cable]''),
        (''effect'', PStr ''cut''),
        (''text'', PStr ''* You cut a cable.''),
        (''mercyIncrease'', PInt 20)]]),
    (''attackPatterns'', PList [
      PDict [
        (''name'', PStr ''Pipis Attack''),
        (''duration'', PInt 6000),
        (''waves'', PList [
          PDict [
            (''time'', PInt 0),
            (''type'', PStr ''pipis''),
            (''count'', PInt 5),
            (''speed'', PFloat 25 1)],
          PDict [
            (''time'', PInt 2000),
            (''type'', PStr ''big_shot''),
            (''count'', PInt 3),
            (''speed'', PInt 4)],
          PDict [
            (''time'', PInt 4000),
            (''type'', PStr ''pipis''),
            (''count'', PInt 8),
            (''speed'', PInt 3)]])]])]"

definition drb_queen :: pyval where
  "drb_queen = PDict [
    (''name'', PStr ''Queen''),
    (''chapter'', PStr ''Ch2''),
    (''folder'', PStr ''Queen/Portraits''),
    (''hp'', PInt 4500),
    (''attack'', PInt 13),
    (''defense'', PInt 9),
    (''dialogue'', PList [
      PStr ''* Queen Attacks Lmao'',
      PStr ''* Queen adjusts her glass.'',
      PStr ''* Queen is typing.'',
      PStr ''* Smells like battery acid.'']),
    (''checkText'', PStr (''ATK 13 DEF 9'' @ CHR 0x5C # ''n* The Queen of the Cyber World.'')),
    (''acts'', PList [
      PDict [(''name'', PStr ''Check''), (''effect'', PStr ''check'')],
      PDict [
        (''name'', PStr ''Compliment''),
        (''effect'', PStr ''compliment''),
        (''text'', PStr ''* You compliment Queen's management style.''),
        (''mercyIncrease'', PInt 15)]]),
    (''attackPatterns'', PList [
      PDict [
        (''name'', PStr ''Acid Attack''),
        (''duration'', PInt 5500),
        (''waves'', PList [
          PDict [
            (''time'', PInt 0),
            (''type'', PStr ''acid''),
            (''count'', PInt 6),
            (''speed'', PInt 3),
            (''side'', PStr ''top'')],
          PDict [
            (''time'', PInt 2000),
            (''type'', PStr ''acid''),
            (''count'', PInt 8),
            (''speed'', PFloat 35 1),
            (''side'', PStr ''all'')],
          PDict [
            (''time'', PInt 4000),
            (''type'', PStr ''acid''),
            (''count'', PInt 10),
            (''speed'', PInt 4),
            (''side'', PStr ''all'')]])]])]"

definition drb_tasque_manager :: pyval where
  "drb_tasque_manager = PDict [
    (''name'', PStr ''Tasque Manager''),
    (''chapter'', PStr ''Ch2''),
    (''folder'', PStr ''Tasque Manager/Ch2''),
    (''hp'', PInt 3800),
    (''attack'', PInt 12),
    (''defense'', PInt 8),
    (''dialogue'', PList [
      PStr ''* Tasque Manager cracks her whip!'',
      PStr ''* Tasque Manager gives orders.'',
      PStr ''* Everything is orderly.'',
      PStr ''* Smells like order.'']),
    (''checkText'', PStr (''ATK 12 DEF 8'' @ CHR 0x5C # ''n* Manages all the Tasques.'')),
    (''acts'', PList [
      PDict [(''name'', PStr ''Check''), (''effect'', PStr ''check'')],
      PDict [
        (''name'', PStr ''Pet''),
        (''effect'', PStr ''pet''),
        (''text'', PStr ''* You try to pet Tasque Manager...''),
        (''mercyIncrease'', PInt 10)],
      PDict [
        (''name'', PStr ''Compliment''),
        (''effect'', PStr ''compliment''),
        (''text'', PStr ''* You compliment her management.''),
        (''mercyIncrease'', PInt 20)]]),
    (''attackPatterns'', PList [
      PDict [
        (''name'', PStr ''Tasque Swarm''),
        (''duration'', PInt 5000),
        (''waves'', PList [
          PDict [
            (''time'', PInt 0),
            (''type'', PStr ''tasques''),
            (''count'', PInt 4),
            (''speed'', PInt 3)],
          PDict [
            (''time'', PInt 1500),
            (''type'', PStr ''whip''),
            (''count'', PInt 6),
            (''speed'', PInt 4)],
          PDict [
            (''time'', PInt 3000),
            (''type'', PStr ''tasques''),
            (''count'', PInt 6),
            (''speed'', PFloat 35 1)]])]])]"

definition drb_sweet_capn_cakes :: pyval where
  "drb_sweet_capn_cakes = PDict [
    (''name'', PStr ''Sweet Cap'n Cakes''),
    (''chapter'', PStr ''Ch2''),
    (''folder'', PStr ''Sweet Cap_n Cakes/Sweet''),
    (''hp'', PInt 3600),
    (''attack'', PInt 11),
    (''defense'', PInt 7),
    (''dialogue'', PList [
      PStr ''* Sweet, Cap'n, and K_K attack in harmony!'',
      PStr ''* They're making music.'',
      PStr ''* The beat drops.'',
      PStr ''* Smells like batteries and sugar.'']),
    (''checkText'', PStr (''ATK 11 DEF 7'' @ CHR 0x5C # ''n* Three musical entrepreneurs.'')),
    (''acts'', PList [
      PDict [(''name'', PStr ''Check''), (''effect'', PStr ''check'')],
      PDict [
        (''name'', PStr ''Dance''),
        (''effect'', PStr ''dance''),
        (''text'', PStr ''* You dance to the music!''),
        (''mercyIncrease'', PInt 30)],
      PDict [
        (''name'', PStr ''Applaud''),
        (''effect'', PStr ''applaud''),
        (''text'', PStr ''* You applaud their performance.''),
        (''mercyIncrease'', PInt 25)]]),
    (''attackPatterns'', PList [
      PDict [
        (''name'', PStr ''Musical Notes''),
        (''duration'', PInt 5500),
        (''waves'', PList [
          PDict [
            (''time'', PInt 0),
            (''type'', PStr ''notes''),
            (''count'', PInt 8),
            (''speed'', PInt 3),
            (''pattern'', PStr ''musical'')],
          PDict [
            (''time'', PInt 2000),
            (''type'', PStr ''notes''),
            (''count'', PInt 12),
            (''speed'', PFloat 35 1),
            (''pattern'', PStr ''musical'')],
          PDict [
            (''time'', PInt 4000),
            (''type'', PStr ''notes''),
            (''count'', PInt 10),
            (''speed'', PInt 4),
            (''pattern'', PStr ''musical'')]])]])]"

text \<open>The list \<^verbatim>\<open>bosses\<close> of generate_deltarune_bosses.py.\<close>

definition bosses :: "pyval list" where
  "bosses =
  [drb_jevil,
   drb_king,
   drb_spamton_neo,
   drb_queen,
   drb_tasque_manager,
   drb_sweet_capn_cakes]"

subsection \<open>generate\_deltarune\_enemies.py\<close>

definition dre_rudinn :: pyval where
  "dre_rudinn = PDict [
    (''name'', PStr ''Rudinn''),
    (''hp'', PInt 200),
    (''attack'', PInt 6),
    (''defense'', PInt 0),
    (''folder'', PStr ''Rudinn + Rudinn Ranger''),
    (''dialogue'', PList [
      PStr ''* Rudinn blocks the way!'',
      PStr ''* Rudinn is posing dramatically.'',
      PStr ''* Smells like bubblegum.'']),
    (''acts'', PList [
      PDict [(''name'', PStr ''Check''), (''effect'', PStr ''check'')],
      PDict [
        (''name'', PStr ''Compliment''),
        (''effect'', PStr ''compliment''),
        (''text'', PStr ''* You compliment Rudinn.''),
        (''mercyIncrease'', PInt 20)]])]"

definition dre_hathy :: pyval where
  "dre_hathy = PDict [
    (''name'', PStr ''Hathy''),
    (''hp'', PInt 180),
    (''attack'', PInt 5),
    (''defense'', PInt 0),
    (''folder'', PStr ''Hathy + Head Hathy''),
    (''dialogue'', PList [
      PStr ''* Hathy blocks the way!'',
      PStr ''* Hathy adjusts its crown.'',
      PStr ''* Smells like royalty.'']),
    (''acts'', PList [
      PDict [(''name'', PStr ''Check''), (''effect'', PStr ''check'')],
      PDict [
        (''name'', PStr ''Bow''),
        (''effect'', PStr ''bow''),
        (''text'', PStr ''* You bow to Hathy.''),
        (''mercyIncrease'', PInt 30)]])]"

definition dre_jigsawry :: pyval where
  "dre_jigsawry = PDict [
    (''name'', PStr ''Jigsawry''),
    (''hp'', PInt 220),
    (''attack'', PInt 7),
    (''defense'', PInt 1),
    (''folder'', PStr ''Jigsawry''),
    (''dialogue'', PList [
      PStr ''* Jigsawry attacks!'',
      PStr ''* Jigsawry is fitting together.'',
      PStr ''* Smells like cardboard.'']),
    (''acts'', PList [
      PDict [(''name'', PStr ''Check''), (''effect'', PStr ''check'')],
      PDict [
        (''name'', PStr ''Compliment''),
        (''effect'', PStr ''compliment''),
        (''text'', PStr ''* You compliment Jigsawry's puzzle.''),
        (''mercyIncrease'', PInt 25)]])]"

definition dre_ponman :: pyval where
  "dre_ponman = PDict [
    (''name'', PStr ''Ponman''),
    (''hp'', PInt 240),
    (''attack'', PInt 8),
    (''defense'', PInt 2),
    (''folder'', PStr ''Ponman''),
    (''dialogue'', PList [
      PStr ''* Ponman trots forward!'',
      PStr ''* Ponman neighs proudly.'',
      PStr ''* Smells like hay.'']),
    (''acts'', PList [
      PDict [(''name'', PStr ''Check''), (''effect'', PStr ''check'')],
      PDict [
        (''name'', PStr ''Pet''),
        (''effect'', PStr ''pet''),
        (''text'', PStr ''* You pet Ponman.''),
        (''mercyIncrease'', PInt 30)]])]"

definition dre_bloxer :: pyval where
  "dre_bloxer = PDict [
    (''name'', PStr ''Bloxer''),
    (''hp'', PInt 280),
    (''attack'', PInt 9),
    (''defense'', PInt 2),
    (''folder'', PStr ''Bloxer''),
    (''dialogue'', PList [
      PStr ''* Bloxer blocks your path!'',
      PStr ''* Bloxer is training.'',
      PStr ''* Smells like a gym.'']),
    (''acts'', PList [
      PDict [(''name'', PStr ''Check''), (''effect'', PStr ''check'')],
      PDict [
        (''name'', PStr ''Spar''),
        (''effect'', PStr ''spar''),
        (''text'', PStr ''* You spar with Bloxer.''),
        (''mercyIncrease'', PInt 30)]])]"

definition dre_starwalker :: pyval where
  "dre_starwalker = PDict [
    (''name'', PStr ''Starwalker''),
    (''hp'', PInt 300),
    (''attack'', PInt 10),
    (''defense'', PInt 3),
    (''folder'', PStr ''Starwalker''),
    (''dialogue'', PList [
      PStr ''* These birds are pissing me off...'',
      PStr ''* I'm the original                  Starwalker.'',
      PStr ''* Smells like stardust.'']),
    (''acts'', PList [
      PDict [(''name'', PStr ''Check''), (''effect'', PStr ''check'')],
      PDict [
        (''name'', PStr ''Original''),
        (''effect'', PStr ''original''),
        (''text'', PStr ''* You acknowledge the original        Starwalker.''),
        (''mercyIncrease'', PInt 50)]])]"

text \<open>The list \<^verbatim>\<open>ch1_enemies\<close> of generate_deltarune_enemies.py.\<close>

definition ch1_enemies :: "pyval list" where
  "ch1_enemies =
  [dre_rudinn,
   dre_hathy,
   dre_jigsawry,
   dre_ponman,
   dre_bloxer,
   dre_starwalker]"

definition dre_virovirokun :: pyval where
  "dre_virovirokun = PDict [
    (''name'', PStr ''Virovirokun''),
    (''hp'', PInt 250),
    (''attack'', PInt 8),
    (''defense'', PInt 1),
    (''folder'', PStr ''Virovirokun''),
    (''dialogue'', PList [
      PStr ''* Virovirokun is loading...'',
      PStr ''* Virovirokun downloaded something.'',
      PStr ''* Smells like malware.'']),
    (''acts'', PList [
      PDict [(''name'', PStr ''Check''), (''effect'', PStr ''check'')],
      PDict [
        (''name'', PStr ''Clean''),
        (''effect'', PStr ''clean''),
        (''text'', PStr ''* You clean Virovirokun.''),
        (''mercyIncrease'', PInt 30)]])]"

definition dre_ambyu_lance :: pyval where
  "dre_ambyu_lance = PDict [
    (''name'', PStr ''Ambyu-Lance''),
    (''hp'', PInt 270),
    (''attack'', PInt 9),
    (''defense'', PInt 2),
    (''folder'', PStr ''Ambyu Lance''),
    (''dialogue'', PList [
      PStr ''* Ambyu-Lance speeds forward!'',
      PStr ''* Ambyu-Lance sirens loudly.'',
      PStr ''* Smells like antiseptic.'']),
    (''acts'', PList [
      PDict [(''name'', PStr ''Check''), (''effect'', PStr ''check'')],
      PDict [
        (''name'', PStr ''Call''),
        (''effect'', PStr ''call''),
        (''text'', PStr ''* You call for help. Ambyu-Lance is pleased.''),
        (''mercyIncrease'', PInt 40)]])]"

definition dre_werewire :: pyval where
  "dre_werewire = PDict [
    (''name'', PStr ''Werewire''),
    (''hp'', PInt 300),
    (''attack'', PInt 10),
    (''defense'', PInt 2),
    (''folder'', PStr ''Werewire''),
    (''dialogue'', PList [
      PStr ''* Werewire prowls closer!'',
      PStr ''* Werewire howls at the moon.'',
      PStr ''* Smells like copper.'']),
    (''acts'', PList [
      PDict [(''name'', PStr ''Check''), (''effect'', PStr ''check'')],
      PDict [
        (''name'', PStr ''Pet''),
        (''effect'', PStr ''pet''),
        (''text'', PStr ''* You pet Werewire.''),
        (''mercyIncrease'', PInt 30)]])]"

definition dre_tasque :: pyval where
  "dre_tasque = PDict [
    (''name'', PStr ''Tasque''),
    (''hp'', PInt 230),
    (''attack'', PInt 8),
    (''defense'', PInt 1),
    (''folder'', PStr ''Tasque''),
    (''dialogue'', PList [
      PStr ''* Tasque obeys orders!'',
      PStr ''* Tasque meows electronically.'',
      PStr ''* Smells like cat food.'']),
    (''acts'', PList [
      PDict [(''name'', PStr ''Check''), (''effect'', PStr ''check'')],
      PDict [
        (''name'', PStr ''Pet''),
        (''effect'', PStr ''pet''),
        (''text'', PStr ''* You pet Tasque. It purrs.''),
        (''mercyIncrease'', PInt 35)]])]"

definition dre_maus :: pyval where
  "dre_maus = PDict [
    (''name'', PStr ''Maus''),
    (''hp'', PInt 200),
    (''attack'', PInt 7),
    (''defense'', PInt 0),
    (''folder'', PStr ''Maus''),
    (''dialogue'', PList [
      PStr ''* Maus clicks around!'',
      PStr ''* Maus is squeaking.'',
      PStr ''* Smells like circuits.'']),
    (''acts'', PList [
      PDict [(''name'', PStr ''Check''), (''effect'', PStr ''check'')],
      PDict [
        (''name'', PStr ''Click''),
        (''effect'', PStr ''click''),
        (''text'', PStr ''* You click on Maus.''),
        (''mercyIncrease'', PInt 25)]])]"

definition dre_swatchling :: pyval where
  "dre_swatchling = PDict [
    (''name'', PStr ''Swatchling''),
    (''hp'', PInt 350),
    (''attack'', PInt 11),
    (''defense'', PInt 3),
    (''folder'', PStr ''Swatchling''),
    (''dialogue'', PList [
      PStr ''* Swatchling appears!'',
      PStr ''* Swatchling adjusts their palette.'',
      PStr ''* Smells like paint.'']),
    (''acts'', PList [
      PDict [(''name'', PStr ''Check''), (''effect'', PStr ''check'')],
      PDict [
        (''name'', PStr ''Compliment''),
        (''effect'', PStr ''compliment''),
        (''text'', PStr ''* You compliment Swatchling's colors.''),
        (''mercyIncrease'', PInt 40)]])]"

text \<open>The list \<^verbatim>\<open>ch2_enemies\<close> of generate_deltarune_enemies.py.\<close>

definition ch2_enemies :: "pyval list" where
  "ch2_enemies =
  [dre_virovirokun,
   dre_ambyu_lance,
   dre_werewire,
   dre_tasque,
   dre_maus,
   dre_swatchling]"

subsection \<open>generate\_enemies.py\<close>

definition ut_froggit :: pyval where
  "ut_froggit = PDict [
    (''name'', PStr ''Froggit''),
    (''hp'', PInt 30),
    (''attack'', PInt 5),
    (''defense'', PInt 0),
    (''gold'', PInt 2),
    (''exp'', PInt 3),
    (''spareThreshold'', PInt 0),
    (''dialogue'', PList [
      PStr ''* Froggit hops closer.'',
      PStr ''* Froggit makes a frog noise.'',
      PStr ''* The battlefield is filled with\<newline>  the smell of mustard seed.'',
      PStr ''* Froggit doesn't seem to know\<newline>  why it's here.'']),
    (''checkText'', PStr ''ATK 4 DEF 1\<newline>* Life is difficult for this enemy.''),
    (''sprites'', PDict [
      (''idle'', PList [
        PStr ''Battle/Enemies/01 - Ruins/Froggit/spr_froggit_0.png'',
        PStr ''Battle/Enemies/01 - Ruins/Froggit/spr_froggit_1.png'',
        PStr ''Battle/Enemies/01 - Ruins/Froggit/spr_froggit_2.png'',
        PStr ''Battle/Enemies/01 - Ruins/Froggit/spr_froggit_3.png''])]),
    (''acts'', PList [
      PDict [(''name'', PStr ''Check''), (''effect'', PStr ''check'')],
      PDict [
        (''name'', PStr ''Compliment''),
        (''effect'', PStr ''compliment''),
        (''text'', PStr ''* You compliment Froggit.\<newline>* It doesn't seem to understand...''),
        (''mercyIncrease'', PInt 30)],
      PDict [
        (''name'', PStr ''Threaten''),
        (''effect'', PStr ''threaten''),
        (''text'', PStr ''* You threaten Froggit.\<newline>* It starts to hop away.''),
        (''mercyIncrease'', PInt 10)]])]"

definition ut_whimsun :: pyval where
  "ut_whimsun = PDict [
    (''name'', PStr ''Whimsun''),
    (''hp'', PInt 10),
    (''attack'', PInt 5),
    (''defense'', PInt 0),
    (''gold'', PInt 2),
    (''exp'', PInt 2),
    (''spareThreshold'', PInt 0),
    (''dialogue'', PList [
      PStr ''* Whimsun approached meekly!'',
      PStr ''* Whimsun continues to mutter\<newline>  apologies.'',
      PStr ''* Whimsun is hyperventilating.'',
      PStr ''* Whimsun is thinking about\<newline>  its friend.'']),
    (''checkText'', PStr ''ATK 5 DEF 0\<newline>* This monster is too sensitive\<newline>  to fight...''),
    (''sprites'', PDict [(''idle'', PList [PStr ''Battle/Enemies/01 - Ruins/Whimsun/spr_whimsun_0.png''])]),
    (''acts'', PList [
      PDict [(''name'', PStr ''Check''), (''effect'', PStr ''check'')],
      PDict [
        (''name'', PStr ''Console''),
        (''effect'', PStr ''console''),
        (''text'', PStr ''* You console Whimsun.\<newline>* Its eyes glimmer with tears...''),
        (''mercyIncrease'', PInt 100)],
      PDict [
        (''name'', PStr ''Terrorize''),
        (''effect'', PStr ''terrorize''),
        (''text'', PStr ''* You wiggle your arms at Whimsun.\<newline>* Whimsun freaks out!''),
        (''mercyIncrease'', PInt 100)]])]"

definition ut_moldsmal :: pyval where
  "ut_moldsmal = PDict [
    (''name'', PStr ''Moldsmal''),
    (''hp'', PInt 50),
    (''attack'', PInt 6),
    (''defense'', PInt 0),
    (''gold'', PInt 3),
    (''exp'', PInt 3),
    (''spareThreshold'', PInt 0),
    (''dialogue'', PList [
      PStr ''* Moldsmal wavers around.'',
      PStr ''* Moldsmal burbles quietly.'',
      PStr ''* Moldsmal is pondering something.'',
      PStr ''* Smells like sweet lemons.'']),
    (''checkText'', PStr ''ATK 6 DEF 0\<newline>* Stereotypical: Curvaceously\<newline>  attractive, but no brains...''),
    (''sprites'', PDict [
      (''idle'', PList [
        PStr ''Battle/Enemies/01 - Ruins/Moldsmal/spr_moldsmal_0.png'',
        PStr ''Battle/Enemies/01 - Ruins/Moldsmal/spr_moldsmal_1.png''])]),
    (''acts'', PList [
      PDict [(''name'', PStr ''Check''), (''effect'', PStr ''check'')],
      PDict [
        (''name'', PStr ''Imitate''),
        (''effect'', PStr ''imitate''),
        (''text'', PStr ''* You lie on the ground and wiggle.\<newline>* Moldsmal is flattered.''),
        (''mercyIncrease'', PInt 30)],
      PDict [
        (''name'', PStr ''Flirt''),
        (''effect'', PStr ''flirt''),
        (''text'', PStr ''* You wiggle your hips.\<newline>* Moldsmal wiggles back.''),
        (''mercyIncrease'', PInt 50)]])]"

definition ut_loox :: pyval where
  "ut_loox = PDict [
    (''name'', PStr ''Loox''),
    (''hp'', PInt 50),
    (''attack'', PInt 6),
    (''defense'', PInt 6),
    (''gold'', PInt 5),
    (''exp'', PInt 5),
    (''spareThreshold'', PInt 0),
    (''dialogue'', PList [
      PStr ''* Loox draws near!'',
      PStr ''* Loox stares at you.'',
      PStr ''* Loox is suspicious of you.'',
      PStr ''* Loox gnashes its teeth.'']),
    (''checkText'', PStr ''ATK 6 DEF 6\<newline>* Don't pick on.\<newline>* Family name: Eyewalker.''),
    (''sprites'', PDict [(''idle'', PList [PStr ''Battle/Enemies/01 - Ruins/Loox/spr_loox_0.png''])]),
    (''acts'', PList [
      PDict [(''name'', PStr ''Check''), (''effect'', PStr ''check'')],
      PDict [
        (''name'', PStr ''Pick On''),
        (''effect'', PStr ''pickon''),
        (''text'', PStr ''* You pick on Loox.\<newline>* Its defense dropped!''),
        (''mercyIncrease'', PInt 30)],
      PDict [
        (''name'', PStr ''Don't Pick On''),
        (''effect'', PStr ''dontpickon''),
        (''text'', PStr ''* You don't pick on Loox.\<newline>* Loox appreciates your restraint.''),
        (''mercyIncrease'', PInt 50)]])]"

definition ut_vegetoid :: pyval where
  "ut_vegetoid = PDict [
    (''name'', PStr ''Vegetoid''),
    (''hp'', PInt 72),
    (''attack'', PInt 6),
    (''defense'', PInt 2),
    (''gold'', PInt 4),
    (''exp'', PInt 5),
    (''spareThreshold'', PInt 0),
    (''dialogue'', PList [
      PStr ''* Vegetoid came out of the earth!'',
      PStr ''* Vegetoid settles down.'',
      PStr ''* Vegetoid offers you a healthy meal.'',
      PStr ''* Smells like apple juice.'']),
    (''checkText'', PStr ''ATK 6 DEF 2\<newline>* Serving Size: 1 Monster.\<newline>  Not monitored by the USDA.''),
    (''sprites'', PDict [(''idle'', PList [PStr ''Battle/Enemies/01 - Ruins/Vegetoid/spr_vegetoid_0.png''])]),
    (''acts'', PList [
      PDict [(''name'', PStr ''Check''), (''effect'', PStr ''check'')],
      PDict [
        (''name'', PStr ''Dinner''),
        (''effect'', PStr ''dinner''),
        (''text'', PStr ''* You ask Vegetoid for dinner.\<newline>* It offers you a healthy meal!''),
        (''mercyIncrease'', PInt 50)],
      PDict [
        (''name'', PStr ''Devour''),
        (''effect'', PStr ''devour''),
        (''text'', PStr ''* You eat Vegetoid's vegetables.\<newline>* Your HP was maxed out!''),
        (''mercyIncrease'', PInt 100)]])]"

definition ut_migosp :: pyval where
  "ut_migosp = PDict [
    (''name'', PStr ''Migosp''),
    (''hp'', PInt 40),
    (''attack'', PInt 7),
    (''defense'', PInt 0),
    (''gold'', PInt 3),
    (''exp'', PInt 5),
    (''spareThreshold'', PInt 0),
    (''dialogue'', PList [
      PStr ''* Migosp comes near!'',
      PStr ''* Migosp is thinking about\<newline>  its friends.'',
      PStr ''* Migosp dances around.'',
      PStr ''* Smells like a combination of  \<newline>  plums, clams, and bleach.'']),
    (''checkText'', PStr ''ATK 7 DEF 0\<newline>* Seems evil, but it's just\<newline>  with the wrong crowd...''),
    (''sprites'', PDict [(''idle'', PList [PStr ''Battle/Enemies/01 - Ruins/Migosp/spr_migosp_0.png''])]),
    (''acts'', PList [
      PDict [(''name'', PStr ''Check''), (''effect'', PStr ''check'')],
      PDict [
        (''name'', PStr ''Talk''),
        (''effect'', PStr ''talk''),
        (''text'', PStr ''* You talk to Migosp.\<newline>* Seems comfortable here.''),
        (''mercyIncrease'', PInt 0)]])]"

definition ut_napstablook :: pyval where
  "ut_napstablook = PDict [
    (''name'', PStr ''Napstablook''),
    (''hp'', PInt 88),
    (''attack'', PInt 10),
    (''defense'', PInt 255),
    (''gold'', PInt 0),
    (''exp'', PInt 0),
    (''spareThreshold'', PInt 0),
    (''dialogue'', PList [
      PStr ''* napstablook...'',
      PStr ''* i'm sorry...'',
      PStr ''* i'm just really...\<newline>  ...tired...'',
      PStr ''* oh no...'']),
    (''checkText'', PStr ''ATK 10 DEF -40\<newline>* This monster is really feeling\<newline>  'it'... whatever 'it' is.''),
    (''sprites'', PDict [
      (''idle'', PList [
        PStr ''Battle/Enemies/01 - Ruins/Napstablook/spr_napstabattle_0.png'',
        PStr ''Battle/Enemies/01 - Ruins/Napstablook/spr_napstabattle_1.png''])]),
    (''acts'', PList [
      PDict [(''name'', PStr ''Check''), (''effect'', PStr ''check'')],
      PDict [
        (''name'', PStr ''Cheer''),
        (''effect'', PStr ''cheer''),
        (''text'', PStr ''* You console Napstablook.\<newline>* Its ATTACK dropped!''),
        (''mercyIncrease'', PInt 20)],
      PDict [
        (''name'', PStr ''Flirt''),
        (''effect'', PStr ''flirt''),
        (''text'', PStr ''* You flirt with Napstablook.\<newline>  uh... no thanks...''),
        (''mercyIncrease'', PInt 10)]])]"

definition ut_dummy :: pyval where
  "ut_dummy = PDict [
    (''name'', PStr ''Dummy''),
    (''hp'', PInt 15),
    (''attack'', PInt 0),
    (''defense'', PInt 0),
    (''gold'', PInt 0),
    (''exp'', PInt 0),
    (''spareThreshold'', PInt 0),
    (''dialogue'', PList [
      PStr ''* The dummy stands there motionless.'',
      PStr ''* Cotton is spilling out of the dummy.'',
      PStr ''* The dummy is giving you a blank stare.'']),
    (''checkText'', PStr ''ATK 0 DEF 0\<newline>* A cotton heart and a button eye.\<newline>  You are the apple of its eye.''),
    (''sprites'', PDict [
      (''idle'', PList [PStr ''Battle/Enemies/01 - Ruins/Dummy/spr_dummyfight_glad_0.png''])]),
    (''acts'', PList [
      PDict [(''name'', PStr ''Check''), (''effect'', PStr ''check'')],
      PDict [
        (''name'', PStr ''Talk''),
        (''effect'', PStr ''talk''),
        (''text'', PStr ''* You talk to the dummy.\<newline>* It seems happy.''),
        (''mercyIncrease'', PInt 100)],
      PDict [
        (''name'', PStr ''Hug''),
        (''effect'', PStr ''hug''),
        (''text'', PStr ''* You hug the dummy.\<newline>* It's soft and fluffy...''),
        (''mercyIncrease'', PInt 100)]])]"

definition ut_snowdrake :: pyval where
  "ut_snowdrake = PDict [
    (''name'', PStr ''Snowdrake''),
    (''hp'', PInt 74),
    (''attack'', PInt 7),
    (''defense'', PInt 0),
    (''gold'', PInt 6),
    (''exp'', PInt 6),
    (''spareThreshold'', PInt 0),
    (''dialogue'', PList [
      PStr ''* Snowdrake comes flying in!'',
      PStr ''* Snowdrake is checking you out.'',
      PStr ''* Snowdrake has frozen over.'',
      PStr ''* Smells like... snow.'']),
    (''checkText'', PStr ''ATK 7 DEF 0\<newline>* This teen comedian fights to\<newline>  keep a captive audience.''),
    (''sprites'', PDict [(''idle'', PList [PStr ''Battle/Enemies/02 - Snowdin/Snowdrake/spr_icecap_0.png''])]),
    (''acts'', PList [
      PDict [(''name'', PStr ''Check''), (''effect'', PStr ''check'')],
      PDict [
        (''name'', PStr ''Joke''),
        (''effect'', PStr ''joke''),
        (''text'', PStr ''* You make a joke.\<newline>* Snowdrake laughs!''),
        (''mercyIncrease'', PInt 30)],
      PDict [
        (''name'', PStr ''Heckle''),
        (''effect'', PStr ''heckle''),
        (''text'', PStr ''* You heckle Snowdrake.\<newline>* Its confidence wavers...''),
        (''mercyIncrease'', PInt 30)]])]"

definition ut_icecap :: pyval where
  "ut_icecap = PDict [
    (''name'', PStr ''Ice Cap''),
    (''hp'', PInt 48),
    (''attack'', PInt 6),
    (''defense'', PInt 3),
    (''gold'', PInt 5),
    (''exp'', PInt 4),
    (''spareThreshold'', PInt 0),
    (''dialogue'', PList [
      PStr ''* Ice Cap appears!'',
      PStr ''* Ice Cap is thinking about\<newline>  its hat.'',
      PStr ''* Ice Cap is freezing.'',
      PStr ''* Smells like icicles.'']),
    (''checkText'', PStr ''ATK 6 DEF 3\<newline>* This teen wonders why it isn't\<newline>  named 'Ice Hat'.''),
    (''sprites'', PDict [(''idle'', PList [PStr ''Battle/Enemies/02 - Snowdin/Icecap/spr_icecap_0.png''])]),
    (''acts'', PList [
      PDict [(''name'', PStr ''Check''), (''effect'', PStr ''check'')],
      PDict [
        (''name'', PStr ''Steal Hat''),
        (''effect'', PStr ''steal''),
        (''text'', PStr ''* You stole Ice Cap's hat.\<newline>* Ice Cap is bare!''),
        (''mercyIncrease'', PInt 100)],
      PDict [
        (''name'', PStr ''Ignore''),
        (''effect'', PStr ''ignore''),
        (''text'', PStr ''* You ignore Ice Cap.''),
        (''mercyIncrease'', PInt 10)]])]"

definition ut_gyftrot :: pyval where
  "ut_gyftrot = PDict [
    (''name'', PStr ''Gyftrot''),
    (''hp'', PInt 108),
    (''attack'', PInt 7),
    (''defense'', PInt 3),
    (''gold'', PInt 15),
    (''exp'', PInt 8),
    (''spareThreshold'', PInt 0),
    (''dialogue'', PList [
      PStr ''* Gyftrot appears!'',
      PStr ''* Gyftrot is sighing.'',
      PStr ''* Gyftrot is annoyed.'',
      PStr ''* Smells like pine trees.'']),
    (''checkText'', PStr ''ATK 7 DEF 3\<newline>* Wonders why people are so\<newline>  horrible to each other.''),
    (''sprites'', PDict [(''idle'', PList [PStr ''Battle/Enemies/02 - Snowdin/Gyftrot/spr_gyftrot_0.png''])]),
    (''acts'', PList [
      PDict [(''name'', PStr ''Check''), (''effect'', PStr ''check'')],
      PDict [
        (''name'', PStr ''Undecorate''),
        (''effect'', PStr ''undecorate''),
        (''text'', PStr ''* You remove the decorations.\<newline>* Gyftrot feels much better!''),
        (''mercyIncrease'', PInt 50)],
      PDict [
        (''name'', PStr ''Decorate''),
        (''effect'', PStr ''decorate''),
        (''text'', PStr ''* You add more decorations.\<newline>* Gyftrot sighs even louder...''),
        (''mercyIncrease'', PInt 0)]])]"

definition ut_jerry :: pyval where
  "ut_jerry = PDict [
    (''name'', PStr ''Jerry''),
    (''hp'', PInt 100),
    (''attack'', PInt 7),
    (''defense'', PInt 1),
    (''gold'', PInt 1),
    (''exp'', PInt 1),
    (''spareThreshold'', PInt 0),
    (''dialogue'', PList [
      PStr ''* Jerry clings to you!'',
      PStr ''* Jerry eats powdery food\<newline>  and licks its hands proudly.'',
      PStr ''* Jerry ditches its friend to\<newline>  talk to you.'',
      PStr ''* Smells like... Jerry.'']),
    (''checkText'', PStr ''ATK 7 DEF 1\<newline>* Everybody knows Jerry.\<newline>* Attack when it's not looking.''),
    (''sprites'', PDict [(''idle'', PList [PStr ''Battle/Enemies/02 - Snowdin/Jerry/spr_jerry_0.png''])]),
    (''acts'', PList [
      PDict [(''name'', PStr ''Check''), (''effect'', PStr ''check'')],
      PDict [
        (''name'', PStr ''Ditch''),
        (''effect'', PStr ''ditch''),
        (''text'', PStr ''* You ditch Jerry.\<newline>* Everyone is relieved!''),
        (''mercyIncrease'', PInt 100)]])]"

definition ut_aaron :: pyval where
  "ut_aaron = PDict [
    (''name'', PStr ''Aaron''),
    (''hp'', PInt 98),
    (''attack'', PInt 8),
    (''defense'', PInt 0),
    (''gold'', PInt 10),
    (''exp'', PInt 7),
    (''spareThreshold'', PInt 0),
    (''dialogue'', PList [
      PStr ''* Aaron appears!'',
      PStr ''* Aaron is flexing.'',
      PStr ''* Aaron is admiring himself.'',
      PStr ''* Smells like musk.'']),
    (''checkText'', PStr ''ATK 8 DEF 0\<newline>* This seahorse has a lot of\<newline>  HP. Don't just hack away...''),
    (''sprites'', PDict [(''idle'', PList [PStr ''Battle/Enemies/03 - Waterfall/Aaron/spr_aaron_0.png''])]),
    (''acts'', PList [
      PDict [(''name'', PStr ''Check''), (''effect'', PStr ''check'')],
      PDict [
        (''name'', PStr ''Flex''),
        (''effect'', PStr ''flex''),
        (''text'', PStr ''* You flex your muscles.\<newline>* Aaron is impressed!''),
        (''mercyIncrease'', PInt 40)],
      PDict [
        (''name'', PStr ''Flirt''),
        (''effect'', PStr ''flirt''),
        (''text'', PStr ''* You flirt with Aaron.\<newline>  Aaron's face gets redder...''),
        (''mercyIncrease'', PInt 40)]])]"

definition ut_woshua :: pyval where
  "ut_woshua = PDict [
    (''name'', PStr ''Woshua''),
    (''hp'', PInt 70),
    (''attack'', PInt 7),
    (''defense'', PInt 1),
    (''gold'', PInt 8),
    (''exp'', PInt 5),
    (''spareThreshold'', PInt 0),
    (''dialogue'', PList [
      PStr ''* Woshua appears!'',
      PStr ''* Woshua is judging your\<newline>  cleanliness.'',
      PStr ''* Woshua is scrubbing furiously.'',
      PStr ''* Smells like disinfectant.'']),
    (''checkText'', PStr ''ATK 7 DEF 1\<newline>* This humble germaphobe seeks\<newline>  to cleanse the whole world.''),
    (''sprites'', PDict [(''idle'', PList [PStr ''Battle/Enemies/03 - Waterfall/Woshua/spr_woshua_0.png''])]),
    (''acts'', PList [
      PDict [(''name'', PStr ''Check''), (''effect'', PStr ''check'')],
      PDict [
        (''name'', PStr ''Clean''),
        (''effect'', PStr ''clean''),
        (''text'', PStr ''* You let Woshua clean you.\<newline>* Woshua is satisfied!''),
        (''mercyIncrease'', PInt 100)],
      PDict [
        (''name'', PStr ''Joke''),
        (''effect'', PStr ''joke''),
        (''text'', PStr ''* You make a dirty joke.\<newline>* Woshua is disgusted!''),
        (''mercyIncrease'', PInt 0)]])]"

definition ut_moldbygg :: pyval where
  "ut_moldbygg = PDict [
    (''name'', PStr ''Moldbygg''),
    (''hp'', PInt 80),
    (''attack'', PInt 8),
    (''defense'', PInt 0),
    (''gold'', PInt 10),
    (''exp'', PInt 8),
    (''spareThreshold'', PInt 0),
    (''dialogue'', PList [
      PStr ''* Moldbygg wavers forward.'',
      PStr ''* Moldbygg is oozing.'',
      PStr ''* Moldbygg burbles.'',
      PStr ''* Smells like vanilla.'']),
    (''checkText'', PStr ''ATK 8 DEF 0\<newline>* Huge, hulking, unscary.\<newline>* Looking for love.''),
    (''sprites'', PDict [
      (''idle'', PList [PStr ''Battle/Enemies/03 - Waterfall/Moldbygg/spr_moldbygg_0.png''])]),
    (''acts'', PList [
      PDict [(''name'', PStr ''Check''), (''effect'', PStr ''check'')],
      PDict [
        (''name'', PStr ''Lie Down''),
        (''effect'', PStr ''lie''),
        (''text'', PStr ''* You lie on the ground.\<newline>* Moldbygg lies on top of you!''),
        (''mercyIncrease'', PInt 50)],
      PDict [
        (''name'', PStr ''Unhug''),
        (''effect'', PStr ''unhug''),
        (''text'', PStr ''* You push Moldbygg off.\<newline>* Moldbygg gets the hint.''),
        (''mercyIncrease'', PInt 50)]])]"

definition ut_shyren :: pyval where
  "ut_shyren = PDict [
    (''name'', PStr ''Shyren''),
    (''hp'', PInt 66),
    (''attack'', PInt 7),
    (''defense'', PInt 0),
    (''gold'', PInt 9),
    (''exp'', PInt 4),
    (''spareThreshold'', PInt 0),
    (''dialogue'', PList [
      PStr ''* Shyren hums a melody.'',
      PStr ''* Shyren trebles with fear.'',
      PStr ''* Shyren is humming.'',
      PStr ''* Smells like music.'']),
    (''checkText'', PStr ''ATK 7 DEF 0\<newline>* A talented musician\<newline>  but she's too shy to sing.''),
    (''sprites'', PDict [(''idle'', PList [PStr ''Battle/Enemies/03 - Waterfall/Shyren/spr_shyren_0.png''])]),
    (''acts'', PList [
      PDict [(''name'', PStr ''Check''), (''effect'', PStr ''check'')],
      PDict [
        (''name'', PStr ''Hum''),
        (''effect'', PStr ''hum''),
        (''text'', PStr ''* You hum along with Shyren.\<newline>* Shyren grows confident!''),
        (''mercyIncrease'', PInt 30)],
      PDict [
        (''name'', PStr ''Sing''),
        (''effect'', PStr ''sing''),
        (''text'', PStr ''* You sing to Shyren.\<newline>* Shyren is happy!''),
        (''mercyIncrease'', PInt 50)]])]"

definition ut_vulkin :: pyval where
  "ut_vulkin = PDict [
    (''name'', PStr ''Vulkin''),
    (''hp'', PInt 66),
    (''attack'', PInt 9),
    (''defense'', PInt 0),
    (''gold'', PInt 10),
    (''exp'', PInt 6),
    (''spareThreshold'', PInt 0),
    (''dialogue'', PList [
      PStr ''* Vulkin erupts!'',
      PStr ''* Vulkin is warming up.'',
      PStr ''* Vulkin wants to be popular.'',
      PStr ''* Smells like hot springs.'']),
    (''checkText'', PStr ''ATK 9 DEF 0\<newline>* Hotheaded. Tries to calm\<newline>  people down with hugs.''),
    (''sprites'', PDict [(''idle'', PList [PStr ''Battle/Enemies/04 - Hotland/Vulkin/spr_vulkin_0.png''])]),
    (''acts'', PList [
      PDict [(''name'', PStr ''Check''), (''effect'', PStr ''check'')],
      PDict [
        (''name'', PStr ''Encourage''),
        (''effect'', PStr ''encourage''),
        (''text'', PStr ''* You encourage Vulkin.\<newline>* Vulkin is pumped up!''),
        (''mercyIncrease'', PInt 30)],
      PDict [
        (''name'', PStr ''Hug''),
        (''effect'', PStr ''hug''),
        (''text'', PStr ''* You hug Vulkin.\<newline>* Vulkin is cooled down!''),
        (''mercyIncrease'', PInt 50)]])]"

definition ut_tsunderplane :: pyval where
  "ut_tsunderplane = PDict [
    (''name'', PStr ''Tsunderplane''),
    (''hp'', PInt 95),
    (''attack'', PInt 9),
    (''defense'', PInt 4),
    (''gold'', PInt 10),
    (''exp'', PInt 7),
    (''spareThreshold'', PInt 0),
    (''dialogue'', PList [
      PStr ''* Tsunderplane flies in!'',
      PStr ''* Tsunderplane is tsun-tsun.'',
      PStr ''* Tsunderplane is wavering.'',
      PStr ''* Smells like airplane food.'']),
    (''checkText'', PStr ''ATK 9 DEF 4\<newline>* Seems mean, but does it secretly\<newline>  like you?''),
    (''sprites'', PDict [
      (''idle'', PList [PStr ''Battle/Enemies/04 - Hotland/Tsunderplane/spr_tsunderplane_0.png''])]),
    (''acts'', PList [
      PDict [(''name'', PStr ''Check''), (''effect'', PStr ''check'')],
      PDict [
        (''name'', PStr ''Approach''),
        (''effect'', PStr ''approach''),
        (''text'', PStr ''* You approach Tsunderplane.\<newline>* I-it's not like I like you!''),
        (''mercyIncrease'', PInt 30)],
      PDict [
        (''name'', PStr ''Compliment''),
        (''effect'', PStr ''compliment''),
        (''text'', PStr ''* You compliment Tsunderplane.\<newline>* B-baka...!''),
        (''mercyIncrease'', PInt 50)]])]"

definition ut_pyrope :: pyval where
  "ut_pyrope = PDict [
    (''name'', PStr ''Pyrope''),
    (''hp'', PInt 110),
    (''attack'', PInt 10),
    (''defense'', PInt 0),
    (''gold'', PInt 12),
    (''exp'', PInt 10),
    (''spareThreshold'', PInt 0),
    (''dialogue'', PList [
      PStr ''* Pyrope bursts in!'',
      PStr ''* Pyrope is jumping around.'',
      PStr ''* Pyrope is heating up.'',
      PStr ''* Smells like fireworks.'']),
    (''checkText'', PStr ''ATK 10 DEF 0\<newline>* This hotheaded youngster\<newline>  is itching for a fight.''),
    (''sprites'', PDict [(''idle'', PList [PStr ''Battle/Enemies/04 - Hotland/Pyrope/spr_pyrope_0.png''])]),
    (''acts'', PList [
      PDict [(''name'', PStr ''Check''), (''effect'', PStr ''check'')],
      PDict [
        (''name'', PStr ''Heat Up''),
        (''effect'', PStr ''heat''),
        (''text'', PStr ''* You encourage Pyrope.\<newline>* Pyrope burns brighter!''),
        (''mercyIncrease'', PInt 30)],
      PDict [
        (''name'', PStr ''Cool Down''),
        (''effect'', PStr ''cool''),
        (''text'', PStr ''* You cool Pyrope down.\<newline>* Pyrope feels better!''),
        (''mercyIncrease'', PInt 50)]])]"

definition ut_muffet :: pyval where
  "ut_muffet = PDict [
    (''name'', PStr ''Muffet''),
    (''hp'', PInt 1250),
    (''attack'', PInt 10),
    (''defense'', PInt 0),
    (''gold'', PInt 350),
    (''exp'', PInt 100),
    (''spareThreshold'', PInt 0),
    (''dialogue'', PList [
      PStr ''* Muffet traps you!'',
      PStr ''* Muffet giggles.'',
      PStr ''* Muffet is checking her\<newline>  account balance.'',
      PStr ''* Smells like cobwebs and donuts.'']),
    (''checkText'', PStr ''ATK 10 DEF 0\<newline>* If she invites you to her\<newline>  parlor, excuse yourself.''),
    (''sprites'', PDict [(''idle'', PList [PStr ''Battle/Characters/Muffet/spr_muffet_0.png''])]),
    (''acts'', PList [
      PDict [(''name'', PStr ''Check''), (''effect'', PStr ''check'')],
      PDict [
        (''name'', PStr ''Pay''),
        (''effect'', PStr ''pay''),
        (''text'', PStr ''* You pay Muffet.\<newline>* Muffet lets you go!''),
        (''mercyIncrease'', PInt 100)],
      PDict [
        (''name'', PStr ''Struggle''),
        (''effect'', PStr ''struggle''),
        (''text'', PStr ''* You struggle in the web.''),
        (''mercyIncrease'', PInt 10)]])]"

definition ut_final_froggit :: pyval where
  "ut_final_froggit = PDict [
    (''name'', PStr ''Final Froggit''),
    (''hp'', PInt 100),
    (''attack'', PInt 10),
    (''defense'', PInt 5),
    (''gold'', PInt 15),
    (''exp'', PInt 10),
    (''spareThreshold'', PInt 0),
    (''dialogue'', PList [
      PStr ''* Final Froggit hops in!'',
      PStr ''* Final Froggit is pondering\<newline>  the universe.'',
      PStr ''* Final Froggit ribbits wisely.'',
      PStr ''* Smells like ancient wisdom.'']),
    (''checkText'', PStr ''ATK 10 DEF 5\<newline>* This frog has lived a long time\<newline>  and has sage advice.''),
    (''sprites'', PDict [
      (''idle'', PList [PStr ''Battle/Enemies/05 - Core/Final Froggit/spr_finalfroggit_0.png''])]),
    (''acts'', PList [
      PDict [(''name'', PStr ''Check''), (''effect'', PStr ''check'')],
      PDict [
        (''name'', PStr ''Compliment''),
        (''effect'', PStr ''compliment''),
        (''text'', PStr ''* You compliment Final Froggit.\<newline>* It nods knowingly.''),
        (''mercyIncrease'', PInt 40)],
      PDict [
        (''name'', PStr ''Mystify''),
        (''effect'', PStr ''mystify''),
        (''text'', PStr ''* You tell Final Froggit something\<newline>  mystical. It's satisfied.''),
        (''mercyIncrease'', PInt 100)]])]"

definition ut_whimsalot :: pyval where
  "ut_whimsalot = PDict [
    (''name'', PStr ''Whimsalot''),
    (''hp'', PInt 95),
    (''attack'', PInt 10),
    (''defense'', PInt 2),
    (''gold'', PInt 12),
    (''exp'', PInt 8),
    (''spareThreshold'', PInt 0),
    (''dialogue'', PList [
      PStr ''* Whimsalot swoops in!'',
      PStr ''* Whimsalot is confident.'',
      PStr ''* Whimsalot is flying strong.'',
      PStr ''* Smells like confidence.'']),
    (''checkText'', PStr ''ATK 10 DEF 2\<newline>* Upgraded. Optimistic.\<newline>  Still scared of you.''),
    (''sprites'', PDict [(''idle'', PList [PStr ''Battle/Enemies/05 - Core/Whimsalot/spr_whimsalot_0.png''])]),
    (''acts'', PList [
      PDict [(''name'', PStr ''Check''), (''effect'', PStr ''check'')],
      PDict [
        (''name'', PStr ''Console''),
        (''effect'', PStr ''console''),
        (''text'', PStr ''* You console Whimsalot.\<newline>* Whimsalot calms down.''),
        (''mercyIncrease'', PInt 50)],
      PDict [
        (''name'', PStr ''Terrorize''),
        (''effect'', PStr ''terrorize''),
        (''text'', PStr ''* You terrorize Whimsalot.\<newline>* Whimsalot flies away!''),
        (''mercyIncrease'', PInt 100)]])]"

definition ut_astigmatism :: pyval where
  "ut_astigmatism = PDict [
    (''name'', PStr ''Astigmatism''),
    (''hp'', PInt 110),
    (''attack'', PInt 10),
    (''defense'', PInt 4),
    (''gold'', PInt 15),
    (''exp'', PInt 10),
    (''spareThreshold'', PInt 0),
    (''dialogue'', PList [
      PStr ''* Astigmatism drew near!'',
      PStr ''* Astigmatism is staring.'',
      PStr ''* Astigmatism is judging you.'',
      PStr ''* Smells like eye drops.'']),
    (''checkText'', PStr ''ATK 10 DEF 4\<newline>* Upgraded. Now has a more\<newline>  sophisticated sense of fashion.''),
    (''sprites'', PDict [
      (''idle'', PList [PStr ''Battle/Enemies/05 - Core/Astigmatism/spr_astigmatism_0.png''])]),
    (''acts'', PList [
      PDict [(''name'', PStr ''Check''), (''effect'', PStr ''check'')],
      PDict [
        (''name'', PStr ''Pick On''),
        (''effect'', PStr ''pickon''),
        (''text'', PStr ''* You pick on Astigmatism.''),
        (''mercyIncrease'', PInt 30)],
      PDict [
        (''name'', PStr ''Don't Pick On''),
        (''effect'', PStr ''dontpickon''),
        (''text'', PStr ''* You don't pick on Astigmatism.\<newline>* It respects you.''),
        (''mercyIncrease'', PInt 50)]])]"

definition ut_knight_knight :: pyval where
  "ut_knight_knight = PDict [
    (''name'', PStr ''Knight Knight''),
    (''hp'', PInt 230),
    (''attack'', PInt 10),
    (''defense'', PInt 8),
    (''gold'', PInt 30),
    (''exp'', PInt 15),
    (''spareThreshold'', PInt 0),
    (''dialogue'', PList [
      PStr ''* Knight Knight blocks the way!'',
      PStr ''* Knight Knight is guarding.'',
      PStr ''* Knight Knight stands firm.'',
      PStr ''* Smells like steel and roses.'']),
    (''checkText'', PStr ''ATK 10 DEF 8\<newline>* This heavy knight fears nothing.\<newline>  Loves its pet cat more than life.''),
    (''sprites'', PDict [
      (''idle'', PList [PStr ''Battle/Enemies/05 - Core/Knight Knight/spr_knightknight_0.png''])]),
    (''acts'', PList [
      PDict [(''name'', PStr ''Check''), (''effect'', PStr ''check'')],
      PDict [
        (''name'', PStr ''Sing''),
        (''effect'', PStr ''sing''),
        (''text'', PStr ''* You sing a lullaby.\<newline>* Knight Knight falls asleep!''),
        (''mercyIncrease'', PInt 100)]])]"

definition ut_madjick :: pyval where
  "ut_madjick = PDict [
    (''name'', PStr ''Madjick''),
    (''hp'', PInt 190),
    (''attack'', PInt 10),
    (''defense'', PInt 5),
    (''gold'', PInt 25),
    (''exp'', PInt 12),
    (''spareThreshold'', PInt 0),
    (''dialogue'', PList [
      PStr ''* Madjick casts a spell!'',
      PStr ''* Madjick is concentrating.'',
      PStr ''* Madjick is muttering\<newline>  incantations.'',
      PStr ''* Smells like magic dust.'']),
    (''checkText'', PStr ''ATK 10 DEF 5\<newline>* This magical mercenary wields\<newline>  strange powers.''),
    (''sprites'', PDict [(''idle'', PList [PStr ''Battle/Enemies/05 - Core/Madjick/spr_madjick_0.png''])]),
    (''acts'', PList [
      PDict [(''name'', PStr ''Check''), (''effect'', PStr ''check'')],
      PDict [
        (''name'', PStr ''Clear Mind''),
        (''effect'', PStr ''clearmind''),
        (''text'', PStr ''* You clear your mind.\<newline>* Madjick's magic is disturbed!''),
        (''mercyIncrease'', PInt 50)]])]"

text \<open>The dictionary \<^verbatim>\<open>ENEMIES\<close> of generate_enemies.py, in insertion order.\<close>

definition ENEMIES :: "(string \<times> pyval) list" where
  "ENEMIES =
  [(''froggit'', ut_froggit),
   (''whimsun'', ut_whimsun),
   (''moldsmal'', ut_moldsmal),
   (''loox'', ut_loox),
   (''vegetoid'', ut_vegetoid),
   (''migosp'', ut_migosp),
   (''napstablook'', ut_napstablook),
   (''dummy'', ut_dummy),
   (''snowdrake'', ut_snowdrake),
   (''icecap'', ut_icecap),
   (''gyftrot'', ut_gyftrot),
   (''jerry'', ut_jerry),
   (''aaron'', ut_aaron),
   (''woshua'', ut_woshua),
   (''moldbygg'', ut_moldbygg),
   (''shyren'', ut_shyren),
   (''vulkin'', ut_vulkin),
   (''tsunderplane'', ut_tsunderplane),
   (''pyrope'', ut_pyrope),
   (''muffet'', ut_muffet),
   (''final_froggit'', ut_final_froggit),
   (''whimsalot'', ut_whimsalot),
   (''astigmatism'', ut_astigmatism),
   (''knight_knight'', ut_knight_knight),
   (''madjick'', ut_madjick)]"

subsection \<open>generate\_missing\_undertale\_enemies.py\<close>

definition miss_chilldrake :: pyval where
  "miss_chilldrake = PDict [
    (''name'', PStr ''Chilldrake''),
    (''hp'', PInt 44),
    (''attack'', PInt 7),
    (''defense'', PInt 0),
    (''gold'', PInt 12),
    (''exp'', PInt 6),
    (''spareThreshold'', PInt 100),
    (''dialogue'', PList [
      PStr ''* Chilldrake saunters up!'',
      PStr ''* Chilldrake is trying to be  \<newline>  cool.'',
      PStr ''* Chilldrake is thinking about  \<newline>  its jokes.'',
      PStr ''* Smells like popsicles.'']),
    (''checkText'', PStr (''ATK 7 DEF 0'' @ CHR 0x5C # ''n* Rebels against everything!!'' @ CHR 0x5C # ''n  Looking for its friend Snowy.'')),
    (''sprites'', PDict [
      (''idle'', PList [PStr ''Battle/Enemies/02 - Snowdin/Ice Drake/spr_icedrakebattle_0.png''])]),
    (''acts'', PList [
      PDict [(''name'', PStr ''Check''), (''effect'', PStr ''check'')],
      PDict [
        (''name'', PStr ''Joke''),
        (''effect'', PStr ''joke''),
        (''text'', PStr (''* You tell a joke.'' @ CHR 0x5C # ''n* Chilldrake laughs!'')),
        (''mercyIncrease'', PInt 40)],
      PDict [
        (''name'', PStr ''Ignore''),
        (''effect'', PStr ''ignore''),
        (''text'', PStr (''* You ignore Chilldrake.'' @ CHR 0x5C # ''n* It gets mad!'')),
        (''mercyIncrease'', PInt 0)]]),
    (''attackPatterns'', PList [
      PDict [
        (''name'', PStr ''Ice Attack''),
        (''duration'', PInt 4500),
        (''waves'', PList [
          PDict [
            (''time'', PInt 0),
            (''type'', PStr ''projectiles''),
            (''count'', PInt 4),
            (''speed'', PFloat 25 1),
            (''size'', PInt 15),
            (''side'', PStr ''top'')],
          PDict [
            (''time'', PInt 1500),
            (''type'', PStr ''projectiles''),
            (''count'', PInt 5),
            (''speed'', PInt 3),
            (''size'', PInt 15),
            (''side'', PStr ''left'')],
          PDict [
            (''time'', PInt 3000),
            (''type'', PStr ''projectiles''),
            (''count'', PInt 4),
            (''speed'', PFloat 25 1),
            (''size'', PInt 15),
            (''side'', PStr ''right'')]])]])]"

definition miss_doggo :: pyval where
  "miss_doggo = PDict [
    (''name'', PStr ''Doggo''),
    (''hp'', PInt 70),
    (''attack'', PInt 8),
    (''defense'', PInt 2),
    (''gold'', PInt 30),
    (''exp'', PInt 30),
    (''spareThreshold'', PInt 100),
    (''dialogue'', PList [
      PStr ''* Doggo blocks the way!'',
      PStr ''* Doggo is fast asleep.'',
      PStr ''* Doggo is questioning your  \<newline>  movements.'',
      PStr ''* Smells like wet dog.'']),
    (''checkText'', PStr (''ATK 8 DEF 2'' @ CHR 0x5C # ''n* Easily excited by movement.'' @ CHR 0x5C # ''n  Hopelessly near-sighted.'')),
    (''sprites'', PDict [(''idle'', PList [PStr ''Battle/Enemies/02 - Snowdin/Doggo/spr_doggo_0.png''])]),
    (''acts'', PList [
      PDict [(''name'', PStr ''Check''), (''effect'', PStr ''check'')],
      PDict [
        (''name'', PStr ''Pet''),
        (''effect'', PStr ''pet''),
        (''text'', PStr (''* You pet Doggo.'' @ CHR 0x5C # ''n* He's so happy!'')),
        (''mercyIncrease'', PInt 100)]]),
    (''attackPatterns'', PList [
      PDict [
        (''name'', PStr ''Blue Sword Sweep''),
        (''duration'', PInt 4000),
        (''waves'', PList [
          PDict [
            (''time'', PInt 500),
            (''type'', PStr ''blue_sweep''),
            (''speed'', PInt 2),
            (''orientation'', PStr ''horizontal'')]])]])]"

definition miss_dogamy_dogaressa :: pyval where
  "miss_dogamy_dogaressa = PDict [
    (''name'', PStr ''Dogamy & Dogaressa''),
    (''hp'', PInt 108),
    (''attack'', PInt 8),
    (''defense'', PInt 4),
    (''gold'', PInt 60),
    (''exp'', PInt 60),
    (''spareThreshold'', PInt 100),
    (''dialogue'', PList [
      PStr ''* This couple cannot be split up!'',
      PStr ''* Dogamy and Dogaressa are  \<newline>  thinking about dinner.'',
      PStr ''* The dogs are practicing  \<newline>  their marriage.'',
      PStr ''* Smells like a sleepover.'']),
    (''checkText'', PStr (''ATK 8 DEF 4'' @ CHR 0x5C # ''n* Husband & wife team!'' @ CHR 0x5C # ''n  Synchronicity is key.'')),
    (''sprites'', PDict [
      (''idle'', PList [PStr ''Battle/Enemies/02 - Snowdin/Dogamy + Dogaressa/spr_marriedbattle_0.png''])]),
    (''acts'', PList [
      PDict [(''name'', PStr ''Check''), (''effect'', PStr ''check'')],
      PDict [
        (''name'', PStr ''Roll Around''),
        (''effect'', PStr ''roll''),
        (''text'', PStr (''* You roll around.'' @ CHR 0x5C # ''n* The dogs are amused!'')),
        (''mercyIncrease'', PInt 30)],
      PDict [
        (''name'', PStr ''Pet''),
        (''effect'', PStr ''pet''),
        (''text'', PStr (''* You pet the dogs.'' @ CHR 0x5C # ''n* They wag their tails!'')),
        (''mercyIncrease'', PInt 70)]]),
    (''attackPatterns'', PList [
      PDict [
        (''name'', PStr ''Double Axes''),
        (''duration'', PInt 5000),
        (''waves'', PList [
          PDict [
            (''time'', PInt 0),
            (''type'', PStr ''axes''),
            (''count'', PInt 2),
            (''speed'', PInt 3),
            (''pattern'', PStr ''heart'')],
          PDict [
            (''time'', PInt 2000),
            (''type'', PStr ''heart_bullets''),
            (''count'', PInt 8),
            (''speed'', PFloat 25 1),
            (''pattern'', PStr ''ring'')],
          PDict [
            (''time'', PInt 3500),
            (''type'', PStr ''axes''),
            (''count'', PInt 2),
            (''speed'', PFloat 35 1),
            (''pattern'', PStr ''heart'')]])]])]"

definition miss_lesser_dog :: pyval where
  "miss_lesser_dog = PDict [
    (''name'', PStr ''Lesser Dog''),
    (''hp'', PInt 60),
    (''attack'', PInt 8),
    (''defense'', PInt 0),
    (''gold'', PInt 25),
    (''exp'', PInt 20),
    (''spareThreshold'', PInt 100),
    (''dialogue'', PList [
      PStr ''* Lesser Dog appeared!'',
      PStr ''* Lesser Dog is barking  \<newline>  excitedly.'',
      PStr ''* Lesser Dog wants to play.'',
      PStr ''* Smells like dog treats.'']),
    (''checkText'', PStr (''ATK 8 DEF 0'' @ CHR 0x5C # ''n* Wields a deadly battle axe.'' @ CHR 0x5C # ''n  Desperate for affection.'')),
    (''sprites'', PDict [
      (''idle'', PList [PStr ''Battle/Enemies/02 - Snowdin/Lesser Dog/spr_lesserdogbattle_0.png''])]),
    (''acts'', PList [
      PDict [(''name'', PStr ''Check''), (''effect'', PStr ''check'')],
      PDict [
        (''name'', PStr ''Pet''),
        (''effect'', PStr ''pet''),
        (''text'', PStr (''* You pet Lesser Dog.'' @ CHR 0x5C # ''n* It gets more excited!'')),
        (''mercyIncrease'', PInt 25)]]),
    (''attackPatterns'', PList [
      PDict [
        (''name'', PStr ''Dog Bark''),
        (''duration'', PInt 4000),
        (''waves'', PList [
          PDict [
            (''time'', PInt 1000),
            (''type'', PStr ''bark''),
            (''count'', PInt 1),
            (''speed'', PInt 4),
            (''orientation'', PStr ''vertical'')]])]])]"

definition miss_greater_dog :: pyval where
  "miss_greater_dog = PDict [
    (''name'', PStr ''Greater Dog''),
    (''hp'', PInt 105),
    (''attack'', PInt 8),
    (''defense'', PInt 4),
    (''gold'', PInt 40),
    (''exp'', PInt 80),
    (''spareThreshold'', PInt 100),
    (''dialogue'', PList [
      PStr ''* Greater Dog shows up!'',
      PStr ''* Greater Dog is watching you  \<newline>  intently.'',
      PStr ''* Greater Dog wants some pets.'',
      PStr ''* Smells like puppy breath.'']),
    (''checkText'', PStr (''ATK 8 DEF 4'' @ CHR 0x5C # ''n* A very excitable dog.'' @ CHR 0x5C # ''n  Unable to see enemies.'')),
    (''sprites'', PDict [
      (''idle'', PList [PStr ''Battle/Enemies/02 - Snowdin/Greater Dog/spr_greatdog_0.png''])]),
    (''acts'', PList [
      PDict [(''name'', PStr ''Check''), (''effect'', PStr ''check'')],
      PDict [
        (''name'', PStr ''Pet''),
        (''effect'', PStr ''pet''),
        (''text'', PStr (''* You pet Greater Dog.'' @ CHR 0x5C # ''n* It's very happy!'')),
        (''mercyIncrease'', PInt 33)]]),
    (''attackPatterns'', PList [
      PDict [
        (''name'', PStr ''Dog Attacks''),
        (''duration'', PInt 5000),
        (''waves'', PList [
          PDict [
            (''time'', PInt 0),
            (''type'', PStr ''dog_head''),
            (''speed'', PInt 2),
            (''color'', PStr ''blue_white'')],
          PDict [
            (''time'', PInt 2500),
            (''type'', PStr ''annoying_dog''),
            (''speed'', PInt 3),
            (''trigger'', PStr ''movement'')]])]])]"

definition miss_temmie :: pyval where
  "miss_temmie = PDict [
    (''name'', PStr ''Temmie''),
    (''hp'', PInt 5),
    (''attack'', PInt 20),
    (''defense'', PInt (-20)),
    (''gold'', PInt 10),
    (''exp'', PInt 0),
    (''spareThreshold'', PInt 100),
    (''dialogue'', PList [
      PStr ''* hOI! i'm tEMMIE!'',
      PStr ''* Temmie vibrates intensely.'',
      PStr ''* Temmie is flexing.'',
      PStr ''* Smells like Temmie Flakes.'']),
    (''checkText'', PStr (''ATK 20 DEF -20'' @ CHR 0x5C # ''n* The cutest thing ever!'' @ CHR 0x5C # ''n  Also forgot enemy name...'')),
    (''sprites'', PDict [
      (''idle'', PList [PStr ''Battle/Enemies/03 - Waterfall/Temmie/spr_temmiebattle_0.png''])]),
    (''acts'', PList [
      PDict [(''name'', PStr ''Check''), (''effect'', PStr ''check'')],
      PDict [
        (''name'', PStr ''Talk''),
        (''effect'', PStr ''talk''),
        (''text'', PStr (''* You talk to Temmie.'' @ CHR 0x5C # ''n* hOI!'')),
        (''mercyIncrease'', PInt 30)],
      PDict [
        (''name'', PStr ''Flex''),
        (''effect'', PStr ''flex''),
        (''text'', PStr (''* You flex at Temmie.'' @ CHR 0x5C # ''n* Temmie does not approve!'')),
        (''mercyIncrease'', PInt 0)]]),
    (''attackPatterns'', PList [
      PDict [
        (''name'', PStr ''Temmie Flakes''),
        (''duration'', PInt 4000),
        (''waves'', PList [
          PDict [
            (''time'', PInt 0),
            (''type'', PStr ''projectiles''),
            (''count'', PInt 6),
            (''speed'', PInt 2),
            (''size'', PInt 12),
            (''side'', PStr ''top'')],
          PDict [
            (''time'', PInt 1500),
            (''type'', PStr ''projectiles''),
            (''count'', PInt 5),
            (''speed'', PFloat 25 1),
            (''size'', PInt 12),
            (''side'', PStr ''left'')]])]])]"

definition miss_mad_dummy :: pyval where
  "miss_mad_dummy = PDict [
    (''name'', PStr ''Mad Dummy''),
    (''hp'', PInt 200),
    (''attack'', PInt 8),
    (''defense'', PInt 7),
    (''gold'', PInt 0),
    (''exp'', PInt 0),
    (''spareThreshold'', PInt 0),
    (''dialogue'', PList [
      PStr ''* Mad Dummy is blocking the way!'',
      PStr ''* Mad Dummy is getting more mad.'',
      PStr ''* Mad Dummy is screaming.'',
      PStr ''* Smells like cotton and rage.'']),
    (''checkText'', PStr (''ATK 8 DEF 7'' @ CHR 0x5C # ''n* Too resilient to give up.'' @ CHR 0x5C # ''n  A possessed training dummy.'')),
    (''sprites'', PDict [
      (''idle'', PList [PStr ''Battle/Enemies/03 - Waterfall/Mad Dummy/spr_maddummy_body.png''])]),
    (''acts'', PList [
      PDict [(''name'', PStr ''Check''), (''effect'', PStr ''check'')],
      PDict [
        (''name'', PStr ''Cheer''),
        (''effect'', PStr ''cheer''),
        (''text'', PStr (''* You cheer.'' @ CHR 0x5C # ''n* Mad Dummy is confused!'')),
        (''mercyIncrease'', PInt 33)]]),
    (''attackPatterns'', PList [
      PDict [
        (''name'', PStr ''Dummy Army''),
        (''duration'', PInt 6000),
        (''waves'', PList [
          PDict [
            (''time'', PInt 0),
            (''type'', PStr ''dummy_swarm''),
            (''count'', PInt 5),
            (''speed'', PInt 2)],
          PDict [
            (''time'', PInt 2000),
            (''type'', PStr ''rockets''),
            (''count'', PInt 3),
            (''speed'', PFloat 35 1)],
          PDict [
            (''time'', PInt 4000),
            (''type'', PStr ''knife''),
            (''count'', PInt 1),
            (''speed'', PInt 4)]])]])]"

definition miss_royal_guards :: pyval where
  "miss_royal_guards = PDict [
    (''name'', PStr ''Royal Guards''),
    (''hp'', PInt 150),
    (''attack'', PInt 9),
    (''defense'', PInt 4),
    (''gold'', PInt 100),
    (''exp'', PInt 140),
    (''spareThreshold'', PInt 100),
    (''dialogue'', PList [
      PStr ''* The Royal Guards appear!'',
      PStr ''* 01 and 02 are on duty.'',
      PStr ''* The guards stand proudly.'',
      PStr ''* Smells like armor polish.'']),
    (''checkText'', PStr (''ATK 9 DEF 4'' @ CHR 0x5C # ''n* These two brothers work'' @ CHR 0x5C # ''n  together as guards.'')),
    (''sprites'', PDict [
      (''idle'', PList [PStr ''Battle/Enemies/04 - Hotland/Royal Guards/spr_02battle_0.png''])]),
    (''acts'', PList [
      PDict [(''name'', PStr ''Check''), (''effect'', PStr ''check'')],
      PDict [
        (''name'', PStr ''Clean Armor''),
        (''effect'', PStr ''clean''),
        (''text'', PStr (''* You clean their armor.'' @ CHR 0x5C # ''n* They appreciate it!'')),
        (''mercyIncrease'', PInt 50)]]),
    (''attackPatterns'', PList [
      PDict [
        (''name'', PStr ''Guard Combo''),
        (''duration'', PInt 5500),
        (''waves'', PList [
          PDict [
            (''time'', PInt 0),
            (''type'', PStr ''projectiles''),
            (''count'', PInt 6),
            (''speed'', PFloat 25 1),
            (''size'', PInt 15),
            (''side'', PStr ''top'')],
          PDict [
            (''time'', PInt 2000),
            (''type'', PStr ''star_bullets''),
            (''count'', PInt 5),
            (''speed'', PInt 3)],
          PDict [
            (''time'', PInt 3500),
            (''type'', PStr ''projectiles''),
            (''count'', PInt 7),
            (''speed'', PInt 3),
            (''size'', PInt 15),
            (''side'', PStr ''bottom'')]])]])]"

definition miss_so_sorry :: pyval where
  "miss_so_sorry = PDict [
    (''name'', PStr ''So Sorry''),
    (''hp'', PInt 1100),
    (''attack'', PInt 9),
    (''defense'', PInt (-6)),
    (''gold'', PInt 300),
    (''exp'', PInt 1),
    (''spareThreshold'', PInt 100),
    (''dialogue'', PList [
      PStr ''* So Sorry appears!'',
      PStr ''* So Sorry is drawing something.'',
      PStr ''* So Sorry is apologizing.'',
      PStr ''* Smells like art supplies.'']),
    (''checkText'', PStr (''ATK 9 DEF -6'' @ CHR 0x5C # ''n* This creature is definitely  '' @ CHR 0x5C # ''n  'art' in motion.'')),
    (''sprites'', PDict [
      (''idle'', PList [PStr ''Battle/Enemies/04 - Hotland/So Sorry/spr_sosorry_normal_0.png''])]),
    (''acts'', PList [
      PDict [(''name'', PStr ''Check''), (''effect'', PStr ''check'')],
      PDict [
        (''name'', PStr ''Draw''),
        (''effect'', PStr ''draw''),
        (''text'', PStr (''* You draw something nice.'' @ CHR 0x5C # ''n* So Sorry is happy!'')),
        (''mercyIncrease'', PInt 100)]]),
    (''attackPatterns'', PList [
      PDict [
        (''name'', PStr ''Art Attack''),
        (''duration'', PInt 7000),
        (''waves'', PList [
          PDict [
            (''time'', PInt 0),
            (''type'', PStr ''tail_slash''),
            (''count'', PInt 2),
            (''speed'', PInt 3)],
          PDict [
            (''time'', PInt 2000),
            (''type'', PStr ''paper_balls''),
            (''count'', PInt 8),
            (''speed'', PFloat 25 1)],
          PDict [
            (''time'', PInt 4500),
            (''type'', PStr ''doodle_arms''),
            (''count'', PInt 4),
            (''speed'', PInt 3)]])]])]"

definition miss_parsnik :: pyval where
  "miss_parsnik = PDict [
    (''name'', PStr ''Parsnik''),
    (''hp'', PInt 50),
    (''attack'', PInt 8),
    (''defense'', PInt 7),
    (''gold'', PInt 5),
    (''exp'', PInt 5),
    (''spareThreshold'', PInt 100),
    (''dialogue'', PList [
      PStr ''* Parsnik shows up!'',
      PStr ''* Parsnik is posing dramatically.'',
      PStr ''* Parsnik is being rebellious.'',
      PStr ''* Smells like parsnips.'']),
    (''checkText'', PStr (''ATK 8 DEF 7'' @ CHR 0x5C # ''n* Hard Mode only.'' @ CHR 0x5C # ''n* A rebellious root vegetable.'')),
    (''sprites'', PDict [
      (''idle'', PList [PStr ''Battle/Enemies/01 - Ruins/Parsnik/spr_parsnikbattle_0.png''])]),
    (''acts'', PList [
      PDict [(''name'', PStr ''Check''), (''effect'', PStr ''check'')],
      PDict [
        (''name'', PStr ''Devour''),
        (''effect'', PStr ''devour''),
        (''text'', PStr ''* You devour Parsnik.''),
        (''mercyIncrease'', PInt 100)]]),
    (''attackPatterns'', PList [
      PDict [
        (''name'', PStr ''Root Attack''),
        (''duration'', PInt 4000),
        (''waves'', PList [
          PDict [
            (''time'', PInt 0),
            (''type'', PStr ''projectiles''),
            (''count'', PInt 5),
            (''speed'', PFloat 25 1),
            (''size'', PInt 15),
            (''side'', PStr ''top'')],
          PDict [
            (''time'', PInt 2000),
            (''type'', PStr ''projectiles''),
            (''count'', PInt 6),
            (''speed'', PInt 3),
            (''size'', PInt 15),
            (''side'', PStr ''bottom'')]])]])]"

definition miss_moldessa :: pyval where
  "miss_moldessa = PDict [
    (''name'', PStr ''Moldessa''),
    (''hp'', PInt 52),
    (''attack'', PInt 8),
    (''defense'', PInt 5),
    (''gold'', PInt 12),
    (''exp'', PInt 6),
    (''spareThreshold'', PInt 100),
    (''dialogue'', PList [
      PStr ''* Moldessa oozes up!'',
      PStr ''* Moldessa is posing.'',
      PStr ''* Moldessa wiggles provocatively.'',
      PStr ''* Smells like a beauty salon.'']),
    (''checkText'', PStr (''ATK 8 DEF 5'' @ CHR 0x5C # ''n* Hard Mode only.'' @ CHR 0x5C # ''n* A slime in its prime.'')),
    (''sprites'', PDict [
      (''idle'', PList [PStr ''Battle/Enemies/01 - Ruins/Moldessa/spr_moldbyggbattle_hardmode_0.png''])]),
    (''acts'', PList [
      PDict [(''name'', PStr ''Check''), (''effect'', PStr ''check'')],
      PDict [
        (''name'', PStr ''Impress''),
        (''effect'', PStr ''impress''),
        (''text'', PStr (''* You pose. Moldessa is  '' @ CHR 0x5C # ''n  impressed!'')),
        (''mercyIncrease'', PInt 100)]]),
    (''attackPatterns'', PList [
      PDict [
        (''name'', PStr ''Slime Attack''),
        (''duration'', PInt 4500),
        (''waves'', PList [
          PDict [
            (''time'', PInt 0),
            (''type'', PStr ''projectiles''),
            (''count'', PInt 6),
            (''speed'', PInt 2),
            (''size'', PInt 15),
            (''side'', PStr ''top'')],
          PDict [
            (''time'', PInt 2000),
            (''type'', PStr ''exploding_slime''),
            (''count'', PInt 3),
            (''speed'', PFloat 25 1)]])]])]"

definition miss_migospel :: pyval where
  "miss_migospel = PDict [
    (''name'', PStr ''Migospel''),
    (''hp'', PInt 60),
    (''attack'', PInt 8),
    (''defense'', PInt 6),
    (''gold'', PInt 8),
    (''exp'', PInt 7),
    (''spareThreshold'', PInt 100),
    (''dialogue'', PList [
      PStr ''* Migospel buzzed up!'',
      PStr ''* Migospel is preaching.'',
      PStr (''* Migospel is looking for  '' @ CHR 0x5C # ''n  followers.''),
      PStr ''* Smells like incense.'']),
    (''checkText'', PStr (''ATK 8 DEF 6'' @ CHR 0x5C # ''n* Hard Mode only.'' @ CHR 0x5C # ''n* A missionary for monsters.'')),
    (''sprites'', PDict [
      (''idle'', PList [PStr ''Battle/Enemies/01 - Ruins/Migospel/spr_migospbattle_hardmode_0.png''])]),
    (''acts'', PList [
      PDict [(''name'', PStr ''Check''), (''effect'', PStr ''check'')],
      PDict [
        (''name'', PStr ''Pray''),
        (''effect'', PStr ''pray''),
        (''text'', PStr (''* You pray.'' @ CHR 0x5C # ''n* Migospel is pleased!'')),
        (''mercyIncrease'', PInt 100)]]),
    (''attackPatterns'', PList [
      PDict [
        (''name'', PStr ''Gospel Attack''),
        (''duration'', PInt 4500),
        (''waves'', PList [
          PDict [
            (''time'', PInt 0),
            (''type'', PStr ''projectiles''),
            (''count'', PInt 5),
            (''speed'', PFloat 25 1),
            (''size'', PInt 15),
            (''side'', PStr ''top'')],
          PDict [
            (''time'', PInt 2000),
            (''type'', PStr ''projectiles''),
            (''count'', PInt 6),
            (''speed'', PInt 3),
            (''size'', PInt 15),
            (''side'', PStr ''left'')]])]])]"

definition miss_glyde :: pyval where
  "miss_glyde = PDict [
    (''name'', PStr ''Glyde''),
    (''hp'', PInt 220),
    (''attack'', PInt 9),
    (''defense'', PInt 5),
    (''gold'', PInt 120),
    (''exp'', PInt 100),
    (''spareThreshold'', PInt 100),
    (''dialogue'', PList [
      PStr ''* Glyde glides in!'',
      PStr ''* Glyde is selling wares.'',
      PStr ''* Glyde is looking smug.'',
      PStr ''* Smells like expensive cologne.'']),
    (''checkText'', PStr (''ATK 9 DEF 5'' @ CHR 0x5C # ''n* A wealthy art dealer.'' @ CHR 0x5C # ''n* Trades in rare artifacts.'')),
    (''sprites'', PDict [(''idle'', PList [PStr ''Battle/Enemies/02 - Snowdin/Glyde/spr_glydebattle_0.png''])]),
    (''acts'', PList [
      PDict [(''name'', PStr ''Check''), (''effect'', PStr ''check'')],
      PDict [
        (''name'', PStr ''Pay''),
        (''effect'', PStr ''pay''),
        (''text'', PStr (''* You pay Glyde.'' @ CHR 0x5C # ''n* Glyde is satisfied!'')),
        (''mercyIncrease'', PInt 100)]]),
    (''attackPatterns'', PList [
      PDict [
        (''name'', PStr ''Glyde Attack''),
        (''duration'', PInt 5000),
        (''waves'', PList [
          PDict [
            (''time'', PInt 0),
            (''type'', PStr ''projectiles''),
            (''count'', PInt 6),
            (''speed'', PFloat 25 1),
            (''size'', PInt 15),
            (''side'', PStr ''top'')],
          PDict [
            (''time'', PInt 2000),
            (''type'', PStr ''projectiles''),
            (''count'', PInt 7),
            (''speed'', PInt 3),
            (''size'', PInt 15),
            (''side'', PStr ''left'')],
          PDict [
            (''time'', PInt 3500),
            (''type'', PStr ''projectiles''),
            (''count'', PInt 6),
            (''speed'', PInt 3),
            (''size'', PInt 15),
            (''side'', PStr ''right'')]])]])]"

text \<open>The dictionary \<^verbatim>\<open>ENEMIES\<close> of generate_missing_undertale_enemies.py, in insertion order.\<close>

definition MISSING_ENEMIES :: "(string \<times> pyval) list" where
  "MISSING_ENEMIES =
  [(''chilldrake'', miss_chilldrake),
   (''doggo'', miss_doggo),
   (''dogamy_dogaressa'', miss_dogamy_dogaressa),
   (''lesser_dog'', miss_lesser_dog),
   (''greater_dog'', miss_greater_dog),
   (''temmie'', miss_temmie),
   (''mad_dummy'', miss_mad_dummy),
   (''royal_guards'', miss_royal_guards),
   (''so_sorry'', miss_so_sorry),
   (''parsnik'', miss_parsnik),
   (''moldessa'', miss_moldessa),
   (''migospel'', miss_migospel),
   (''glyde'', miss_glyde)]"

section \<open>generate\_bosses\_old.py\<close>

definition OUTPUT_DIR_bosses :: string where
  "OUTPUT_DIR_bosses = ''/workspaces/Under-Delta-Tale-Rune-Fight-Sim/data/enemies/bosses''"

definition create_boss_json :: "string \<Rightarrow> nat \<Rightarrow> world \<Rightarrow> error + world" where
  "create_boss_json boss_id boss_data w =
     (let filename = join OUTPUT_DIR_bosses (boss_id @ ''.json'') in
      bind_err (deref w boss_data) (\<lambda>v.
      bind_err (write_json filename v (fs w)) (\<lambda>fs'.
      Inr (w\<lparr>fs := fs'\<rparr>))))"

definition main_bosses_old :: "world \<Rightarrow> error + world" where
  "main_bosses_old w =
     for_each (\<lambda>(boss_id, boss_data). create_boss_json boss_id boss_data) (items BOSSES) w"

text \<open>Loading the module creates the output directory and builds the table.\<close>

definition run_bosses_old :: "filesystem \<Rightarrow> error + world" where
  "run_bosses_old fs0 =
     bind_err (makedirs OUTPUT_DIR_bosses fs0) (\<lambda>fs1.
     main_bosses_old \<lparr>heap = map snd BOSSES, fs = fs1\<rparr>)"

section \<open>generate\_deltarune\_bosses.py\<close>

text \<open>The file name computed from the display name (lines 199 to 200 of the script).\<close>

definition boss_filename :: "pyval \<Rightarrow> error + string" where
  "boss_filename boss =
     bind_err (subscript boss ''name'') (\<lambda>n.
     bind_err (str_lower n) (\<lambda>l.
     let name_clean = replace (CHR ''-'') ''_'' (replace (CHR 0x27) '''' (replace (CHR '' '') ''_'' l))
     in Inr (name_clean @ ''.json'')))"

text \<open>The dictionary \<^verbatim>\<open>data\<close> built from a record (lines 203 to 220).\<close>

definition boss_descriptor :: "pyval \<Rightarrow> error + pyval" where
  "boss_descriptor boss =
     bind_err (subscript boss ''chapter'') (\<lambda>chapter.
     bind_err (format_value chapter) (\<lambda>chapter_s.
     bind_err (subscript boss ''folder'') (\<lambda>folder.
     bind_err (format_value folder) (\<lambda>folder_s.
     let sprite_base =
           ''Deltarune Sprites/Characters/Bosses/'' @ chapter_s @ ''/'' @ folder_s @ ''/'' in
     bind_err (subscript boss ''name'') (\<lambda>v_name.
     bind_err (subscript boss ''hp'') (\<lambda>v_hp.
     bind_err (subscript boss ''attack'') (\<lambda>v_attack.
     bind_err (subscript boss ''defense'') (\<lambda>v_defense.
     bind_err (subscript boss ''dialogue'') (\<lambda>v_dialogue.
     bind_err (subscript boss ''checkText'') (\<lambda>v_checkText.
     bind_err (subscript boss ''acts'') (\<lambda>v_acts.
     bind_err (subscript boss ''attackPatterns'') (\<lambda>v_attackPatterns.
     Inr (PDict [
       (''name'', v_name),
       (''hp'', v_hp),
       (''attack'', v_attack),
       (''defense'', v_defense),
       (''gold'', PInt 0),
       (''exp'', PInt 0),
       (''spareThreshold'', PInt 0),
       (''dialogue'', v_dialogue),
       (''checkText'', v_checkText),
       (''sprites'', PDict [(''idle'', PStr (sprite_base @ ''idle_0.png''))]),
       (''acts'', v_acts),
       (''attackPatterns'', v_attackPatterns)])))))))))))))"

definition generate_boss_json :: "nat \<Rightarrow> string \<Rightarrow> world \<Rightarrow> error + world" where
  "generate_boss_json boss output_dir w =
     bind_err (deref w boss) (\<lambda>b.
     bind_err (boss_filename b) (\<lambda>filename.
     let filepath = join output_dir filename in
     bind_err (boss_descriptor b) (\<lambda>data.
     bind_err (write_json filepath data (fs w)) (\<lambda>fs'.
     Inr (w\<lparr>fs := fs'\<rparr>)))))"

definition main_deltarune_bosses :: "world \<Rightarrow> error + world" where
  "main_deltarune_bosses w =
     (let output_dir = ''data/enemies/deltarune/bosses'' in
      bind_err (makedirs output_dir (fs w)) (\<lambda>fs1.
      for_each (\<lambda>boss. generate_boss_json boss output_dir) [0..<length bosses] (w\<lparr>fs := fs1\<rparr>)))"

definition run_deltarune_bosses :: "filesystem \<Rightarrow> error + world" where
  "run_deltarune_bosses fs0 = main_deltarune_bosses \<lparr>heap = bosses, fs = fs0\<rparr>"

section \<open>generate\_deltarune\_enemies.py\<close>

definition enemy_filename :: "pyval \<Rightarrow> error + string" where
  "enemy_filename enemy =
     bind_err (subscript enemy ''name'') (\<lambda>n.
     bind_err (str_lower n) (\<lambda>l.
     Inr (replace (CHR ''-'') ''_'' (replace (CHR '' '') ''_'' l) @ ''.json'')))"

definition deltarune_attack_patterns :: pyval where
  "deltarune_attack_patterns = PList [
    PDict [
      (''name'', PStr ''Default Attack''),
      (''duration'', PInt 4000),
      (''waves'', PList [
        PDict [
          (''time'', PInt 0),
          (''type'', PStr ''projectiles''),
          (''count'', PInt 5),
          (''speed'', PFloat 25 1),
          (''size'', PInt 15),
          (''side'', PStr ''top'')],
        PDict [
          (''time'', PInt 1500),
          (''type'', PStr ''projectiles''),
          (''count'', PInt 4),
          (''speed'', PInt 3),
          (''size'', PInt 15),
          (''side'', PStr ''left'')]])]]"

text \<open>The dictionary \<^verbatim>\<open>data\<close> built from a record and its chapter tag (lines 130 to 174).\<close>

definition enemy_descriptor :: "pyval \<Rightarrow> string \<Rightarrow> error + pyval" where
  "enemy_descriptor enemy chapter =
     bind_err (subscript enemy ''folder'') (\<lambda>folder.
     bind_err (format_value folder) (\<lambda>folder_s.
     let sprite_base =
           (if chapter = ''ch1''
            then ''Deltarune Sprites/Characters/Enemies/Ch1/'' @ folder_s @ ''/''
            else ''Deltarune Sprites/Characters/Enemies/Ch2/'' @ folder_s @ ''/'') in
     bind_err (subscript enemy ''name'') (\<lambda>v_name.
     bind_err (subscript enemy ''hp'') (\<lambda>v_hp.
     bind_err (subscript enemy ''attack'') (\<lambda>v_attack.
     bind_err (subscript enemy ''defense'') (\<lambda>v_defense.
     bind_err (subscript enemy ''dialogue'') (\<lambda>v_dialogue.
     bind_err (subscript enemy ''attack'') (\<lambda>f_attack.
     bind_err (format_value f_attack) (\<lambda>attack_s.
     bind_err (subscript enemy ''defense'') (\<lambda>f_defense.
     bind_err (format_value f_defense) (\<lambda>defense_s.
     bind_err (subscript enemy ''acts'') (\<lambda>v_acts.
     Inr (PDict [
       (''name'', v_name),
       (''hp'', v_hp),
       (''attack'', v_attack),
       (''defense'', v_defense),
       (''gold'', PInt 10),
       (''exp'', PInt 15),
       (''spareThreshold'', PInt 100),
       (''dialogue'', v_dialogue),
       (''checkText'', PStr (''ATK '' @ attack_s @ '' DEF '' @ defense_s @ CHR 0x5C #
                             ''n* A Darkner from '' @ upper chapter @ ''.'')),
       (''sprites'', PDict [(''idle'', PStr (sprite_base @ ''idle_0.png''))]),
       (''acts'', v_acts),
       (''attackPatterns'', deltarune_attack_patterns)])))))))))))))"

definition generate_enemy_json :: "nat \<Rightarrow> string \<Rightarrow> string \<Rightarrow> world \<Rightarrow> error + world" where
  "generate_enemy_json enemy chapter output_dir w =
     bind_err (deref w enemy) (\<lambda>e.
     bind_err (enemy_filename e) (\<lambda>filename.
     let filepath = join output_dir filename in
     bind_err (enemy_descriptor e chapter) (\<lambda>data.
     bind_err (write_json filepath data (fs w)) (\<lambda>fs'.
     Inr (w\<lparr>fs := fs'\<rparr>)))))"

definition main_deltarune_enemies :: "world \<Rightarrow> error + world" where
  "main_deltarune_enemies w =
     (let output_dir = ''data/enemies/deltarune'' in
      bind_err (makedirs output_dir (fs w)) (\<lambda>fs1.
      bind_err (for_each (\<lambda>enemy. generate_enemy_json enemy ''ch1'' output_dir)
                  [0..<length ch1_enemies] (w\<lparr>fs := fs1\<rparr>)) (\<lambda>w1.
      for_each (\<lambda>enemy. generate_enemy_json enemy ''ch2'' output_dir)
        [length ch1_enemies..<length ch1_enemies + length ch2_enemies] w1)))"

definition run_deltarune_enemies :: "filesystem \<Rightarrow> error + world" where
  "run_deltarune_enemies fs0 = main_deltarune_enemies \<lparr>heap = ch1_enemies @ ch2_enemies, fs = fs0\<rparr>"

section \<open>generate\_enemies.py\<close>

definition OUTPUT_DIR_enemies :: string where
  "OUTPUT_DIR_enemies = ''/workspaces/Under-Delta-Tale-Rune-Fight-Sim/data/enemies''"

text \<open>The list literal assigned to a record without attack patterns (lines 656 to 687).\<close>

definition default_attack_patterns :: pyval where
  "default_attack_patterns = PList [
    PDict [
      (''name'', PStr ''Default Attack''),
      (''duration'', PInt 4000),
      (''waves'', PList [
        PDict [
          (''time'', PInt 0),
          (''type'', PStr ''projectiles''),
          (''count'', PInt 5),
          (''speed'', PInt 2),
          (''size'', PInt 15),
          (''side'', PStr ''top'')],
        PDict [
          (''time'', PInt 1500),
          (''type'', PStr ''projectiles''),
          (''count'', PInt 4),
          (''speed'', PFloat 25 1),
          (''size'', PInt 15),
          (''side'', PStr ''left'')],
        PDict [
          (''time'', PInt 2500),
          (''type'', PStr ''projectiles''),
          (''count'', PInt 4),
          (''speed'', PFloat 25 1),
          (''size'', PInt 15),
          (''side'', PStr ''right'')]])]]"

definition create_enemy_json :: "string \<Rightarrow> nat \<Rightarrow> world \<Rightarrow> error + world" where
  "create_enemy_json enemy_id enemy_data w =
     bind_err (deref w enemy_data) (\<lambda>d.
     bind_err (contains d ''attackPatterns'') (\<lambda>present.
     bind_err (if \<not> present
               then bind_err (setitem d ''attackPatterns'' default_attack_patterns) (\<lambda>d'.
                    Inr (assign enemy_data d' w))
               else Inr w) (\<lambda>w1.
     let filename = join OUTPUT_DIR_enemies (enemy_id @ ''.json'') in
     bind_err (deref w1 enemy_data) (\<lambda>v.
     bind_err (write_json filename v (fs w1)) (\<lambda>fs'.
     Inr (w1\<lparr>fs := fs'\<rparr>))))))"

definition main_enemies :: "world \<Rightarrow> error + world" where
  "main_enemies w =
     for_each (\<lambda>(enemy_id, enemy_data). create_enemy_json enemy_id enemy_data) (items ENEMIES) w"

definition run_enemies :: "filesystem \<Rightarrow> error + world" where
  "run_enemies fs0 = main_enemies \<lparr>heap = map snd ENEMIES, fs = fs0\<rparr>"

section \<open>generate\_missing\_undertale\_enemies.py\<close>

definition create_enemy_json_missing :: "string \<Rightarrow> nat \<Rightarrow> world \<Rightarrow> error + world" where
  "create_enemy_json_missing enemy_id enemy_data w =
     (let filename = ''data/enemies/'' @ enemy_id @ ''.json'' in
      bind_err (makedirs (dirname filename) (fs w)) (\<lambda>fs1.
      bind_err (deref w enemy_data) (\<lambda>v.
      bind_err (write_json filename v fs1) (\<lambda>fs'.
      Inr (w\<lparr>fs := fs'\<rparr>)))))"

definition main_missing :: "world \<Rightarrow> error + world" where
  "main_missing w =
     for_each (\<lambda>(enemy_id, enemy_data). create_enemy_json_missing enemy_id enemy_data)
       (items MISSING_ENEMIES) w"

definition run_missing :: "filesystem \<Rightarrow> error + world" where
  "run_missing fs0 = main_missing \<lparr>heap = map snd MISSING_ENEMIES, fs = fs0\<rparr>"

section \<open>The five scripts\<close>

datatype script = Bosses_old | Deltarune_bosses | Deltarune_enemies | Enemies | Missing_enemies

fun run :: "script \<Rightarrow> filesystem \<Rightarrow> error + world" where
  "run Bosses_old fs0 = run_bosses_old fs0"
| "run Deltarune_bosses fs0 = run_deltarune_bosses fs0"
| "run Deltarune_enemies fs0 = run_deltarune_enemies fs0"
| "run Enemies fs0 = run_enemies fs0"
| "run Missing_enemies fs0 = run_missing fs0"

text \<open>The records of a script's tables, in the order the script visits them.\<close>

fun records :: "script \<Rightarrow> pyval list" where
  "records Bosses_old = map snd BOSSES"
| "records Deltarune_bosses = bosses"
| "records Deltarune_enemies = ch1_enemies @ ch2_enemies"
| "records Enemies = map snd ENEMIES"
| "records Missing_enemies = map snd MISSING_ENEMIES"

text \<open>The file system with no directory and no file, and the one that has only the output
  directory of generate\_enemies.py.\<close>

definition fs_empty :: filesystem where
  "fs_empty = \<lparr>dirs = {}, files = Map.empty\<rparr>"

definition fs_enemies_dir :: filesystem where
  "fs_enemies_dir = \<lparr>dirs = {OUTPUT_DIR_enemies}, files = Map.empty\<rparr>"

section \<open>What a run leaves behind\<close>

text \<open>The content of a file and the store after a run; nothing when the run raised.\<close>

definition file_after :: "error + world \<Rightarrow> string \<Rightarrow> pyval option" where
  "file_after result path = (case result of Inl e \<Rightarrow> None | Inr w \<Rightarrow> files (fs w) path)"

definition heap_after :: "error + world \<Rightarrow> pyval list" where
  "heap_after result = (case result of Inl e \<Rightarrow> [] | Inr w \<Rightarrow> heap w)"

text \<open>One field of the descriptor in a file after a run.\<close>

definition file_field :: "error + world \<Rightarrow> string \<Rightarrow> string \<Rightarrow> (error + pyval) option" where
  "file_field result path key = map_option (\<lambda>v. subscript v key) (file_after result path)"

text \<open>The path of the file a script writes for record number \<open>i\<close> of its tables, computed the
  way the script computes it.\<close>

fun target :: "script \<Rightarrow> nat \<Rightarrow> error + string" where
  "target Bosses_old i = Inr (join OUTPUT_DIR_bosses (fst (BOSSES ! i) @ ''.json''))"
| "target Deltarune_bosses i =
     bind_err (boss_filename (bosses ! i)) (\<lambda>filename.
     Inr (join ''data/enemies/deltarune/bosses'' filename))"
| "target Deltarune_enemies i =
     bind_err (enemy_filename ((ch1_enemies @ ch2_enemies) ! i)) (\<lambda>filename.
     Inr (join ''data/enemies/deltarune'' filename))"
| "target Enemies i = Inr (join OUTPUT_DIR_enemies (fst (ENEMIES ! i) @ ''.json''))"
| "target Missing_enemies i = Inr (''data/enemies/'' @ fst (MISSING_ENEMIES ! i) @ ''.json'')"

text \<open>The chapter tag generate\_deltarune\_enemies.py passes with record number \<open>i\<close>.\<close>

definition chapter_of :: "nat \<Rightarrow> string" where
  "chapter_of i = (if i < length ch1_enemies then ''ch1'' else ''ch2'')"

section \<open>The conventions of the tables\<close>

text \<open>The list of acts is not empty and its first act is named Check.\<close>

definition first_act_is_check :: "pyval \<Rightarrow> bool" where
  "first_act_is_check entity =
     (case subscript entity ''acts'' of
        Inr (PList (act # rest)) \<Rightarrow> subscript act ''name'' = Inr (PStr ''Check'')
      | _ \<Rightarrow> False)"

text \<open>An act without the field \<^verbatim>\<open>mercyIncrease\<close> passes; one with the field passes when the
  value is an integer from 0 to 100.\<close>

definition mercy_in_range :: "pyval \<Rightarrow> bool" where
  "mercy_in_range act =
     (case subscript act ''mercyIncrease'' of
        Inl e \<Rightarrow> True
      | Inr (PInt n) \<Rightarrow> 0 \<le> n \<and> n \<le> 100
      | Inr _ \<Rightarrow> False)"

definition acts_mercy_in_range :: "pyval \<Rightarrow> bool" where
  "acts_mercy_in_range entity =
     (case subscript entity ''acts'' of
        Inr (PList acts) \<Rightarrow> list_all mercy_in_range acts
      | _ \<Rightarrow> False)"

text \<open>Every wave of every attack pattern starts at an integer time from 0 to the duration of
  its pattern.\<close>

definition wave_in_range :: "int \<Rightarrow> pyval \<Rightarrow> bool" where
  "wave_in_range duration wave =
     (case subscript wave ''time'' of
        Inr (PInt t) \<Rightarrow> 0 \<le> t \<and> t \<le> duration
      | _ \<Rightarrow> False)"

definition pattern_in_range :: "pyval \<Rightarrow> bool" where
  "pattern_in_range pattern =
     (case subscript pattern ''duration'' of
        Inr (PInt duration) \<Rightarrow>
          (case subscript pattern ''waves'' of
             Inr (PList waves) \<Rightarrow> list_all (wave_in_range duration) waves
           | _ \<Rightarrow> False)
      | _ \<Rightarrow> False)"

definition waves_in_range :: "pyval \<Rightarrow> bool" where
  "waves_in_range entity =
     (case subscript entity ''attackPatterns'' of
        Inr (PList patterns) \<Rightarrow> list_all pattern_in_range patterns
      | _ \<Rightarrow> False)"

text \<open>The field \<^verbatim>\<open>sprites\<close> is a dictionary that maps every animation state to a list of
  strings.\<close>

definition is_path_sequence :: "pyval \<Rightarrow> bool" where
  "is_path_sequence frames =
     (case frames of
        PList paths \<Rightarrow> list_all (\<lambda>path. case path of PStr s \<Rightarrow> True | _ \<Rightarrow> False) paths
      | _ \<Rightarrow> False)"

definition sprites_are_sequences :: "pyval \<Rightarrow> bool" where
  "sprites_are_sequences entity =
     (case subscript entity ''sprites'' of
        Inr (PDict states) \<Rightarrow> list_all (\<lambda>(state, frames). is_path_sequence frames) states
      | _ \<Rightarrow> False)"

section \<open>The result of a run in closed form\<close>

text \<open>
  The proofs below show that a run which completes leaves the store \<open>final_heap\<close>, has created
  the directories \<open>created\<close> and has written the files \<open>outputs\<close>, in this order, over
  whatever the file system held before.
\<close>

definition with_default :: "pyval \<Rightarrow> pyval" where
  "with_default entity =
     (case entity of
        PDict kvs \<Rightarrow>
          if ''attackPatterns'' \<in> set (map fst kvs) then entity
          else PDict (AList.update ''attackPatterns'' default_attack_patterns kvs)
      | _ \<Rightarrow> entity)"

text \<open>What the update of a record of the table amounts to.\<close>

definition lacks_patterns :: "pyval \<Rightarrow> bool" where
  "lacks_patterns e \<longleftrightarrow>
     contains e ''attackPatterns'' = Inr False \<and>
     setitem e ''attackPatterns'' default_attack_patterns = Inr (with_default e) \<and>
     subscript (with_default e) ''attackPatterns'' = Inr default_attack_patterns \<and>
     subscript (with_default e) ''name'' = subscript e ''name'' \<and>
     (\<exists>kvs. e = PDict kvs \<and> ''attackPatterns'' \<notin> set (map fst kvs) \<and>
        with_default e = PDict (kvs @ [(''attackPatterns'', default_attack_patterns)]))"

fun final_heap :: "script \<Rightarrow> pyval list" where
  "final_heap Enemies = map with_default (map snd ENEMIES)"
| "final_heap s = records s"

fun created :: "script \<Rightarrow> string set" where
  "created Bosses_old = set (ancestors OUTPUT_DIR_bosses)"
| "created Deltarune_bosses = set (ancestors ''data/enemies/deltarune/bosses'')"
| "created Deltarune_enemies = set (ancestors ''data/enemies/deltarune'')"
| "created Enemies = {}"
| "created Missing_enemies = set (ancestors ''data/enemies'')"

fun outputs :: "script \<Rightarrow> (string \<times> pyval) list" where
  "outputs Bosses_old = map (\<lambda>(k, v). (join OUTPUT_DIR_bosses (k @ ''.json''), v)) BOSSES"
| "outputs Deltarune_bosses =
     map (\<lambda>b. (join ''data/enemies/deltarune/bosses'' (projr (boss_filename b)),
                projr (boss_descriptor b))) bosses"
| "outputs Deltarune_enemies =
     map (\<lambda>e. (join ''data/enemies/deltarune'' (projr (enemy_filename e)),
                projr (enemy_descriptor e ''ch1''))) ch1_enemies @
     map (\<lambda>e. (join ''data/enemies/deltarune'' (projr (enemy_filename e)),
                projr (enemy_descriptor e ''ch2''))) ch2_enemies"
| "outputs Enemies = map (\<lambda>(k, v). (join OUTPUT_DIR_enemies (k @ ''.json''), with_default v)) ENEMIES"
| "outputs Missing_enemies = map (\<lambda>(k, v). (''data/enemies/'' @ k @ ''.json'', v)) MISSING_ENEMIES"

section \<open>Facts about the tables\<close>

lemmas BOSSES_records =
  old_toriel_def old_papyrus_def old_undyne_def old_mettaton_def old_asgore_def old_sans_def
  old_flowey_def old_asriel_def

lemmas bosses_records =
  drb_jevil_def drb_king_def drb_spamton_neo_def drb_queen_def drb_tasque_manager_def
  drb_sweet_capn_cakes_def

lemmas ch1_enemies_records =
  dre_rudinn_def dre_hathy_def dre_jigsawry_def dre_ponman_def dre_bloxer_def dre_starwalker_def

lemmas ch2_enemies_records =
  dre_virovirokun_def dre_ambyu_lance_def dre_werewire_def dre_tasque_def dre_maus_def
  dre_swatchling_def

lemmas ENEMIES_records =
  ut_froggit_def ut_whimsun_def ut_moldsmal_def ut_loox_def ut_vegetoid_def ut_migosp_def
  ut_napstablook_def ut_dummy_def ut_snowdrake_def ut_icecap_def ut_gyftrot_def ut_jerry_def
  ut_aaron_def ut_woshua_def ut_moldbygg_def ut_shyren_def ut_vulkin_def ut_tsunderplane_def
  ut_pyrope_def ut_muffet_def ut_final_froggit_def ut_whimsalot_def ut_astigmatism_def
  ut_knight_knight_def ut_madjick_def

lemmas MISSING_ENEMIES_records =
  miss_chilldrake_def miss_doggo_def miss_dogamy_dogaressa_def miss_lesser_dog_def
  miss_greater_dog_def miss_temmie_def miss_mad_dummy_def miss_royal_guards_def
  miss_so_sorry_def miss_parsnik_def miss_moldessa_def miss_migospel_def miss_glyde_def


section \<open>Paths, writes and the loop\<close>

lemma bind_err_simps [simp]:
  "bind_err (Inl e) f = Inl e"
  "bind_err (Inr x) f = f x"
  by (simp_all add: bind_err_def)

lemma not_slashes_ancestors: "\<not> list_all (\<lambda>c. c = CHR ''/'') p \<Longrightarrow> p \<in> set (ancestors p)"
  by (subst ancestors.simps) simp

lemma join_plain:
  "a \<noteq> [] \<Longrightarrow> last a \<noteq> CHR ''/'' \<Longrightarrow> CHR ''/'' \<notin> set b \<Longrightarrow> join a b = a @ CHR ''/'' # b"
  by (cases b) (simp_all add: join_def, blast)

lemma dropWhile_to_slash:
  "CHR ''/'' \<notin> set b \<Longrightarrow>
   dropWhile (\<lambda>c. c \<noteq> CHR ''/'') (rev b @ CHR ''/'' # rev a) = CHR ''/'' # rev a"
  by (subst dropWhile_append2) auto

lemma no_trailing_slash:
  "a \<noteq> [] \<Longrightarrow> last a \<noteq> CHR ''/'' \<Longrightarrow> dropWhile (\<lambda>c. c = CHR ''/'') (rev a) = rev a"
  by (cases a rule: rev_cases) simp_all

lemma not_all_slashes:
  "a \<noteq> [] \<Longrightarrow> last a \<noteq> CHR ''/'' \<Longrightarrow> \<not> list_all (\<lambda>c. c = CHR ''/'') a"
  by (cases a rule: rev_cases) simp_all

lemma dirname_plain:
  assumes a: "a \<noteq> []" "last a \<noteq> CHR ''/''" and b: "CHR ''/'' \<notin> set b"
  shows "dirname (a @ CHR ''/'' # b) = a"
  unfolding dirname_def rstrip_slash_def Let_def
  using not_all_slashes [OF a] a(1)
  by (simp add: dropWhile_to_slash [OF b] no_trailing_slash [OF a])

lemma dirname_join:
  "a \<noteq> [] \<Longrightarrow> last a \<noteq> CHR ''/'' \<Longrightarrow> CHR ''/'' \<notin> set b \<Longrightarrow> dirname (join a b) = a"
  by (simp add: join_plain dirname_plain)

lemma write_json_ok:
  "d \<in> dirs fs0 \<Longrightarrow> dirname path = d \<Longrightarrow>
   write_json path v fs0 = Inr (fs0\<lparr>files := (files fs0)(path \<mapsto> v)\<rparr>)"
  by (auto simp: write_json_def is_dir_def)

lemma write_json_fail:
  "d \<notin> dirs fs0 \<Longrightarrow> \<not> list_all (\<lambda>c. c = CHR ''/'') d \<Longrightarrow> dirname path = d \<Longrightarrow>
   write_json path v fs0 = Inl FileNotFoundError"
  by (auto simp: write_json_def is_dir_def)

lemma makedirs_ok:
  "name \<noteq> [] \<Longrightarrow> makedirs name fs0 = Inr (fs0\<lparr>dirs := dirs fs0 \<union> set (ancestors name)\<rparr>)"
  by (simp add: makedirs_def)

lemma for_each_writes:
  assumes step: "\<And>x w. x \<in> set xs \<Longrightarrow> heap w = h \<Longrightarrow> D \<subseteq> dirs (fs w) \<Longrightarrow>
      body x w = Inr (w\<lparr>fs := (fs w)\<lparr>dirs := dirs (fs w) \<union> E, files := (files (fs w))(p x \<mapsto> v x)\<rparr>\<rparr>)"
    and "heap w = h" and "D \<subseteq> dirs (fs w)"
  shows "for_each body xs w =
     Inr (w\<lparr>fs := (fs w)\<lparr>dirs := (if xs = [] then dirs (fs w) else dirs (fs w) \<union> E),
                         files := files (fs w) ++ map_of (rev (map (\<lambda>x. (p x, v x)) xs))\<rparr>\<rparr>)"
  using assms
proof (induction xs arbitrary: w)
  case Nil
  then show ?case by simp
next
  case (Cons x xs)
  let ?w1 = "w\<lparr>fs := (fs w)\<lparr>dirs := dirs (fs w) \<union> E, files := (files (fs w))(p x \<mapsto> v x)\<rparr>\<rparr>"
  have s: "body x w = Inr ?w1"
    by (rule Cons.prems(1)) (use Cons.prems(2,3) in simp_all)
  have "for_each body xs ?w1 =
     Inr (?w1\<lparr>fs := (fs ?w1)\<lparr>dirs := (if xs = [] then dirs (fs ?w1) else dirs (fs ?w1) \<union> E),
                         files := files (fs ?w1) ++ map_of (rev (map (\<lambda>x. (p x, v x)) xs))\<rparr>\<rparr>)"
  proof (rule Cons.IH)
    show "heap ?w1 = h" using Cons.prems(2) by simp
    show "D \<subseteq> dirs (fs ?w1)" using Cons.prems(3) by auto
    fix y and w' :: world
    assume "y \<in> set xs" "heap w' = h" "D \<subseteq> dirs (fs w')"
    then show "body y w' =
      Inr (w'\<lparr>fs := (fs w')\<lparr>dirs := dirs (fs w') \<union> E, files := (files (fs w'))(p y \<mapsto> v y)\<rparr>\<rparr>)"
      by (intro Cons.prems(1)) simp_all
  qed
  moreover have "files (fs w) ++ map_of (rev (map (\<lambda>x. (p x, v x)) (x # xs)))
     = (files (fs w))(p x \<mapsto> v x) ++ map_of (rev (map (\<lambda>x. (p x, v x)) xs))"
    by (simp add: map_add_def fun_eq_iff split: option.splits)
  ultimately show ?case
    by (simp add: s Un_assoc del: map_of_append)
qed

lemma items_map:
  "map (\<lambda>(k, r). (f k, g (map snd t ! r))) (items t) = map (\<lambda>(k, v). (f k, g v)) t"
  by (rule nth_equalityI) (auto simp: items_def split: prod.splits)

lemma items_set: "(k, r) \<in> set (items t) \<Longrightarrow> r < length t \<and> k = fst (t ! r)"
  by (auto simp: items_def set_zip)

lemma items_key: "(k, r) \<in> set (items t) \<Longrightarrow> k \<in> set (map fst t)"
  by (auto simp: items_def set_zip)

subsection \<open>Looking a field up without evaluating the record\<close>

text \<open>The records are large terms. A field is found by resolution with the two rules below,
  which compare keys only; the simplifier then works on the field alone.\<close>

lemma subscript_hit: "subscript (PDict ((key, v) # kvs)) key = Inr v"
  by simp

lemma subscript_skip:
  "k \<noteq> key \<Longrightarrow> subscript (PDict kvs) key = r \<Longrightarrow> subscript (PDict ((k, v) # kvs)) key = r"
  by auto

lemma first_act_is_checkI:
  "subscript entity ''acts'' = Inr (PList (PDict ((''name'', PStr ''Check'') # others) # rest)) \<Longrightarrow>
   first_act_is_check entity"
  by (simp add: first_act_is_check_def)

lemma acts_mercy_in_rangeI:
  "subscript entity ''acts'' = Inr (PList acts) \<Longrightarrow> list_all mercy_in_range acts \<Longrightarrow>
   acts_mercy_in_range entity"
  by (simp add: acts_mercy_in_range_def)

lemma waves_in_rangeI:
  "subscript entity ''attackPatterns'' = Inr (PList patterns) \<Longrightarrow>
   list_all pattern_in_range patterns \<Longrightarrow> waves_in_range entity"
  by (simp add: waves_in_range_def)

lemma has_nameI: "subscript entity ''name'' = Inr (PStr n) \<Longrightarrow> \<exists>n. subscript entity ''name'' = Inr (PStr n)"
  by blast

lemmas range_rules = mercy_in_range_def pattern_in_range_def wave_in_range_def

subsection \<open>generate\_bosses\_old.py\<close>

lemma BOSSES_check: "list_all first_act_is_check (map snd BOSSES)"
  unfolding BOSSES_def list.map snd_conv list.pred_inject BOSSES_records
  by (intro conjI;
      ((rule first_act_is_checkI, (rule subscript_hit | (rule subscript_skip, simp))+) | simp))

lemma BOSSES_mercy: "list_all acts_mercy_in_range (map snd BOSSES)"
  unfolding BOSSES_def list.map snd_conv list.pred_inject BOSSES_records
  by (intro conjI;
      ((rule acts_mercy_in_rangeI, (rule subscript_hit | (rule subscript_skip, simp))+,
        simp add: range_rules) | simp))

lemma BOSSES_waves: "list_all waves_in_range (map snd BOSSES)"
  unfolding BOSSES_def list.map snd_conv list.pred_inject BOSSES_records
  by (intro conjI;
      ((rule waves_in_rangeI, (rule subscript_hit | (rule subscript_skip, simp))+,
        simp add: range_rules) | simp))

lemma BOSSES_names: "list_all (\<lambda>e. \<exists>n. subscript e ''name'' = Inr (PStr n)) (map snd BOSSES)"
  unfolding BOSSES_def list.map snd_conv list.pred_inject BOSSES_records
  by (intro conjI; ((rule has_nameI, rule subscript_hit) | simp))

subsection \<open>generate\_missing\_undertale\_enemies.py\<close>

lemma MISSING_ENEMIES_check: "list_all first_act_is_check (map snd MISSING_ENEMIES)"
  unfolding MISSING_ENEMIES_def list.map snd_conv list.pred_inject MISSING_ENEMIES_records
  by (intro conjI;
      ((rule first_act_is_checkI, (rule subscript_hit | (rule subscript_skip, simp))+) | simp))

lemma MISSING_ENEMIES_mercy: "list_all acts_mercy_in_range (map snd MISSING_ENEMIES)"
  unfolding MISSING_ENEMIES_def list.map snd_conv list.pred_inject MISSING_ENEMIES_records
  by (intro conjI;
      ((rule acts_mercy_in_rangeI, (rule subscript_hit | (rule subscript_skip, simp))+,
        simp add: range_rules) | simp))

lemma MISSING_ENEMIES_waves: "list_all waves_in_range (map snd MISSING_ENEMIES)"
  unfolding MISSING_ENEMIES_def list.map snd_conv list.pred_inject MISSING_ENEMIES_records
  by (intro conjI;
      ((rule waves_in_rangeI, (rule subscript_hit | (rule subscript_skip, simp))+,
        simp add: range_rules) | simp))

lemma MISSING_ENEMIES_names:
  "list_all (\<lambda>e. \<exists>n. subscript e ''name'' = Inr (PStr n)) (map snd MISSING_ENEMIES)"
  unfolding MISSING_ENEMIES_def list.map snd_conv list.pred_inject MISSING_ENEMIES_records
  by (intro conjI; ((rule has_nameI, rule subscript_hit) | simp))

subsection \<open>generate\_enemies.py\<close>

lemma ENEMIES_keys:
  "map fst ENEMIES =
     [''froggit'', ''whimsun'', ''moldsmal'', ''loox'', ''vegetoid'', ''migosp'', ''napstablook'',
      ''dummy'', ''snowdrake'', ''icecap'', ''gyftrot'', ''jerry'', ''aaron'', ''woshua'',
      ''moldbygg'', ''shyren'', ''vulkin'', ''tsunderplane'', ''pyrope'', ''muffet'',
      ''final_froggit'', ''whimsalot'', ''astigmatism'', ''knight_knight'', ''madjick'']"
  by (simp add: ENEMIES_def)

lemma ENEMIES_check: "list_all first_act_is_check (map snd ENEMIES)"
  unfolding ENEMIES_def list.map snd_conv list.pred_inject ENEMIES_records
  by (intro conjI;
      ((rule first_act_is_checkI, (rule subscript_hit | (rule subscript_skip, simp))+) | simp))

lemma ENEMIES_mercy: "list_all acts_mercy_in_range (map snd ENEMIES)"
  unfolding ENEMIES_def list.map snd_conv list.pred_inject ENEMIES_records
  by (intro conjI;
      ((rule acts_mercy_in_rangeI, (rule subscript_hit | (rule subscript_skip, simp))+,
        simp add: range_rules) | simp))

lemma ENEMIES_names: "list_all (\<lambda>e. \<exists>n. subscript e ''name'' = Inr (PStr n)) (map snd ENEMIES)"
  unfolding ENEMIES_def list.map snd_conv list.pred_inject ENEMIES_records
  by (intro conjI; ((rule has_nameI, rule subscript_hit) | simp))

text \<open>No record of the table has attack patterns: each is a dictionary of the same eleven
  fields.\<close>

lemma ENEMIES_shape:
  "list_all (\<lambda>e. \<exists>name hp attack defense gold exp spare dialogue checkText sprites acts.
      e = PDict [(''name'', name), (''hp'', hp), (''attack'', attack), (''defense'', defense),
                 (''gold'', gold), (''exp'', exp), (''spareThreshold'', spare),
                 (''dialogue'', dialogue), (''checkText'', checkText), (''sprites'', sprites),
                 (''acts'', acts)]) (map snd ENEMIES)"
  unfolding ENEMIES_def list.map snd_conv list.pred_inject ENEMIES_records
  by (intro conjI exI; (rule refl | simp))

subsection \<open>generate\_deltarune\_bosses.py\<close>

lemma bosses_check: "list_all first_act_is_check bosses"
  unfolding bosses_def list.pred_inject bosses_records
  by (intro conjI;
      ((rule first_act_is_checkI, (rule subscript_hit | (rule subscript_skip, simp))+) | simp))

lemma bosses_mercy: "list_all acts_mercy_in_range bosses"
  unfolding bosses_def list.pred_inject bosses_records
  by (intro conjI;
      ((rule acts_mercy_in_rangeI, (rule subscript_hit | (rule subscript_skip, simp))+,
        simp add: range_rules) | simp))

lemma bosses_waves: "list_all waves_in_range bosses"
  unfolding bosses_def list.pred_inject bosses_records
  by (intro conjI;
      ((rule waves_in_rangeI, (rule subscript_hit | (rule subscript_skip, simp))+,
        simp add: range_rules) | simp))

subsection \<open>generate\_deltarune\_enemies.py\<close>

lemma ch1_enemies_check: "list_all first_act_is_check ch1_enemies"
  unfolding ch1_enemies_def list.pred_inject ch1_enemies_records
  by (intro conjI;
      ((rule first_act_is_checkI, (rule subscript_hit | (rule subscript_skip, simp))+) | simp))

lemma ch2_enemies_check: "list_all first_act_is_check ch2_enemies"
  unfolding ch2_enemies_def list.pred_inject ch2_enemies_records
  by (intro conjI;
      ((rule first_act_is_checkI, (rule subscript_hit | (rule subscript_skip, simp))+) | simp))

lemma ch1_enemies_mercy: "list_all acts_mercy_in_range ch1_enemies"
  unfolding ch1_enemies_def list.pred_inject ch1_enemies_records
  by (intro conjI;
      ((rule acts_mercy_in_rangeI, (rule subscript_hit | (rule subscript_skip, simp))+,
        simp add: range_rules) | simp))

lemma ch2_enemies_mercy: "list_all acts_mercy_in_range ch2_enemies"
  unfolding ch2_enemies_def list.pred_inject ch2_enemies_records
  by (intro conjI;
      ((rule acts_mercy_in_rangeI, (rule subscript_hit | (rule subscript_skip, simp))+,
        simp add: range_rules) | simp))

subsection \<open>The descriptors of generate\_deltarune\_bosses.py\<close>

lemmas name_rules = lower_def lower_char_def upper_def upper_char_def replace_def

lemma bind_err_Inr:
  "bind_err m f = Inr y \<longleftrightarrow> (\<exists>x. m = Inr x \<and> f x = Inr y)"
  by (cases m) simp_all

lemma bosses_shape:
  "list_all (\<lambda>b. \<exists>name chapter folder hp attack defense dialogue checkText acts patterns.
      CHR ''/'' \<notin> set name \<and>
      b = PDict [(''name'', PStr name), (''chapter'', PStr chapter), (''folder'', PStr folder),
                 (''hp'', hp), (''attack'', attack), (''defense'', defense),
                 (''dialogue'', dialogue), (''checkText'', checkText), (''acts'', acts),
                 (''attackPatterns'', patterns)]) bosses"
  unfolding bosses_def list.pred_inject bosses_records
  by (intro conjI exI; (rule refl | simp))

lemma bosses_names:
  "map (\<lambda>b. subscript b ''name'') bosses =
     [Inr (PStr ''Jevil''), Inr (PStr ''King''), Inr (PStr ''Spamton NEO''), Inr (PStr ''Queen''),
      Inr (PStr ''Tasque Manager''), Inr (PStr ''Sweet Cap'n Cakes'')]"
  unfolding bosses_def list.map bosses_records subscript_hit
  by (rule refl)


lemma lower_char_slash: "lower_char c = CHR ''/'' \<longleftrightarrow> c = CHR ''/''"
  unfolding lower_char_def by (simp split: option.split)
lemma lower_char_slash2: "CHR ''/'' = lower_char c \<longleftrightarrow> CHR ''/'' = c"
  using lower_char_slash [of c] by (simp only: eq_commute [of "CHR ''/''"])

lemma slash_in_lower: "CHR ''/'' \<in> set (lower s) \<longleftrightarrow> CHR ''/'' \<in> set s"
  by (induction s) (simp_all add: lower_def lower_char_slash2)

lemma slash_in_replace:
  "CHR ''/'' \<in> set (replace old new s) \<longleftrightarrow>
     (old \<in> set s \<and> CHR ''/'' \<in> set new) \<or> (CHR ''/'' \<in> set s \<and> old \<noteq> CHR ''/'')"
  unfolding replace_def by (induction s) auto

lemma boss_filename_name:
  "subscript b ''name'' = Inr (PStr n) \<Longrightarrow>
   boss_filename b =
     Inr (replace (CHR ''-'') ''_'' (replace (CHR 0x27) '''' (replace (CHR '' '') ''_'' (lower n))) @ ''.json'')"
  by (simp add: boss_filename_def)

lemma boss_descriptor_fields:
  assumes "boss_descriptor b = Inr d"
  shows "subscript d ''name'' = subscript b ''name''"
    and "subscript d ''attackPatterns'' = subscript b ''attackPatterns''"
    and "subscript d ''acts'' = subscript b ''acts''"
    and "subscript d ''gold'' = Inr (PInt 0)"
    and "\<exists>path. subscript d ''sprites'' = Inr (PDict [(''idle'', PStr path)])"
  using assms unfolding boss_descriptor_def bind_err_Inr Let_def by auto

lemma shaped_boss_ok:
  assumes n: "CHR ''/'' \<notin> set name"
    and b: "b = PDict [(''name'', PStr name), (''chapter'', PStr chap), (''folder'', PStr folder),
                 (''hp'', hp), (''attack'', attack), (''defense'', defense),
                 (''dialogue'', dialogue), (''checkText'', checkText), (''acts'', acts),
                 (''attackPatterns'', patterns)]"
  shows "\<exists>f d. boss_filename b = Inr f \<and> CHR ''/'' \<notin> set f \<and> boss_descriptor b = Inr d \<and>
      subscript b ''gold'' = Inl KeyError"
proof -
  have f: "boss_filename b =
     Inr (replace (CHR ''-'') ''_'' (replace (CHR 0x27) '''' (replace (CHR '' '') ''_'' (lower name))) @ ''.json'')"
    by (rule boss_filename_name) (simp add: b)
  have s: "CHR ''/'' \<notin> set (replace (CHR ''-'') ''_'' (replace (CHR 0x27) '''' (replace (CHR '' '') ''_'' (lower name))) @ ''.json'')"
    using n by (simp add: slash_in_replace slash_in_lower)
  obtain d where d: "boss_descriptor b = Inr d"
    unfolding b by (simp add: boss_descriptor_def)
  have g: "subscript b ''gold'' = Inl KeyError"
    unfolding b by simp
  show "\<exists>f d. boss_filename b = Inr f \<and> CHR ''/'' \<notin> set f \<and> boss_descriptor b = Inr d \<and>
      subscript b ''gold'' = Inl KeyError"
    by (intro exI conjI) (rule f, rule s, rule d, rule g)
qed

lemma bosses_ok:
  "list_all (\<lambda>b. \<exists>f d. boss_filename b = Inr f \<and> CHR ''/'' \<notin> set f \<and> boss_descriptor b = Inr d \<and>
      subscript b ''gold'' = Inl KeyError) bosses"
proof (rule list.pred_mono_strong [OF bosses_shape])
  fix b
  assume "\<exists>name chapter folder hp attack defense dialogue checkText acts patterns.
      CHR ''/'' \<notin> set name \<and>
      b = PDict [(''name'', PStr name), (''chapter'', PStr chapter), (''folder'', PStr folder),
                 (''hp'', hp), (''attack'', attack), (''defense'', defense),
                 (''dialogue'', dialogue), (''checkText'', checkText), (''acts'', acts),
                 (''attackPatterns'', patterns)]"
  then obtain name chap folder hp attack defense dialogue checkText acts patterns where
    n: "CHR ''/'' \<notin> set name" and
    b: "b = PDict [(''name'', PStr name), (''chapter'', PStr chap), (''folder'', PStr folder),
                 (''hp'', hp), (''attack'', attack), (''defense'', defense),
                 (''dialogue'', dialogue), (''checkText'', checkText), (''acts'', acts),
                 (''attackPatterns'', patterns)]"
    by (elim exE conjE)
  show "\<exists>f d. boss_filename b = Inr f \<and> CHR ''/'' \<notin> set f \<and> boss_descriptor b = Inr d \<and>
      subscript b ''gold'' = Inl KeyError"
    by (rule shaped_boss_ok [OF n b])
qed

lemma bosses_filenames:
  "map boss_filename bosses =
     [Inr ''jevil.json'', Inr ''king.json'', Inr ''spamton_neo.json'', Inr ''queen.json'',
      Inr ''tasque_manager.json'', Inr ''sweet_capn_cakes.json'']"
proof -
  have "map boss_filename bosses =
      map (\<lambda>r. bind_err r (\<lambda>n. bind_err (str_lower n) (\<lambda>l.
        Inr (replace (CHR ''-'') ''_'' (replace (CHR 0x27) '''' (replace (CHR '' '') ''_'' l)) @ ''.json''))))
        (map (\<lambda>b. subscript b ''name'') bosses)"
    by (simp add: boss_filename_def)
  then show ?thesis
    unfolding bosses_names by (simp add: name_rules)
qed


section \<open>The runs in closed form\<close>

subsection \<open>generate\_bosses\_old.py\<close>

lemma OUTPUT_DIR_bosses_plain:
  "OUTPUT_DIR_bosses \<noteq> []" "last OUTPUT_DIR_bosses \<noteq> CHR ''/''"
  "\<not> list_all (\<lambda>c. c = CHR ''/'') OUTPUT_DIR_bosses"
  by (simp_all add: OUTPUT_DIR_bosses_def)

lemma BOSSES_keys:
  "map fst BOSSES =
     [''toriel'', ''papyrus'', ''undyne'', ''mettaton'', ''asgore'', ''sans'', ''flowey'', ''asriel'']"
  by (simp add: BOSSES_def)

lemma create_boss_json_step:
  assumes "r < length (heap w)" "OUTPUT_DIR_bosses \<in> dirs (fs w)" "CHR ''/'' \<notin> set k"
  shows "create_boss_json k r w =
    Inr (w\<lparr>fs := (fs w)\<lparr>files := (files (fs w))(join OUTPUT_DIR_bosses (k @ ''.json'') \<mapsto> heap w ! r)\<rparr>\<rparr>)"
proof -
  have "dirname (join OUTPUT_DIR_bosses (k @ ''.json'')) = OUTPUT_DIR_bosses"
    by (rule dirname_join) (use assms(3) in \<open>simp_all add: OUTPUT_DIR_bosses_plain\<close>)
  then show ?thesis
    using assms(1,2) by (simp add: create_boss_json_def deref_def write_json_ok Let_def)
qed

lemma run_bosses_old_eq:
  "run_bosses_old fs0 =
     Inr \<lparr>heap = map snd BOSSES,
          fs = fs0\<lparr>dirs := dirs fs0 \<union> set (ancestors OUTPUT_DIR_bosses),
                   files := files fs0 ++ map_of (rev (outputs Bosses_old))\<rparr>\<rparr>"
proof -
  let ?w = "\<lparr>heap = map snd BOSSES, fs = fs0\<lparr>dirs := dirs fs0 \<union> set (ancestors OUTPUT_DIR_bosses)\<rparr>\<rparr>"
  have "for_each (\<lambda>(boss_id, boss_data). create_boss_json boss_id boss_data) (items BOSSES) ?w =
     Inr (?w\<lparr>fs := (fs ?w)\<lparr>dirs := (if items BOSSES = [] then dirs (fs ?w) else dirs (fs ?w) \<union> {}),
        files := files (fs ?w) ++
          map_of (rev (map (\<lambda>x. (case x of (k, r) \<Rightarrow> join OUTPUT_DIR_bosses (k @ ''.json''),
                                    case x of (k, r) \<Rightarrow> map snd BOSSES ! r)) (items BOSSES)))\<rparr>\<rparr>)"
  proof (rule for_each_writes [where h = "map snd BOSSES" and D = "{OUTPUT_DIR_bosses}"])
    show "heap ?w = map snd BOSSES" by simp
    show "{OUTPUT_DIR_bosses} \<subseteq> dirs (fs ?w)"
      by (simp add: not_slashes_ancestors OUTPUT_DIR_bosses_plain)
    fix x and w :: world
    assume x: "x \<in> set (items BOSSES)" and h: "heap w = map snd BOSSES"
      and d: "{OUTPUT_DIR_bosses} \<subseteq> dirs (fs w)"
    obtain k r where kr: "x = (k, r)" by (cases x)
    have "r < length (heap w)" using x items_set [of k r BOSSES] by (simp add: kr h)
    moreover have "CHR ''/'' \<notin> set k"
      using items_key [of k r BOSSES] x unfolding kr BOSSES_keys by auto
    ultimately show "(case x of (boss_id, boss_data) \<Rightarrow> create_boss_json boss_id boss_data) w =
      Inr (w\<lparr>fs := (fs w)\<lparr>dirs := dirs (fs w) \<union> {},
         files := (files (fs w))((case x of (k, r) \<Rightarrow> join OUTPUT_DIR_bosses (k @ ''.json'')) \<mapsto>
                    (case x of (k, r) \<Rightarrow> map snd BOSSES ! r))\<rparr>\<rparr>)"
      using d by (simp add: kr create_boss_json_step h)
  qed
  moreover have "map (\<lambda>x. (case x of (k, r) \<Rightarrow> join OUTPUT_DIR_bosses (k @ ''.json''),
                                    case x of (k, r) \<Rightarrow> map snd BOSSES ! r)) (items BOSSES)
      = outputs Bosses_old"
    using items_map [of "\<lambda>k. join OUTPUT_DIR_bosses (k @ ''.json'')" "\<lambda>v. v" BOSSES]
    by (simp add: case_prod_unfold)
  ultimately show ?thesis
    by (simp add: run_bosses_old_def main_bosses_old_def makedirs_ok OUTPUT_DIR_bosses_plain)
qed

subsection \<open>generate\_missing\_undertale\_enemies.py\<close>

lemma MISSING_ENEMIES_keys:
  "map fst MISSING_ENEMIES =
     [''chilldrake'', ''doggo'', ''dogamy_dogaressa'', ''lesser_dog'', ''greater_dog'', ''temmie'',
      ''mad_dummy'', ''royal_guards'', ''so_sorry'', ''parsnik'', ''moldessa'', ''migospel'', ''glyde'']"
  by (simp add: MISSING_ENEMIES_def)

lemma create_enemy_json_missing_step:
  assumes "r < length (heap w)" "CHR ''/'' \<notin> set k"
  shows "create_enemy_json_missing k r w =
    Inr (w\<lparr>fs := (fs w)\<lparr>dirs := dirs (fs w) \<union> set (ancestors ''data/enemies''),
        files := (files (fs w))(''data/enemies/'' @ k @ ''.json'' \<mapsto> heap w ! r)\<rparr>\<rparr>)"
proof -
  have "dirname (''data/enemies'' @ CHR ''/'' # (k @ ''.json'')) = ''data/enemies''"
    by (rule dirname_plain) (use assms(2) in simp_all)
  then have d: "dirname (''data/enemies/'' @ k @ ''.json'') = ''data/enemies''" by simp
  have m: "''data/enemies'' \<in> set (ancestors ''data/enemies'')"
    by (rule not_slashes_ancestors) simp
  have mk: "makedirs ''data/enemies'' (fs w) =
      Inr ((fs w)\<lparr>dirs := dirs (fs w) \<union> set (ancestors ''data/enemies'')\<rparr>)"
    by (rule makedirs_ok) simp
  have wr: "write_json (''data/enemies/'' @ k @ ''.json'') (heap w ! r)
        ((fs w)\<lparr>dirs := dirs (fs w) \<union> set (ancestors ''data/enemies'')\<rparr>) =
      Inr ((fs w)\<lparr>dirs := dirs (fs w) \<union> set (ancestors ''data/enemies''),
        files := (files (fs w))(''data/enemies/'' @ k @ ''.json'' \<mapsto> heap w ! r)\<rparr>)"
    using m by (subst write_json_ok [where d = "''data/enemies''"]) (simp_all only: d, simp_all)
  show ?thesis
    unfolding create_enemy_json_missing_def Let_def d mk bind_err_simps deref_def
    using assms(1) by (simp only: if_True wr bind_err_simps)
qed

lemma run_missing_eq:
  "run_missing fs0 =
     Inr \<lparr>heap = map snd MISSING_ENEMIES,
          fs = fs0\<lparr>dirs := dirs fs0 \<union> set (ancestors ''data/enemies''),
                   files := files fs0 ++ map_of (rev (outputs Missing_enemies))\<rparr>\<rparr>"
proof -
  let ?w = "\<lparr>heap = map snd MISSING_ENEMIES, fs = fs0\<rparr>"
  let ?E = "set (ancestors ''data/enemies'')"
  have ne: "items MISSING_ENEMIES \<noteq> []"
    by (simp add: items_def MISSING_ENEMIES_def)
  have "for_each (\<lambda>(enemy_id, enemy_data). create_enemy_json_missing enemy_id enemy_data)
          (items MISSING_ENEMIES) ?w =
     Inr (?w\<lparr>fs := (fs ?w)\<lparr>dirs := (if items MISSING_ENEMIES = [] then dirs (fs ?w) else dirs (fs ?w) \<union> ?E),
        files := files (fs ?w) ++
          map_of (rev (map (\<lambda>x. (case x of (k, r) \<Rightarrow> ''data/enemies/'' @ k @ ''.json'',
                                    case x of (k, r) \<Rightarrow> map snd MISSING_ENEMIES ! r))
                        (items MISSING_ENEMIES)))\<rparr>\<rparr>)"
  proof (rule for_each_writes [where h = "map snd MISSING_ENEMIES" and D = "{}"])
    show "heap ?w = map snd MISSING_ENEMIES" by simp
    show "{} \<subseteq> dirs (fs ?w)" by simp
    fix x and w :: world
    assume x: "x \<in> set (items MISSING_ENEMIES)" and h: "heap w = map snd MISSING_ENEMIES"
    obtain k r where kr: "x = (k, r)" by (cases x)
    have "r < length (heap w)" using x items_set [of k r MISSING_ENEMIES] by (simp add: kr h)
    moreover have "CHR ''/'' \<notin> set k"
      using items_key [of k r MISSING_ENEMIES] x unfolding kr MISSING_ENEMIES_keys by auto
    ultimately have st: "create_enemy_json_missing k r w =
      Inr (w\<lparr>fs := (fs w)\<lparr>dirs := dirs (fs w) \<union> ?E,
         files := (files (fs w))(''data/enemies/'' @ k @ ''.json'' \<mapsto> heap w ! r)\<rparr>\<rparr>)"
      by (rule create_enemy_json_missing_step)
    show "(case x of (enemy_id, enemy_data) \<Rightarrow> create_enemy_json_missing enemy_id enemy_data) w =
      Inr (w\<lparr>fs := (fs w)\<lparr>dirs := dirs (fs w) \<union> ?E,
         files := (files (fs w))((case x of (k, r) \<Rightarrow> ''data/enemies/'' @ k @ ''.json'') \<mapsto>
                    (case x of (k, r) \<Rightarrow> map snd MISSING_ENEMIES ! r))\<rparr>\<rparr>)"
      by (simp only: kr prod.case st h)
  qed
  moreover have "map (\<lambda>x. (case x of (k, r) \<Rightarrow> ''data/enemies/'' @ k @ ''.json'',
                                    case x of (k, r) \<Rightarrow> map snd MISSING_ENEMIES ! r))
                        (items MISSING_ENEMIES)
      = outputs Missing_enemies"
    using items_map [of "\<lambda>k. ''data/enemies/'' @ k @ ''.json''" "\<lambda>v. v" MISSING_ENEMIES]
    by (simp add: case_prod_unfold)
  ultimately show ?thesis
    using ne by (simp add: run_missing_def main_missing_def)
qed

subsection \<open>generate\_deltarune\_bosses.py\<close>

lemma bosses_nth:
  assumes "i < length bosses"
  shows "boss_filename (bosses ! i) = Inr (projr (boss_filename (bosses ! i)))"
    and "CHR ''/'' \<notin> set (projr (boss_filename (bosses ! i)))"
    and "boss_descriptor (bosses ! i) = Inr (projr (boss_descriptor (bosses ! i)))"
    and "subscript (bosses ! i) ''gold'' = Inl KeyError"
proof -
  have "\<exists>f d. boss_filename (bosses ! i) = Inr f \<and> CHR ''/'' \<notin> set f \<and>
      boss_descriptor (bosses ! i) = Inr d \<and> subscript (bosses ! i) ''gold'' = Inl KeyError"
    by (rule list_all_length [THEN iffD1, rule_format, OF bosses_ok assms])
  then obtain f d where "boss_filename (bosses ! i) = Inr f" "CHR ''/'' \<notin> set f"
    "boss_descriptor (bosses ! i) = Inr d" "subscript (bosses ! i) ''gold'' = Inl KeyError"
    by (elim exE conjE)
  then show "boss_filename (bosses ! i) = Inr (projr (boss_filename (bosses ! i)))"
    and "CHR ''/'' \<notin> set (projr (boss_filename (bosses ! i)))"
    and "boss_descriptor (bosses ! i) = Inr (projr (boss_descriptor (bosses ! i)))"
    and "subscript (bosses ! i) ''gold'' = Inl KeyError"
    by simp_all
qed

lemma generate_boss_json_step:
  assumes "r < length (heap w)" "boss_filename (heap w ! r) = Inr f" "CHR ''/'' \<notin> set f"
    "boss_descriptor (heap w ! r) = Inr d" "dir \<in> dirs (fs w)" "dir \<noteq> []" "last dir \<noteq> CHR ''/''"
  shows "generate_boss_json r dir w =
    Inr (w\<lparr>fs := (fs w)\<lparr>files := (files (fs w))(join dir f \<mapsto> d)\<rparr>\<rparr>)"
proof -
  have "dirname (join dir f) = dir"
    by (rule dirname_join) (use assms in simp_all)
  then show ?thesis
    using assms by (simp add: generate_boss_json_def deref_def write_json_ok Let_def)
qed

lemma run_deltarune_bosses_eq:
  "run_deltarune_bosses fs0 =
     Inr \<lparr>heap = bosses,
          fs = fs0\<lparr>dirs := dirs fs0 \<union> set (ancestors ''data/enemies/deltarune/bosses''),
                   files := files fs0 ++ map_of (rev (outputs Deltarune_bosses))\<rparr>\<rparr>"
proof -
  let ?dir = "''data/enemies/deltarune/bosses''"
  let ?w = "\<lparr>heap = bosses, fs = fs0\<lparr>dirs := dirs fs0 \<union> set (ancestors ?dir)\<rparr>\<rparr>"
  let ?p = "\<lambda>r. join ?dir (projr (boss_filename (bosses ! r)))"
  let ?v = "\<lambda>r. projr (boss_descriptor (bosses ! r))"
  have "for_each (\<lambda>boss. generate_boss_json boss ?dir) [0..<length bosses] ?w =
     Inr (?w\<lparr>fs := (fs ?w)\<lparr>dirs := (if [0..<length bosses] = [] then dirs (fs ?w) else dirs (fs ?w) \<union> {}),
        files := files (fs ?w) ++ map_of (rev (map (\<lambda>x. (?p x, ?v x)) [0..<length bosses]))\<rparr>\<rparr>)"
  proof (rule for_each_writes [where h = bosses and D = "{?dir}"])
    show "heap ?w = bosses" by simp
    have "?dir \<in> set (ancestors ?dir)" by (rule not_slashes_ancestors) simp
    then show "{?dir} \<subseteq> dirs (fs ?w)" by simp
    fix x and w :: world
    assume x: "x \<in> set [0..<length bosses]" and h: "heap w = bosses" and d: "{?dir} \<subseteq> dirs (fs w)"
    have i: "x < length bosses" using x by simp
    have "generate_boss_json x ?dir w =
       Inr (w\<lparr>fs := (fs w)\<lparr>files := (files (fs w))(join ?dir (projr (boss_filename (bosses ! x))) \<mapsto>
          projr (boss_descriptor (bosses ! x)))\<rparr>\<rparr>)"
    proof (rule generate_boss_json_step)
      show "x < length (heap w)" using i h by simp
      show "boss_filename (heap w ! x) = Inr (projr (boss_filename (bosses ! x)))"
        unfolding h by (rule bosses_nth(1) [OF i])
      show "CHR ''/'' \<notin> set (projr (boss_filename (bosses ! x)))" by (rule bosses_nth(2) [OF i])
      show "boss_descriptor (heap w ! x) = Inr (projr (boss_descriptor (bosses ! x)))"
        unfolding h by (rule bosses_nth(3) [OF i])
      show "?dir \<in> dirs (fs w)" using d by simp
    qed simp_all
    then show "generate_boss_json x ?dir w =
      Inr (w\<lparr>fs := (fs w)\<lparr>dirs := dirs (fs w) \<union> {}, files := (files (fs w))(?p x \<mapsto> ?v x)\<rparr>\<rparr>)"
      by simp
  qed
  moreover have "map (\<lambda>x. (?p x, ?v x)) [0..<length bosses] = outputs Deltarune_bosses"
    by (rule nth_equalityI) simp_all
  moreover have "makedirs ?dir fs0 = Inr (fs0\<lparr>dirs := dirs fs0 \<union> set (ancestors ?dir)\<rparr>)"
    by (rule makedirs_ok) simp
  ultimately show ?thesis
    by (simp add: run_deltarune_bosses_def main_deltarune_bosses_def Let_def)
qed

subsection \<open>generate\_deltarune\_enemies.py\<close>

lemma ch1_enemies_shape:
  "list_all (\<lambda>e. \<exists>name hp attack defense folder dialogue acts.
      CHR ''/'' \<notin> set name \<and>
      e = PDict [(''name'', PStr name), (''hp'', hp), (''attack'', PInt attack),
                 (''defense'', PInt defense), (''folder'', PStr folder),
                 (''dialogue'', dialogue), (''acts'', acts)]) ch1_enemies"
  unfolding ch1_enemies_def list.pred_inject ch1_enemies_records
  by (intro conjI exI; (rule refl | simp))

lemma ch2_enemies_shape:
  "list_all (\<lambda>e. \<exists>name hp attack defense folder dialogue acts.
      CHR ''/'' \<notin> set name \<and>
      e = PDict [(''name'', PStr name), (''hp'', hp), (''attack'', PInt attack),
                 (''defense'', PInt defense), (''folder'', PStr folder),
                 (''dialogue'', dialogue), (''acts'', acts)]) ch2_enemies"
  unfolding ch2_enemies_def list.pred_inject ch2_enemies_records
  by (intro conjI exI; (rule refl | simp))

lemma enemy_filename_name:
  "subscript e ''name'' = Inr (PStr n) \<Longrightarrow>
   enemy_filename e = Inr (replace (CHR ''-'') ''_'' (replace (CHR '' '') ''_'' (lower n)) @ ''.json'')"
  by (simp add: enemy_filename_def)

lemma enemy_descriptor_fields:
  assumes "enemy_descriptor e c = Inr d"
  shows "subscript d ''name'' = subscript e ''name''"
    and "subscript d ''attackPatterns'' = Inr deltarune_attack_patterns"
    and "subscript d ''acts'' = subscript e ''acts''"
    and "subscript d ''gold'' = Inr (PInt 10)"
    and "\<exists>path. subscript d ''sprites'' = Inr (PDict [(''idle'', PStr path)])"
  using assms unfolding enemy_descriptor_def bind_err_Inr Let_def by auto

lemma shaped_enemy_ok:
  assumes n: "CHR ''/'' \<notin> set name"
    and e: "e = PDict [(''name'', PStr name), (''hp'', hp), (''attack'', PInt attack),
                 (''defense'', PInt defense), (''folder'', PStr folder),
                 (''dialogue'', dialogue), (''acts'', acts)]"
  shows "\<exists>f d. enemy_filename e = Inr f \<and> CHR ''/'' \<notin> set f \<and> enemy_descriptor e c = Inr d \<and>
      subscript e ''gold'' = Inl KeyError"
proof -
  have f: "enemy_filename e =
     Inr (replace (CHR ''-'') ''_'' (replace (CHR '' '') ''_'' (lower name)) @ ''.json'')"
    by (rule enemy_filename_name) (simp add: e)
  have s: "CHR ''/'' \<notin> set (replace (CHR ''-'') ''_'' (replace (CHR '' '') ''_'' (lower name)) @ ''.json'')"
    using n by (simp add: slash_in_replace slash_in_lower)
  obtain d where d: "enemy_descriptor e c = Inr d"
    unfolding e by (simp add: enemy_descriptor_def)
  have g: "subscript e ''gold'' = Inl KeyError"
    unfolding e by simp
  show ?thesis
    by (intro exI conjI) (rule f, rule s, rule d, rule g)
qed

lemma enemies_ok:
  assumes "list_all (\<lambda>e. \<exists>name hp attack defense folder dialogue acts.
      CHR ''/'' \<notin> set name \<and>
      e = PDict [(''name'', PStr name), (''hp'', hp), (''attack'', PInt attack),
                 (''defense'', PInt defense), (''folder'', PStr folder),
                 (''dialogue'', dialogue), (''acts'', acts)]) es"
  shows "list_all (\<lambda>e. \<exists>f d. enemy_filename e = Inr f \<and> CHR ''/'' \<notin> set f \<and>
      enemy_descriptor e c = Inr d \<and> subscript e ''gold'' = Inl KeyError) es"
proof (rule list.pred_mono_strong [OF assms])
  fix e
  assume "\<exists>name hp attack defense folder dialogue acts.
      CHR ''/'' \<notin> set name \<and>
      e = PDict [(''name'', PStr name), (''hp'', hp), (''attack'', PInt attack),
                 (''defense'', PInt defense), (''folder'', PStr folder),
                 (''dialogue'', dialogue), (''acts'', acts)]"
  then obtain name hp attack defense folder dialogue acts where
    n: "CHR ''/'' \<notin> set name" and
    e: "e = PDict [(''name'', PStr name), (''hp'', hp), (''attack'', PInt attack),
                 (''defense'', PInt defense), (''folder'', PStr folder),
                 (''dialogue'', dialogue), (''acts'', acts)]"
    by (elim exE conjE)
  show "\<exists>f d. enemy_filename e = Inr f \<and> CHR ''/'' \<notin> set f \<and> enemy_descriptor e c = Inr d \<and>
      subscript e ''gold'' = Inl KeyError"
    by (rule shaped_enemy_ok [OF n e])
qed

lemma enemies_nth:
  assumes "i < length ch1_enemies + length ch2_enemies"
  shows "enemy_filename ((ch1_enemies @ ch2_enemies) ! i) =
           Inr (projr (enemy_filename ((ch1_enemies @ ch2_enemies) ! i)))"
    and "CHR ''/'' \<notin> set (projr (enemy_filename ((ch1_enemies @ ch2_enemies) ! i)))"
    and "enemy_descriptor ((ch1_enemies @ ch2_enemies) ! i) c =
           Inr (projr (enemy_descriptor ((ch1_enemies @ ch2_enemies) ! i) c))"
    and "subscript ((ch1_enemies @ ch2_enemies) ! i) ''gold'' = Inl KeyError"
proof -
  let ?e = "(ch1_enemies @ ch2_enemies) ! i"
  have all: "list_all (\<lambda>e. \<exists>f d. enemy_filename e = Inr f \<and> CHR ''/'' \<notin> set f \<and>
      enemy_descriptor e c = Inr d \<and> subscript e ''gold'' = Inl KeyError) (ch1_enemies @ ch2_enemies)"
    using enemies_ok [OF ch1_enemies_shape, of c] enemies_ok [OF ch2_enemies_shape, of c] by simp
  have i: "i < length (ch1_enemies @ ch2_enemies)" using assms by simp
  have "\<exists>f d. enemy_filename ?e = Inr f \<and> CHR ''/'' \<notin> set f \<and>
      enemy_descriptor ?e c = Inr d \<and> subscript ?e ''gold'' = Inl KeyError"
    by (rule list_all_length [THEN iffD1, rule_format, OF all i])
  then obtain f d where "enemy_filename ?e = Inr f" "CHR ''/'' \<notin> set f"
    "enemy_descriptor ?e c = Inr d" "subscript ?e ''gold'' = Inl KeyError"
    by (elim exE conjE)
  then show "enemy_filename ?e = Inr (projr (enemy_filename ?e))"
    and "CHR ''/'' \<notin> set (projr (enemy_filename ?e))"
    and "enemy_descriptor ?e c = Inr (projr (enemy_descriptor ?e c))"
    and "subscript ?e ''gold'' = Inl KeyError"
    by simp_all
qed

lemma generate_enemy_json_step:
  assumes "r < length (heap w)" "enemy_filename (heap w ! r) = Inr f" "CHR ''/'' \<notin> set f"
    "enemy_descriptor (heap w ! r) c = Inr d" "dir \<in> dirs (fs w)" "dir \<noteq> []" "last dir \<noteq> CHR ''/''"
  shows "generate_enemy_json r c dir w =
    Inr (w\<lparr>fs := (fs w)\<lparr>files := (files (fs w))(join dir f \<mapsto> d)\<rparr>\<rparr>)"
proof -
  have "dirname (join dir f) = dir"
    by (rule dirname_join) (use assms in simp_all)
  then show ?thesis
    using assms by (simp add: generate_enemy_json_def deref_def write_json_ok Let_def)
qed

lemma deltarune_enemies_loop:
  assumes "heap w = ch1_enemies @ ch2_enemies" "''data/enemies/deltarune'' \<in> dirs (fs w)"
    and "set rs \<subseteq> {..<length ch1_enemies + length ch2_enemies}"
  shows "for_each (\<lambda>enemy. generate_enemy_json enemy c ''data/enemies/deltarune'') rs w =
     Inr (w\<lparr>fs := (fs w)\<lparr>files := files (fs w) ++
        map_of (rev (map (\<lambda>r. (join ''data/enemies/deltarune''
                                  (projr (enemy_filename ((ch1_enemies @ ch2_enemies) ! r))),
                                projr (enemy_descriptor ((ch1_enemies @ ch2_enemies) ! r) c))) rs))\<rparr>\<rparr>)"
proof -
  let ?dir = "''data/enemies/deltarune''"
  let ?h = "ch1_enemies @ ch2_enemies"
  let ?p = "\<lambda>r. join ?dir (projr (enemy_filename (?h ! r)))"
  let ?v = "\<lambda>r. projr (enemy_descriptor (?h ! r) c)"
  have "for_each (\<lambda>enemy. generate_enemy_json enemy c ?dir) rs w =
     Inr (w\<lparr>fs := (fs w)\<lparr>dirs := (if rs = [] then dirs (fs w) else dirs (fs w) \<union> {}),
        files := files (fs w) ++ map_of (rev (map (\<lambda>x. (?p x, ?v x)) rs))\<rparr>\<rparr>)"
  proof (rule for_each_writes [where h = ?h and D = "{?dir}"])
    show "heap w = ?h" by (rule assms(1))
    show "{?dir} \<subseteq> dirs (fs w)" using assms(2) by simp
    fix x and w' :: world
    assume x: "x \<in> set rs" and h: "heap w' = ?h" and d: "{?dir} \<subseteq> dirs (fs w')"
    have i: "x < length ch1_enemies + length ch2_enemies" using x assms(3) by auto
    have "generate_enemy_json x c ?dir w' =
       Inr (w'\<lparr>fs := (fs w')\<lparr>files := (files (fs w'))(join ?dir (projr (enemy_filename (?h ! x))) \<mapsto>
          projr (enemy_descriptor (?h ! x) c))\<rparr>\<rparr>)"
    proof (rule generate_enemy_json_step)
      show "x < length (heap w')" using i h by simp
      show "enemy_filename (heap w' ! x) = Inr (projr (enemy_filename (?h ! x)))"
        unfolding h by (rule enemies_nth(1) [OF i])
      show "CHR ''/'' \<notin> set (projr (enemy_filename (?h ! x)))" by (rule enemies_nth(2) [OF i])
      show "enemy_descriptor (heap w' ! x) c = Inr (projr (enemy_descriptor (?h ! x) c))"
        unfolding h by (rule enemies_nth(3) [OF i])
      show "?dir \<in> dirs (fs w')" using d by simp
    qed simp_all
    then show "generate_enemy_json x c ?dir w' =
      Inr (w'\<lparr>fs := (fs w')\<lparr>dirs := dirs (fs w') \<union> {}, files := (files (fs w'))(?p x \<mapsto> ?v x)\<rparr>\<rparr>)"
      by simp
  qed
  then show ?thesis by simp
qed

lemma map_nth_append:
  "map (\<lambda>r. f ((xs @ ys) ! r)) [0..<length xs] = map f xs"
  "map (\<lambda>r. f ((xs @ ys) ! r)) [length xs..<length xs + length ys] = map f ys"
  by (rule nth_equalityI; simp add: nth_append)+

lemma run_deltarune_enemies_eq:
  "run_deltarune_enemies fs0 =
     Inr \<lparr>heap = ch1_enemies @ ch2_enemies,
          fs = fs0\<lparr>dirs := dirs fs0 \<union> set (ancestors ''data/enemies/deltarune''),
                   files := files fs0 ++ map_of (rev (outputs Deltarune_enemies))\<rparr>\<rparr>"
proof -
  let ?dir = "''data/enemies/deltarune''"
  let ?h = "ch1_enemies @ ch2_enemies"
  let ?w = "\<lparr>heap = ?h, fs = fs0\<lparr>dirs := dirs fs0 \<union> set (ancestors ?dir)\<rparr>\<rparr>"
  let ?o1 = "map (\<lambda>e. (join ?dir (projr (enemy_filename e)), projr (enemy_descriptor e ''ch1''))) ch1_enemies"
  let ?o2 = "map (\<lambda>e. (join ?dir (projr (enemy_filename e)), projr (enemy_descriptor e ''ch2''))) ch2_enemies"
  let ?w1 = "?w\<lparr>fs := (fs ?w)\<lparr>files := files (fs ?w) ++ map_of (rev ?o1)\<rparr>\<rparr>"
  have d: "?dir \<in> set (ancestors ?dir)" by (rule not_slashes_ancestors) simp
  have mk: "makedirs ?dir fs0 = Inr (fs0\<lparr>dirs := dirs fs0 \<union> set (ancestors ?dir)\<rparr>)"
    by (rule makedirs_ok) simp
  have s1: "set [0..<length ch1_enemies] \<subseteq> {..<length ch1_enemies + length ch2_enemies}"
    by auto
  have s2: "set [length ch1_enemies..<length ch1_enemies + length ch2_enemies]
      \<subseteq> {..<length ch1_enemies + length ch2_enemies}"
    by auto
  have h0: "heap ?w = ch1_enemies @ ch2_enemies" by simp
  have d0: "?dir \<in> dirs (fs ?w)" using d by simp
  have h1: "heap ?w1 = ch1_enemies @ ch2_enemies" by simp
  have d1: "?dir \<in> dirs (fs ?w1)" using d by simp
  have l1: "for_each (\<lambda>enemy. generate_enemy_json enemy ''ch1'' ?dir) [0..<length ch1_enemies] ?w = Inr ?w1"
    unfolding deltarune_enemies_loop [OF h0 d0 s1, of "''ch1''"]
      map_nth_append(1) [of "\<lambda>e. (join ?dir (projr (enemy_filename e)), projr (enemy_descriptor e ''ch1''))"]
    by (rule refl)
  have l2: "for_each (\<lambda>enemy. generate_enemy_json enemy ''ch2'' ?dir)
      [length ch1_enemies..<length ch1_enemies + length ch2_enemies] ?w1 =
      Inr (?w1\<lparr>fs := (fs ?w1)\<lparr>files := files (fs ?w1) ++ map_of (rev ?o2)\<rparr>\<rparr>)"
    unfolding deltarune_enemies_loop [OF h1 d1 s2, of "''ch2''"]
      map_nth_append(2) [of "\<lambda>e. (join ?dir (projr (enemy_filename e)), projr (enemy_descriptor e ''ch2''))"]
    by (rule refl)
  have o: "map_of (rev (outputs Deltarune_enemies)) = map_of (rev ?o1) ++ map_of (rev ?o2)"
    by (simp del: map_of_append add: map_of_append [symmetric])
  have r: "run_deltarune_enemies fs0 =
     Inr \<lparr>heap = ch1_enemies @ ch2_enemies,
          fs = fs0\<lparr>dirs := dirs fs0 \<union> set (ancestors ''data/enemies/deltarune''),
                   files := files fs0 ++ map_of (rev ?o1) ++ map_of (rev ?o2)\<rparr>\<rparr>"
    using l1 l2 mk
    by (simp add: run_deltarune_enemies_def main_deltarune_enemies_def Let_def)
  show ?thesis
    unfolding o map_add_assoc by (rule r)
qed

subsection \<open>generate\_enemies.py\<close>

lemma OUTPUT_DIR_enemies_plain:
  "OUTPUT_DIR_enemies \<noteq> []" "last OUTPUT_DIR_enemies \<noteq> CHR ''/''"
  "\<not> list_all (\<lambda>c. c = CHR ''/'') OUTPUT_DIR_enemies"
  by (simp_all add: OUTPUT_DIR_enemies_def)

lemma ENEMIES_lack: "list_all lacks_patterns (map snd ENEMIES)"
proof (rule list.pred_mono_strong [OF ENEMIES_shape])
  fix e
  assume "\<exists>name hp attack defense gold exp spare dialogue checkText sprites acts.
      e = PDict [(''name'', name), (''hp'', hp), (''attack'', attack), (''defense'', defense),
                 (''gold'', gold), (''exp'', exp), (''spareThreshold'', spare),
                 (''dialogue'', dialogue), (''checkText'', checkText), (''sprites'', sprites),
                 (''acts'', acts)]"
  then obtain name hp attack defense gold exp spare dialogue checkText sprites acts where
    e: "e = PDict [(''name'', name), (''hp'', hp), (''attack'', attack), (''defense'', defense),
                 (''gold'', gold), (''exp'', exp), (''spareThreshold'', spare),
                 (''dialogue'', dialogue), (''checkText'', checkText), (''sprites'', sprites),
                 (''acts'', acts)]"
    by (elim exE)
  show "lacks_patterns e"
    unfolding lacks_patterns_def e by (simp add: with_default_def)
qed

lemma create_enemy_json_step:
  assumes r: "r < length (heap w)" and l: "lacks_patterns (heap w ! r)"
    and d: "OUTPUT_DIR_enemies \<in> dirs (fs w)" and k: "CHR ''/'' \<notin> set k"
  shows "create_enemy_json k r w =
    Inr (w\<lparr>heap := (heap w)[r := with_default (heap w ! r)],
           fs := (fs w)\<lparr>files := (files (fs w))(join OUTPUT_DIR_enemies (k @ ''.json'') \<mapsto>
                   with_default (heap w ! r))\<rparr>\<rparr>)"
proof -
  have dn: "dirname (join OUTPUT_DIR_enemies (k @ ''.json'')) = OUTPUT_DIR_enemies"
    by (rule dirname_join) (use k in \<open>simp_all add: OUTPUT_DIR_enemies_plain\<close>)
  have c: "contains (heap w ! r) ''attackPatterns'' = Inr False"
    and s: "setitem (heap w ! r) ''attackPatterns'' default_attack_patterns = Inr (with_default (heap w ! r))"
    using l by (simp_all add: lacks_patterns_def)
  show ?thesis
    using r d by (simp add: create_enemy_json_def deref_def c s assign_def Let_def write_json_ok [OF _ dn])
qed

lemma create_enemy_json_fail:
  assumes r: "r < length (heap w)" and l: "lacks_patterns (heap w ! r)"
    and d: "OUTPUT_DIR_enemies \<notin> dirs (fs w)" and k: "CHR ''/'' \<notin> set k"
  shows "create_enemy_json k r w = Inl FileNotFoundError"
proof -
  have dn: "dirname (join OUTPUT_DIR_enemies (k @ ''.json'')) = OUTPUT_DIR_enemies"
    by (rule dirname_join) (use k in \<open>simp_all add: OUTPUT_DIR_enemies_plain\<close>)
  have c: "contains (heap w ! r) ''attackPatterns'' = Inr False"
    and s: "setitem (heap w ! r) ''attackPatterns'' default_attack_patterns = Inr (with_default (heap w ! r))"
    using l by (simp_all add: lacks_patterns_def)
  show ?thesis
    using r d
    by (simp add: create_enemy_json_def deref_def c s assign_def Let_def
        write_json_fail [OF _ OUTPUT_DIR_enemies_plain(3) dn])
qed

lemma for_each_enemies:
  assumes "distinct (map snd es)"
    and "\<forall>(k, r) \<in> set es. r < length (heap w) \<and> CHR ''/'' \<notin> set k \<and> lacks_patterns (heap w ! r)"
    and "OUTPUT_DIR_enemies \<in> dirs (fs w)"
  shows "for_each (\<lambda>(k, r). create_enemy_json k r) es w =
     Inr (w\<lparr>heap := fold (\<lambda>(k, r) h. h[r := with_default (h ! r)]) es (heap w),
            fs := (fs w)\<lparr>files := files (fs w) ++
               map_of (rev (map (\<lambda>(k, r). (join OUTPUT_DIR_enemies (k @ ''.json''),
                                             with_default (heap w ! r))) es))\<rparr>\<rparr>)"
  using assms
proof (induction es arbitrary: w)
  case Nil
  then show ?case by simp
next
  case (Cons x es)
  obtain k r where x: "x = (k, r)" by (cases x)
  let ?e = "with_default (heap w ! r)"
  let ?w1 = "w\<lparr>heap := (heap w)[r := ?e],
           fs := (fs w)\<lparr>files := (files (fs w))(join OUTPUT_DIR_enemies (k @ ''.json'') \<mapsto> ?e)\<rparr>\<rparr>"
  have st: "create_enemy_json k r w = Inr ?w1"
    by (rule create_enemy_json_step) (use Cons.prems x in auto)
  have nr: "r \<notin> snd ` set es" using Cons.prems(1) x by simp
  have same: "heap ?w1 ! r' = heap w ! r'" if "(k', r') \<in> set es" for k' r'
  proof -
    have "r' \<noteq> r" using nr that by force
    then show ?thesis by simp
  qed
  have ih: "for_each (\<lambda>(k, r). create_enemy_json k r) es ?w1 =
     Inr (?w1\<lparr>heap := fold (\<lambda>(k, r) h. h[r := with_default (h ! r)]) es (heap ?w1),
            fs := (fs ?w1)\<lparr>files := files (fs ?w1) ++
               map_of (rev (map (\<lambda>(k, r). (join OUTPUT_DIR_enemies (k @ ''.json''),
                                             with_default (heap ?w1 ! r))) es))\<rparr>\<rparr>)"
  proof (rule Cons.IH)
    show "distinct (map snd es)" using Cons.prems(1) by simp
    show "OUTPUT_DIR_enemies \<in> dirs (fs ?w1)" using Cons.prems(3) by simp
    show "\<forall>(k, r) \<in> set es. r < length (heap ?w1) \<and> CHR ''/'' \<notin> set k \<and> lacks_patterns (heap ?w1 ! r)"
    proof (clarify)
      fix k' r' assume m: "(k', r') \<in> set es"
      have "r' < length (heap w) \<and> CHR ''/'' \<notin> set k' \<and> lacks_patterns (heap w ! r')"
        using Cons.prems(2) m by auto
      then show "r' < length (heap ?w1) \<and> CHR ''/'' \<notin> set k' \<and> lacks_patterns (heap ?w1 ! r')"
        using same [OF m] by simp
    qed
  qed
  have vals: "map (\<lambda>(k, r). (join OUTPUT_DIR_enemies (k @ ''.json''), with_default (heap ?w1 ! r))) es
      = map (\<lambda>(k, r). (join OUTPUT_DIR_enemies (k @ ''.json''), with_default (heap w ! r))) es"
    by (rule map_cong [OF refl]) (use same in \<open>auto simp del: world.simps\<close>)
  have add: "files (fs w) ++ map_of (rev (map (\<lambda>(k, r). (join OUTPUT_DIR_enemies (k @ ''.json''),
                                             with_default (heap w ! r))) (x # es)))
     = (files (fs w))(join OUTPUT_DIR_enemies (k @ ''.json'') \<mapsto> ?e) ++
        map_of (rev (map (\<lambda>(k, r). (join OUTPUT_DIR_enemies (k @ ''.json''),
                                             with_default (heap w ! r))) es))"
    by (simp add: x map_add_def fun_eq_iff split: option.splits)
  show ?case
    unfolding x for_each.simps prod.case st bind_err_simps ih vals add fold_simps
    by simp
qed

lemma fold_update_refs:
  assumes "distinct (map snd es)" "\<forall>(k, r) \<in> set es. r < length h"
  shows "fold (\<lambda>(k, r) h. h[r := g (h ! r)]) es h =
         map (\<lambda>i. if i \<in> snd ` set es then g (h ! i) else h ! i) [0..<length h]"
  using assms
proof (induction es arbitrary: h)
  case Nil
  then show ?case by (simp add: map_nth)
next
  case (Cons x es)
  obtain k r where x: "x = (k, r)" by (cases x)
  have nr: "r \<notin> snd ` set es" using Cons.prems(1) x by simp
  have rl: "r < length h" using Cons.prems(2) x by simp
  have ne: "b \<noteq> r" if "(a, b) \<in> set es" for a b
    using nr that by force
  have "fold (\<lambda>(k, r) h. h[r := g (h ! r)]) es (h[r := g (h ! r)]) =
      map (\<lambda>i. if i \<in> snd ` set es then g (h[r := g (h ! r)] ! i) else h[r := g (h ! r)] ! i)
        [0..<length (h[r := g (h ! r)])]"
    by (rule Cons.IH) (use Cons.prems in auto)
  also have "\<dots> = map (\<lambda>i. if i \<in> snd ` set (x # es) then g (h ! i) else h ! i) [0..<length h]"
    using nr ne rl by (intro nth_equalityI) (auto simp: x nth_list_update)
  finally show ?case by (simp add: x)
qed

lemma items_snd: "map snd (items t) = [0..<length t]"
  by (simp add: items_def)

lemma items_refs: "snd ` set (items t) = {..<length t}" "distinct (map snd (items t))"
proof -
  have "snd ` set (items t) = set (map snd (items t))" by simp
  also have "\<dots> = {..<length t}" unfolding items_snd by auto
  finally show "snd ` set (items t) = {..<length t}" .
  show "distinct (map snd (items t))" unfolding items_snd by simp
qed

lemma run_enemies_eq:
  assumes "OUTPUT_DIR_enemies \<in> dirs fs0"
  shows "run_enemies fs0 =
     Inr \<lparr>heap = map with_default (map snd ENEMIES),
          fs = fs0\<lparr>files := files fs0 ++ map_of (rev (outputs Enemies))\<rparr>\<rparr>"
proof -
  let ?h = "map snd ENEMIES"
  let ?w = "\<lparr>heap = ?h, fs = fs0\<rparr>"
  have pre: "\<forall>(k, r) \<in> set (items ENEMIES). r < length (heap ?w) \<and> CHR ''/'' \<notin> set k \<and>
      lacks_patterns (heap ?w ! r)"
  proof (clarify)
    fix k r assume m: "(k, r) \<in> set (items ENEMIES)"
    have r: "r < length ENEMIES" using items_set [OF m] by simp
    have "CHR ''/'' \<notin> set k" using items_key [OF m] unfolding ENEMIES_keys by auto
    moreover have "lacks_patterns (?h ! r)"
      using ENEMIES_lack r by (simp add: list_all_length)
    ultimately show "r < length (heap ?w) \<and> CHR ''/'' \<notin> set k \<and> lacks_patterns (heap ?w ! r)"
      using r by simp
  qed
  have hp: "fold (\<lambda>(k, r) h. h[r := with_default (h ! r)]) (items ENEMIES) ?h = map with_default ?h"
  proof -
    have "fold (\<lambda>(k, r) h. h[r := with_default (h ! r)]) (items ENEMIES) ?h =
        map (\<lambda>i. if i \<in> snd ` set (items ENEMIES) then with_default (?h ! i) else ?h ! i) [0..<length ?h]"
      by (rule fold_update_refs) (use items_set in \<open>auto simp: items_refs\<close>)
    also have "\<dots> = map with_default ?h"
      by (intro nth_equalityI) (auto simp: items_refs)
    finally show ?thesis .
  qed
  have out: "map (\<lambda>(k, r). (join OUTPUT_DIR_enemies (k @ ''.json''), with_default (?h ! r))) (items ENEMIES)
      = outputs Enemies"
    using items_map [of "\<lambda>k. join OUTPUT_DIR_enemies (k @ ''.json'')" with_default ENEMIES] by simp
  have "for_each (\<lambda>(k, r). create_enemy_json k r) (items ENEMIES) ?w =
     Inr (?w\<lparr>heap := fold (\<lambda>(k, r) h. h[r := with_default (h ! r)]) (items ENEMIES) (heap ?w),
            fs := (fs ?w)\<lparr>files := files (fs ?w) ++
               map_of (rev (map (\<lambda>(k, r). (join OUTPUT_DIR_enemies (k @ ''.json''),
                                             with_default (heap ?w ! r))) (items ENEMIES)))\<rparr>\<rparr>)"
    by (rule for_each_enemies [OF items_refs(2) pre]) (use assms in simp)
  then show ?thesis
    using hp out by (simp add: run_enemies_def main_enemies_def del: outputs.simps)
qed

lemma run_enemies_fail:
  assumes "OUTPUT_DIR_enemies \<notin> dirs fs0"
  shows "run_enemies fs0 = Inl FileNotFoundError"
proof -
  let ?w = "\<lparr>heap = map snd ENEMIES, fs = fs0\<rparr>"
  obtain k v rest where t: "ENEMIES = (k, v) # rest" and k: "k = ''froggit''"
    by (simp add: ENEMIES_def)
  obtain es where i: "items ENEMIES = (k, 0) # es"
  proof -
    have u: "[0..<length ENEMIES] = 0 # [Suc 0..<length ENEMIES]"
      by (rule upt_conv_Cons) (simp add: t)
    have "items ENEMIES = (k, 0) # zip (map fst rest) [Suc 0..<length ENEMIES]"
      unfolding items_def u by (simp add: t del: upt_Suc)
    then show ?thesis by (rule that)
  qed
  have l: "lacks_patterns (heap ?w ! 0)"
    using ENEMIES_lack by (simp add: t)
  have "create_enemy_json k 0 ?w = Inl FileNotFoundError"
    by (rule create_enemy_json_fail) (use assms l in \<open>simp_all add: t k\<close>)
  then show ?thesis
    by (simp add: run_enemies_def main_enemies_def i)
qed

section \<open>Every run in one closed form\<close>

lemma run_eq:
  assumes "s = Enemies \<longrightarrow> OUTPUT_DIR_enemies \<in> dirs fs0"
  shows "run s fs0 =
     Inr \<lparr>heap = final_heap s,
          fs = fs0\<lparr>dirs := dirs fs0 \<union> created s,
                   files := files fs0 ++ map_of (rev (outputs s))\<rparr>\<rparr>"
proof (cases s)
  case Bosses_old
  show ?thesis unfolding Bosses_old run.simps run_bosses_old_eq by simp
next
  case Deltarune_bosses
  show ?thesis unfolding Deltarune_bosses run.simps run_deltarune_bosses_eq by simp
next
  case Deltarune_enemies
  show ?thesis unfolding Deltarune_enemies run.simps run_deltarune_enemies_eq by simp
next
  case Enemies
  then have "OUTPUT_DIR_enemies \<in> dirs fs0" using assms by simp
  then show ?thesis unfolding Enemies run.simps by (simp add: run_enemies_eq)
next
  case Missing_enemies
  show ?thesis unfolding Missing_enemies run.simps run_missing_eq by simp
qed

lemma run_fail: "OUTPUT_DIR_enemies \<notin> dirs fs0 \<Longrightarrow> run Enemies fs0 = Inl FileNotFoundError"
  by (simp add: run_enemies_fail)

lemma run_closed:
  assumes "run s fs0 = Inr w"
  shows "w = \<lparr>heap = final_heap s,
          fs = fs0\<lparr>dirs := dirs fs0 \<union> created s,
                   files := files fs0 ++ map_of (rev (outputs s))\<rparr>\<rparr>"
proof -
  have "s = Enemies \<longrightarrow> OUTPUT_DIR_enemies \<in> dirs fs0"
  proof (intro impI, rule ccontr)
    assume s: "s = Enemies" and "OUTPUT_DIR_enemies \<notin> dirs fs0"
    then have "run Enemies fs0 = Inl FileNotFoundError" by (intro run_fail)
    then show False using assms s by simp
  qed
  from run_eq [OF this] assms show ?thesis by simp
qed

lemma run_heap: "run s fs0 = Inr w \<Longrightarrow> heap w = final_heap s"
  by (drule run_closed) simp

lemma run_files: "run s fs0 = Inr w \<Longrightarrow> files (fs w) = files fs0 ++ map_of (rev (outputs s))"
  by (drule run_closed) simp

lemma run_dirs: "run s fs0 = Inr w \<Longrightarrow> dirs (fs w) = dirs fs0 \<union> created s"
  by (drule run_closed) simp

section \<open>The files a run writes\<close>

lemma outputs_length: "length (outputs s) = length (records s)"
  by (cases s) simp_all

lemma final_heap_length: "length (final_heap s) = length (records s)"
  by (cases s) simp_all

lemma files_lookup:
  assumes "distinct (map fst xs)" "i < length xs"
  shows "(m ++ map_of (rev xs)) (fst (xs ! i)) = Some (snd (xs ! i))"
proof -
  have "(fst (xs ! i), snd (xs ! i)) \<in> set (rev xs)" using assms(2) by simp
  moreover have "distinct (map fst (rev xs))" using assms(1) by (simp add: rev_map [symmetric])
  ultimately have "map_of (rev xs) (fst (xs ! i)) = Some (snd (xs ! i))"
    by (rule map_of_is_SomeI [rotated])
  then show ?thesis by (simp add: map_add_Some_iff)
qed

lemma files_untouched:
  "p \<notin> fst ` set xs \<Longrightarrow> (m ++ map_of (rev xs)) p = m p"
  by (simp add: map_add_def map_of_eq_None_iff [THEN iffD2])

lemma outputs_target:
  assumes "i < length (records s)"
  shows "target s i = Inr (fst (outputs s ! i))"
proof (cases s)
  case Bosses_old
  then show ?thesis using assms by (simp add: case_prod_unfold)
next
  case Deltarune_bosses
  then have i: "i < length bosses" using assms by simp
  show ?thesis unfolding Deltarune_bosses target.simps
    by (subst bosses_nth(1) [OF i]) (use i in simp)
next
  case Deltarune_enemies
  then have i: "i < length ch1_enemies + length ch2_enemies" using assms by simp
  have "fst (outputs Deltarune_enemies ! i) =
      join ''data/enemies/deltarune'' (projr (enemy_filename ((ch1_enemies @ ch2_enemies) ! i)))"
    using i by (simp add: nth_append)
  then show ?thesis unfolding Deltarune_enemies target.simps
    by (subst enemies_nth(1) [OF i]) simp
next
  case Enemies
  then show ?thesis using assms by (simp add: case_prod_unfold)
next
  case Missing_enemies
  then show ?thesis using assms by (simp add: case_prod_unfold)
qed


lemma outputs_deltarune_bosses:
  assumes "i < length bosses"
  shows "boss_descriptor (bosses ! i) = Inr (snd (outputs Deltarune_bosses ! i))"
  using bosses_nth(3) [OF assms] assms by simp

lemma outputs_deltarune_enemies:
  assumes "i < length ch1_enemies + length ch2_enemies"
  shows "enemy_descriptor ((ch1_enemies @ ch2_enemies) ! i) (chapter_of i) =
         Inr (snd (outputs Deltarune_enemies ! i))"
proof -
  have "snd (outputs Deltarune_enemies ! i) =
      projr (enemy_descriptor ((ch1_enemies @ ch2_enemies) ! i) (chapter_of i))"
    using assms by (simp add: nth_append chapter_of_def)
  then show ?thesis using enemies_nth(3) [OF assms, of "chapter_of i"] by simp
qed

section \<open>One file for each record\<close>

lemma distinct_json_paths:
  assumes "distinct ks" "\<forall>k \<in> set ks. CHR ''/'' \<notin> set k" "a \<noteq> []" "last a \<noteq> CHR ''/''"
  shows "distinct (map (\<lambda>k. join a (k @ ''.json'')) ks)"
proof -
  have plain: "join a (k @ ''.json'') = a @ CHR ''/'' # (k @ ''.json'')" if "k \<in> set ks" for k
  proof (rule join_plain [OF assms(3,4)])
    have "CHR ''/'' \<notin> set k" by (rule bspec [OF assms(2) that])
    then show "CHR ''/'' \<notin> set (k @ ''.json'')" by simp
  qed
  have "inj_on (\<lambda>k. join a (k @ ''.json'')) (set ks)"
  proof (rule inj_onI)
    fix x y assume x: "x \<in> set ks" and y: "y \<in> set ks"
      and e: "join a (x @ ''.json'') = join a (y @ ''.json'')"
    have "a @ CHR ''/'' # (x @ ''.json'') = a @ CHR ''/'' # (y @ ''.json'')"
      using e unfolding plain [OF x] plain [OF y] .
    then show "x = y" by simp
  qed
  with assms(1) show ?thesis unfolding distinct_map by (rule conjI)
qed

lemma ch1_enemies_names:
  "map (\<lambda>e. subscript e ''name'') ch1_enemies =
     [Inr (PStr ''Rudinn''), Inr (PStr ''Hathy''), Inr (PStr ''Jigsawry''), Inr (PStr ''Ponman''),
      Inr (PStr ''Bloxer''), Inr (PStr ''Starwalker'')]"
  unfolding ch1_enemies_def list.map ch1_enemies_records subscript_hit
  by (rule refl)

lemma ch2_enemies_names:
  "map (\<lambda>e. subscript e ''name'') ch2_enemies =
     [Inr (PStr ''Virovirokun''), Inr (PStr ''Ambyu-Lance''), Inr (PStr ''Werewire''),
      Inr (PStr ''Tasque''), Inr (PStr ''Maus''), Inr (PStr ''Swatchling'')]"
  unfolding ch2_enemies_def list.map ch2_enemies_records subscript_hit
  by (rule refl)

lemma enemy_filename_via_name:
  "map enemy_filename es =
     map (\<lambda>r. bind_err r (\<lambda>n. bind_err (str_lower n) (\<lambda>l.
        Inr (replace (CHR ''-'') ''_'' (replace (CHR '' '') ''_'' l) @ ''.json''))))
       (map (\<lambda>e. subscript e ''name'') es)"
  by (simp add: enemy_filename_def)

lemma ch1_enemies_filenames:
  "map enemy_filename ch1_enemies =
     [Inr ''rudinn.json'', Inr ''hathy.json'', Inr ''jigsawry.json'', Inr ''ponman.json'',
      Inr ''bloxer.json'', Inr ''starwalker.json'']"
  unfolding enemy_filename_via_name ch1_enemies_names by (simp add: name_rules)

lemma ch2_enemies_filenames:
  "map enemy_filename ch2_enemies =
     [Inr ''virovirokun.json'', Inr ''ambyu_lance.json'', Inr ''werewire.json'',
      Inr ''tasque.json'', Inr ''maus.json'', Inr ''swatchling.json'']"
  unfolding enemy_filename_via_name ch2_enemies_names by (simp add: name_rules)

lemma outputs_paths:
  "map fst (outputs Bosses_old) = map (\<lambda>k. join OUTPUT_DIR_bosses (k @ ''.json'')) (map fst BOSSES)"
  "map fst (outputs Enemies) = map (\<lambda>k. join OUTPUT_DIR_enemies (k @ ''.json'')) (map fst ENEMIES)"
  "map fst (outputs Missing_enemies) = map (\<lambda>k. ''data/enemies/'' @ k @ ''.json'') (map fst MISSING_ENEMIES)"
  "map fst (outputs Deltarune_bosses) =
     map (\<lambda>r. join ''data/enemies/deltarune/bosses'' (projr r)) (map boss_filename bosses)"
  "map fst (outputs Deltarune_enemies) =
     map (\<lambda>r. join ''data/enemies/deltarune'' (projr r)) (map enemy_filename ch1_enemies) @
     map (\<lambda>r. join ''data/enemies/deltarune'' (projr r)) (map enemy_filename ch2_enemies)"
  by (simp_all add: case_prod_unfold comp_def)

lemma outputs_distinct: "distinct (map fst (outputs s))"
proof (cases s)
  case Bosses_old
  show ?thesis unfolding Bosses_old outputs_paths
    by (rule distinct_json_paths) (simp_all add: BOSSES_keys OUTPUT_DIR_bosses_plain)
next
  case Deltarune_bosses
  show ?thesis unfolding Deltarune_bosses outputs_paths bosses_filenames
    by (simp add: join_def)
next
  case Deltarune_enemies
  show ?thesis unfolding Deltarune_enemies outputs_paths ch1_enemies_filenames ch2_enemies_filenames
    by (simp add: join_def)
next
  case Enemies
  show ?thesis unfolding Enemies outputs_paths
    by (rule distinct_json_paths) (simp_all add: ENEMIES_keys OUTPUT_DIR_enemies_plain)
next
  case Missing_enemies
  have "inj (\<lambda>k. ''data/enemies/'' @ k @ ''.json'')" by (rule injI) simp
  then have inj: "inj_on (\<lambda>k. ''data/enemies/'' @ k @ ''.json'') (set (map fst MISSING_ENEMIES))"
    by (rule inj_on_subset) simp
  have dk: "distinct (map fst MISSING_ENEMIES)" unfolding MISSING_ENEMIES_keys by simp
  show ?thesis unfolding Missing_enemies outputs_paths
    by (rule distinct_map [THEN iffD2, OF conjI [OF dk inj]])
qed

lemma run_file:
  assumes "run s fs0 = Inr w" "i < length (records s)"
  shows "target s i = Inr (fst (outputs s ! i))"
    and "files (fs w) (fst (outputs s ! i)) = Some (snd (outputs s ! i))"
proof -
  show "target s i = Inr (fst (outputs s ! i))" by (rule outputs_target [OF assms(2)])
  have "i < length (outputs s)" using assms(2) by (simp add: outputs_length)
  then show "files (fs w) (fst (outputs s ! i)) = Some (snd (outputs s ! i))"
    unfolding run_files [OF assms(1)] by (rule files_lookup [OF outputs_distinct])
qed


section \<open>The descriptors of the Deltarune generators, field by field\<close>

lemma boss_descriptor_shaped:
  "boss_descriptor
     (PDict [(''name'', PStr name), (''chapter'', PStr chap), (''folder'', PStr folder),
             (''hp'', hp), (''attack'', attack), (''defense'', defense),
             (''dialogue'', dialogue), (''checkText'', checkText), (''acts'', acts),
             (''attackPatterns'', patterns)]) =
   Inr (PDict [(''name'', PStr name), (''hp'', hp), (''attack'', attack), (''defense'', defense),
               (''gold'', PInt 0), (''exp'', PInt 0), (''spareThreshold'', PInt 0),
               (''dialogue'', dialogue), (''checkText'', checkText),
               (''sprites'', PDict [(''idle'', PStr (''Deltarune Sprites/Characters/Bosses/'' @
                  chap @ ''/'' @ folder @ ''/'' @ ''idle_0.png''))]),
               (''acts'', acts), (''attackPatterns'', patterns)])"
  by (simp add: boss_descriptor_def)

lemma enemy_descriptor_shaped:
  "enemy_descriptor
     (PDict [(''name'', PStr name), (''hp'', hp), (''attack'', PInt attack),
             (''defense'', PInt defense), (''folder'', PStr folder),
             (''dialogue'', dialogue), (''acts'', acts)]) c =
   Inr (PDict [(''name'', PStr name), (''hp'', hp), (''attack'', PInt attack),
               (''defense'', PInt defense),
               (''gold'', PInt 10), (''exp'', PInt 15), (''spareThreshold'', PInt 100),
               (''dialogue'', dialogue),
               (''checkText'', PStr (''ATK '' @ str_int attack @ '' DEF '' @ str_int defense @
                  CHR 0x5C # ''n* A Darkner from '' @ upper c @ ''.'')),
               (''sprites'', PDict [(''idle'', PStr (''Deltarune Sprites/Characters/Enemies/'' @
                  (if c = ''ch1'' then ''Ch1'' else ''Ch2'') @ ''/'' @ folder @ ''/'' @ ''idle_0.png''))]),
               (''acts'', acts), (''attackPatterns'', deltarune_attack_patterns)])"
  by (simp add: enemy_descriptor_def)

lemma chapter_tags:
  "upper (chapter_of i) = (if i < 6 then ''CH1'' else ''CH2'')"
  "(if chapter_of i = ''ch1'' then ''Ch1'' else ''Ch2'') = (if i < 6 then ''Ch1'' else ''Ch2'')"
  by (simp_all add: chapter_of_def ch1_enemies_def name_rules)

lemma enemies_shape:
  "list_all (\<lambda>e. \<exists>name hp attack defense folder dialogue acts.
      CHR ''/'' \<notin> set name \<and>
      e = PDict [(''name'', PStr name), (''hp'', hp), (''attack'', PInt attack),
                 (''defense'', PInt defense), (''folder'', PStr folder),
                 (''dialogue'', dialogue), (''acts'', acts)]) (ch1_enemies @ ch2_enemies)"
  using ch1_enemies_shape ch2_enemies_shape by (simp only: list_all_append simp_thms)

lemma boss_file_of_record:
  assumes "i < length bosses"
  shows "\<exists>name chapter folder hp attack defense dialogue checkText acts patterns.
     bosses ! i =
       PDict [(''name'', PStr name), (''chapter'', PStr chapter), (''folder'', PStr folder),
              (''hp'', hp), (''attack'', attack), (''defense'', defense),
              (''dialogue'', dialogue), (''checkText'', checkText), (''acts'', acts),
              (''attackPatterns'', patterns)] \<and>
     snd (outputs Deltarune_bosses ! i) =
       PDict [(''name'', PStr name), (''hp'', hp), (''attack'', attack), (''defense'', defense),
              (''gold'', PInt 0), (''exp'', PInt 0), (''spareThreshold'', PInt 0),
              (''dialogue'', dialogue), (''checkText'', checkText),
              (''sprites'', PDict [(''idle'', PStr (''Deltarune Sprites/Characters/Bosses/'' @
                 chapter @ ''/'' @ folder @ ''/'' @ ''idle_0.png''))]),
              (''acts'', acts), (''attackPatterns'', patterns)]"
proof -
  obtain name chap folder hp attack defense dialogue checkText acts patterns where
    b: "bosses ! i =
       PDict [(''name'', PStr name), (''chapter'', PStr chap), (''folder'', PStr folder),
              (''hp'', hp), (''attack'', attack), (''defense'', defense),
              (''dialogue'', dialogue), (''checkText'', checkText), (''acts'', acts),
              (''attackPatterns'', patterns)]"
    using list_all_length [THEN iffD1, rule_format, OF bosses_shape assms]
    by (elim exE conjE)
  have "Inr (snd (outputs Deltarune_bosses ! i)) = boss_descriptor (bosses ! i)"
    by (rule outputs_deltarune_bosses [OF assms, symmetric])
  also have "\<dots> =
   Inr (PDict [(''name'', PStr name), (''hp'', hp), (''attack'', attack), (''defense'', defense),
               (''gold'', PInt 0), (''exp'', PInt 0), (''spareThreshold'', PInt 0),
               (''dialogue'', dialogue), (''checkText'', checkText),
               (''sprites'', PDict [(''idle'', PStr (''Deltarune Sprites/Characters/Bosses/'' @
                  chap @ ''/'' @ folder @ ''/'' @ ''idle_0.png''))]),
               (''acts'', acts), (''attackPatterns'', patterns)])"
    unfolding b by (rule boss_descriptor_shaped)
  finally have v: "snd (outputs Deltarune_bosses ! i) =
       PDict [(''name'', PStr name), (''hp'', hp), (''attack'', attack), (''defense'', defense),
              (''gold'', PInt 0), (''exp'', PInt 0), (''spareThreshold'', PInt 0),
              (''dialogue'', dialogue), (''checkText'', checkText),
              (''sprites'', PDict [(''idle'', PStr (''Deltarune Sprites/Characters/Bosses/'' @
                 chap @ ''/'' @ folder @ ''/'' @ ''idle_0.png''))]),
              (''acts'', acts), (''attackPatterns'', patterns)]"
    by (rule sum.inject(2) [THEN iffD1])
  show ?thesis by (intro exI conjI) (rule b, rule v)
qed

lemma enemy_file_of_record:
  assumes "i < length ch1_enemies + length ch2_enemies"
  shows "\<exists>name hp attack defense folder dialogue acts.
     (ch1_enemies @ ch2_enemies) ! i =
       PDict [(''name'', PStr name), (''hp'', hp), (''attack'', PInt attack),
              (''defense'', PInt defense), (''folder'', PStr folder),
              (''dialogue'', dialogue), (''acts'', acts)] \<and>
     snd (outputs Deltarune_enemies ! i) =
       PDict [(''name'', PStr name), (''hp'', hp), (''attack'', PInt attack),
              (''defense'', PInt defense),
              (''gold'', PInt 10), (''exp'', PInt 15), (''spareThreshold'', PInt 100),
              (''dialogue'', dialogue),
              (''checkText'', PStr (''ATK '' @ str_int attack @ '' DEF '' @ str_int defense @
                 CHR 0x5C # ''n* A Darkner from '' @ (if i < 6 then ''CH1'' else ''CH2'') @ ''.'')),
              (''sprites'', PDict [(''idle'', PStr (''Deltarune Sprites/Characters/Enemies/'' @
                 (if i < 6 then ''Ch1'' else ''Ch2'') @ ''/'' @ folder @ ''/'' @ ''idle_0.png''))]),
              (''acts'', acts),
              (''attackPatterns'', PList [
                 PDict [
                   (''name'', PStr ''Default Attack''),
                   (''duration'', PInt 4000),
                   (''waves'', PList [
                     PDict [
                       (''time'', PInt 0),
                       (''type'', PStr ''projectiles''),
                       (''count'', PInt 5),
                       (''speed'', PFloat 25 1),
                       (''size'', PInt 15),
                       (''side'', PStr ''top'')],
                     PDict [
                       (''time'', PInt 1500),
                       (''type'', PStr ''projectiles''),
                       (''count'', PInt 4),
                       (''speed'', PInt 3),
                       (''size'', PInt 15),
                       (''side'', PStr ''left'')]])]])]"
proof -
  have l: "i < length (ch1_enemies @ ch2_enemies)" using assms by simp
  obtain name hp attack defense folder dialogue acts where
    e: "(ch1_enemies @ ch2_enemies) ! i =
       PDict [(''name'', PStr name), (''hp'', hp), (''attack'', PInt attack),
              (''defense'', PInt defense), (''folder'', PStr folder),
              (''dialogue'', dialogue), (''acts'', acts)]"
    using list_all_length [THEN iffD1, rule_format, OF enemies_shape l]
    by (elim exE conjE)
  have "Inr (snd (outputs Deltarune_enemies ! i)) =
      enemy_descriptor ((ch1_enemies @ ch2_enemies) ! i) (chapter_of i)"
    by (rule outputs_deltarune_enemies [OF assms, symmetric])
  also have "\<dots> =
   Inr (PDict [(''name'', PStr name), (''hp'', hp), (''attack'', PInt attack),
               (''defense'', PInt defense),
               (''gold'', PInt 10), (''exp'', PInt 15), (''spareThreshold'', PInt 100),
               (''dialogue'', dialogue),
               (''checkText'', PStr (''ATK '' @ str_int attack @ '' DEF '' @ str_int defense @
                  CHR 0x5C # ''n* A Darkner from '' @ upper (chapter_of i) @ ''.'')),
               (''sprites'', PDict [(''idle'', PStr (''Deltarune Sprites/Characters/Enemies/'' @
                  (if chapter_of i = ''ch1'' then ''Ch1'' else ''Ch2'') @ ''/'' @ folder @ ''/'' @ ''idle_0.png''))]),
               (''acts'', acts), (''attackPatterns'', deltarune_attack_patterns)])"
    unfolding e by (rule enemy_descriptor_shaped)
  finally have v: "snd (outputs Deltarune_enemies ! i) =
       PDict [(''name'', PStr name), (''hp'', hp), (''attack'', PInt attack),
               (''defense'', PInt defense),
               (''gold'', PInt 10), (''exp'', PInt 15), (''spareThreshold'', PInt 100),
               (''dialogue'', dialogue),
               (''checkText'', PStr (''ATK '' @ str_int attack @ '' DEF '' @ str_int defense @
                  CHR 0x5C # ''n* A Darkner from '' @ upper (chapter_of i) @ ''.'')),
               (''sprites'', PDict [(''idle'', PStr (''Deltarune Sprites/Characters/Enemies/'' @
                  (if chapter_of i = ''ch1'' then ''Ch1'' else ''Ch2'') @ ''/'' @ folder @ ''/'' @ ''idle_0.png''))]),
               (''acts'', acts), (''attackPatterns'', deltarune_attack_patterns)]"
    by (rule sum.inject(2) [THEN iffD1])
  show ?thesis
    by (intro exI conjI, rule e)
       (unfold v chapter_tags deltarune_attack_patterns_def, rule refl)
qed

lemma enemy_file_sprites:
  assumes "i < length ch1_enemies + length ch2_enemies"
  shows "\<exists>folder.
     subscript ((ch1_enemies @ ch2_enemies) ! i) ''folder'' = Inr (PStr folder) \<and>
     subscript (snd (outputs Deltarune_enemies ! i)) ''sprites'' =
       Inr (PDict [(''idle'', PStr (''Deltarune Sprites/Characters/Enemies/'' @
          (if i < 6 then ''Ch1'' else ''Ch2'') @ ''/'' @ folder @ ''/'' @ ''idle_0.png''))])"
  using enemy_file_of_record [OF assms] by (elim exE conjE) simp

lemma boss_file_sprites:
  assumes "i < length bosses"
  shows "\<exists>chapter folder.
     subscript (bosses ! i) ''chapter'' = Inr (PStr chapter) \<and>
     subscript (bosses ! i) ''folder'' = Inr (PStr folder) \<and>
     subscript (snd (outputs Deltarune_bosses ! i)) ''sprites'' =
       Inr (PDict [(''idle'', PStr (''Deltarune Sprites/Characters/Bosses/'' @
          chapter @ ''/'' @ folder @ ''/'' @ ''idle_0.png''))])"
  using boss_file_of_record [OF assms] by (elim exE conjE) simp

section \<open>The claims about the tables\<close>

text \<open>
  C6. In every entity record of every script's table the list of acts is not empty and its
  first element is the act named Check.
\<close>

theorem C6_first_act_is_check:
  "\<forall>entity \<in> set (records s). first_act_is_check entity"
proof (cases s)
  case Bosses_old
  then show ?thesis using BOSSES_check by (simp add: list_all_iff)
next
  case Deltarune_bosses
  then show ?thesis using bosses_check by (simp add: list_all_iff)
next
  case Deltarune_enemies
  then show ?thesis using ch1_enemies_check ch2_enemies_check by (auto simp: list_all_iff)
next
  case Enemies
  then show ?thesis using ENEMIES_check by (simp add: list_all_iff)
next
  case Missing_enemies
  then show ?thesis using MISSING_ENEMIES_check by (simp add: list_all_iff)
qed

theorem C6_witness:
  "old_toriel \<in> set (records Bosses_old) \<and> first_act_is_check old_toriel"
  using C6_first_act_is_check [of Bosses_old] by (simp add: BOSSES_def)

text \<open>
  C10. In every act of every entity record of the five tables that carries the field
  \<^verbatim>\<open>mercyIncrease\<close>, the value is an integer from 0 to 100.
\<close>

theorem C10_mercy_in_range:
  "\<forall>entity \<in> set (records s). acts_mercy_in_range entity"
proof (cases s)
  case Bosses_old
  then show ?thesis using BOSSES_mercy by (simp add: list_all_iff)
next
  case Deltarune_bosses
  then show ?thesis using bosses_mercy by (simp add: list_all_iff)
next
  case Deltarune_enemies
  then show ?thesis using ch1_enemies_mercy ch2_enemies_mercy by (auto simp: list_all_iff)
next
  case Enemies
  then show ?thesis using ENEMIES_mercy by (simp add: list_all_iff)
next
  case Missing_enemies
  then show ?thesis using MISSING_ENEMIES_mercy by (simp add: list_all_iff)
qed

theorem C10_witness:
  "ut_whimsun \<in> set (records Enemies) \<and> acts_mercy_in_range ut_whimsun"
  using C10_mercy_in_range [of Enemies] by (simp add: ENEMIES_def)

section \<open>What the written descriptors hold\<close>

lemma waves_in_range_cong:
  "subscript v ''attackPatterns'' = subscript v' ''attackPatterns'' \<Longrightarrow>
   waves_in_range v = waves_in_range v'"
  by (simp add: waves_in_range_def)

lemma default_waves:
  "subscript v ''attackPatterns'' = Inr default_attack_patterns \<Longrightarrow> waves_in_range v"
  by (simp add: waves_in_range_def default_attack_patterns_def range_rules)

lemma deltarune_waves:
  "subscript v ''attackPatterns'' = Inr deltarune_attack_patterns \<Longrightarrow> waves_in_range v"
  by (simp add: waves_in_range_def deltarune_attack_patterns_def range_rules)

lemma nth_all: "list_all P xs \<Longrightarrow> i < length xs \<Longrightarrow> P (xs ! i)"
  by (simp add: list_all_length)

lemma outputs_waves:
  assumes "i < length (records s)"
  shows "waves_in_range (snd (outputs s ! i))"
proof (cases s)
  case Bosses_old
  then have "snd (outputs s ! i) = map snd BOSSES ! i"
    using assms by (simp add: case_prod_unfold)
  then show ?thesis using nth_all [OF BOSSES_waves, of i] assms Bosses_old by simp
next
  case Deltarune_bosses
  then have i: "i < length bosses" using assms by simp
  have "waves_in_range (snd (outputs Deltarune_bosses ! i)) = waves_in_range (bosses ! i)"
    by (rule waves_in_range_cong)
      (rule boss_descriptor_fields(2) [OF outputs_deltarune_bosses [OF i]])
  then show ?thesis using nth_all [OF bosses_waves i] Deltarune_bosses by simp
next
  case Deltarune_enemies
  then have i: "i < length ch1_enemies + length ch2_enemies" using assms by simp
  show ?thesis unfolding Deltarune_enemies
    by (rule deltarune_waves)
      (rule enemy_descriptor_fields(2) [OF outputs_deltarune_enemies [OF i]])
next
  case Enemies
  then have i: "i < length (map snd ENEMIES)" using assms by simp
  have "lacks_patterns (map snd ENEMIES ! i)" by (rule nth_all [OF ENEMIES_lack i])
  then have "subscript (with_default (map snd ENEMIES ! i)) ''attackPatterns'' = Inr default_attack_patterns"
    by (simp add: lacks_patterns_def)
  then have "waves_in_range (with_default (map snd ENEMIES ! i))" by (rule default_waves)
  then show ?thesis using i unfolding Enemies by (simp add: case_prod_unfold)
next
  case Missing_enemies
  then have "snd (outputs s ! i) = map snd MISSING_ENEMIES ! i"
    using assms by (simp add: case_prod_unfold)
  then show ?thesis using nth_all [OF MISSING_ENEMIES_waves, of i] assms Missing_enemies by simp
qed

section \<open>The claims about the runs\<close>

text \<open>
  C7. For every attack pattern of every descriptor a script writes, the default patterns of
  the generators included, the time of every wave is an integer that is not negative and
  does not exceed the duration of its pattern. A run that completes has written, for every
  record of the script's tables, a file whose descriptor has this property.
\<close>

theorem C7_wave_times_in_range:
  assumes "run s fs0 = Inr w"
  shows "\<forall>i<length (records s). \<exists>p v.
           target s i = Inr p \<and> files (fs w) p = Some v \<and> waves_in_range v"
proof (intro allI impI)
  fix i assume i: "i < length (records s)"
  show "\<exists>p v. target s i = Inr p \<and> files (fs w) p = Some v \<and> waves_in_range v"
    using run_file [OF assms i] outputs_waves [OF i] by (intro exI conjI)
qed

lemma file_after_run: "run s fs0 = Inr w \<Longrightarrow> file_after (run s fs0) p = files (fs w) p"
  by (simp add: file_after_def)

lemma heap_after_run: "run s fs0 = Inr w \<Longrightarrow> heap_after (run s fs0) = heap w"
  by (simp add: heap_after_def)




lemma run_from_empty:
  "s \<noteq> Enemies \<Longrightarrow> run s fs_empty =
     Inr \<lparr>heap = final_heap s,
          fs = fs_empty\<lparr>dirs := dirs fs_empty \<union> created s,
                   files := files fs_empty ++ map_of (rev (outputs s))\<rparr>\<rparr>"
  by (rule run_eq) simp

lemma run_enemies_from_dir:
  "run Enemies fs_enemies_dir =
     Inr \<lparr>heap = final_heap Enemies,
          fs = fs_enemies_dir\<lparr>dirs := dirs fs_enemies_dir \<union> created Enemies,
                   files := files fs_enemies_dir ++ map_of (rev (outputs Enemies))\<rparr>\<rparr>"
  by (rule run_eq) (simp add: fs_enemies_dir_def)




lemma bosses_paths:
  "map fst (outputs Deltarune_bosses) =
     [''data/enemies/deltarune/bosses/jevil.json'', ''data/enemies/deltarune/bosses/king.json'',
      ''data/enemies/deltarune/bosses/spamton_neo.json'', ''data/enemies/deltarune/bosses/queen.json'',
      ''data/enemies/deltarune/bosses/tasque_manager.json'',
      ''data/enemies/deltarune/bosses/sweet_capn_cakes.json'']"
  unfolding outputs_paths bosses_filenames by (simp add: join_def)



theorem C7_witness:
  "map_option waves_in_range
     (file_after (run Enemies fs_enemies_dir) (join OUTPUT_DIR_enemies ''froggit.json'')) = Some True"
proof -
  have r: "run Enemies fs_enemies_dir =
     Inr \<lparr>heap = final_heap Enemies,
          fs = fs_enemies_dir\<lparr>dirs := dirs fs_enemies_dir \<union> created Enemies,
                   files := files fs_enemies_dir ++ map_of (rev (outputs Enemies))\<rparr>\<rparr>"
    (is "_ = Inr ?w")
    by (rule run_enemies_from_dir)
  have l: "0 < length (records Enemies)" by (simp add: ENEMIES_def)
  have "\<exists>p v. target Enemies 0 = Inr p \<and> files (fs ?w) p = Some v \<and> waves_in_range v"
    by (rule C7_wave_times_in_range [OF r, rule_format, OF l])
  then obtain p v where p: "target Enemies 0 = Inr p" and f: "files (fs ?w) p = Some v"
    and v: "waves_in_range v"
    by (elim exE conjE)
  have p': "p = join OUTPUT_DIR_enemies ''froggit.json''" using p by (simp add: ENEMIES_def)
  show ?thesis
    unfolding file_after_run [OF r] using f v p' by simp
qed

text \<open>
  C2. generate\_enemies.py, unlike the four other scripts, never creates its output
  directory: started on a file system without that directory it raises FileNotFoundError at
  the first record and writes nothing, while each of the other scripts completes.
\<close>

theorem C2_enemies_output_directory_not_created:
  assumes "OUTPUT_DIR_enemies \<notin> dirs fs0"
  shows "run Enemies fs0 = Inl FileNotFoundError \<and>
     (\<exists>w. run Bosses_old fs0 = Inr w) \<and> (\<exists>w. run Deltarune_bosses fs0 = Inr w) \<and>
     (\<exists>w. run Deltarune_enemies fs0 = Inr w) \<and> (\<exists>w. run Missing_enemies fs0 = Inr w)"
proof (intro conjI)
  show "run Enemies fs0 = Inl FileNotFoundError" by (rule run_fail [OF assms])
  show "\<exists>w. run Bosses_old fs0 = Inr w" by (rule exI, rule run_eq) simp
  show "\<exists>w. run Deltarune_bosses fs0 = Inr w" by (rule exI, rule run_eq) simp
  show "\<exists>w. run Deltarune_enemies fs0 = Inr w" by (rule exI, rule run_eq) simp
  show "\<exists>w. run Missing_enemies fs0 = Inr w" by (rule exI, rule run_eq) simp
qed

theorem C2_witness:
  "OUTPUT_DIR_enemies \<notin> dirs fs_empty \<and> run Enemies fs_empty = Inl FileNotFoundError \<and>
   file_after (run Enemies fs_empty) (join OUTPUT_DIR_enemies ''froggit.json'') = None"
proof -
  have d: "OUTPUT_DIR_enemies \<notin> dirs fs_empty" by (simp add: fs_empty_def)
  have "run Enemies fs_empty = Inl FileNotFoundError"
    by (rule C2_enemies_output_directory_not_created [OF d, THEN conjunct1])
  then show ?thesis using d by (simp add: file_after_def)
qed

text \<open>
  C9, as amended. In generate\_bosses\_old.py, generate\_missing\_undertale\_enemies.py
  and the two Deltarune scripts the records in memory are, when the run ends, exactly the
  literals of the tables. In generate\_enemies.py every record of the table has no field
  \<^verbatim>\<open>attackPatterns\<close>, and writing it appends that field with the default patterns to
  the record in memory; no other field is added, removed or changed.
\<close>

theorem C9_records_after_run_amended:
  assumes "run s fs0 = Inr w"
  shows "(s \<noteq> Enemies \<longrightarrow> heap w = records s) \<and>
     (s = Enemies \<longrightarrow> length (heap w) = length (records s) \<and>
        (\<forall>i<length (records s). \<exists>kvs.
            records s ! i = PDict kvs \<and> ''attackPatterns'' \<notin> set (map fst kvs) \<and>
            heap w ! i = PDict (kvs @ [(''attackPatterns'', default_attack_patterns)])))"
proof (intro conjI impI allI)
  assume "s \<noteq> Enemies"
  then show "heap w = records s" unfolding run_heap [OF assms] by (cases s) simp_all
next
  assume "s = Enemies"
  then show "length (heap w) = length (records s)" unfolding run_heap [OF assms] by simp
next
  fix i assume s: "s = Enemies" and i: "i < length (records s)"
  have i': "i < length (map snd ENEMIES)" using i s by simp
  have "lacks_patterns (map snd ENEMIES ! i)" by (rule nth_all [OF ENEMIES_lack i'])
  then have "\<exists>kvs. map snd ENEMIES ! i = PDict kvs \<and> ''attackPatterns'' \<notin> set (map fst kvs) \<and>
      with_default (map snd ENEMIES ! i) = PDict (kvs @ [(''attackPatterns'', default_attack_patterns)])"
    unfolding lacks_patterns_def by (elim conjE)
  moreover have "heap w ! i = with_default (map snd ENEMIES ! i)"
    unfolding run_heap [OF assms] s using i' by simp
  ultimately show "\<exists>kvs. records s ! i = PDict kvs \<and> ''attackPatterns'' \<notin> set (map fst kvs) \<and>
      heap w ! i = PDict (kvs @ [(''attackPatterns'', default_attack_patterns)])"
    unfolding s by simp
qed

theorem C9_witness:
  "heap_after (run Bosses_old fs_empty) = records Bosses_old \<and>
   heap_after (run Enemies fs_enemies_dir) ! 0 =
     PDict (AList.update ''attackPatterns'' default_attack_patterns
       (case ut_froggit of PDict kvs \<Rightarrow> kvs))"
proof -
  have r: "run Bosses_old fs_empty =
     Inr \<lparr>heap = final_heap Bosses_old,
          fs = fs_empty\<lparr>dirs := dirs fs_empty \<union> created Bosses_old,
                   files := files fs_empty ++ map_of (rev (outputs Bosses_old))\<rparr>\<rparr>"
    (is "_ = Inr ?w")
    by (rule run_from_empty) simp
  have a: "heap ?w = records Bosses_old"
    using C9_records_after_run_amended [OF r, THEN conjunct1] by simp
  have r2: "run Enemies fs_enemies_dir =
     Inr \<lparr>heap = final_heap Enemies,
          fs = fs_enemies_dir\<lparr>dirs := dirs fs_enemies_dir \<union> created Enemies,
                   files := files fs_enemies_dir ++ map_of (rev (outputs Enemies))\<rparr>\<rparr>"
    (is "_ = Inr ?w2")
    by (rule run_enemies_from_dir)
  have l: "0 < length (records Enemies)" by (simp add: ENEMIES_def)
  have "\<exists>kvs. records Enemies ! 0 = PDict kvs \<and> ''attackPatterns'' \<notin> set (map fst kvs) \<and>
            heap ?w2 ! 0 = PDict (kvs @ [(''attackPatterns'', default_attack_patterns)])"
    by (rule C9_records_after_run_amended [OF r2, THEN conjunct2, rule_format, OF refl, THEN conjunct2,
          rule_format, OF l])
  then obtain kvs where k: "records Enemies ! 0 = PDict kvs"
    and n: "''attackPatterns'' \<notin> set (map fst kvs)"
    and h: "heap ?w2 ! 0 = PDict (kvs @ [(''attackPatterns'', default_attack_patterns)])"
    by (elim exE conjE)
  have f: "ut_froggit = PDict kvs" using k by (simp add: ENEMIES_def)
  have u: "AList.update ''attackPatterns'' default_attack_patterns kvs =
      kvs @ [(''attackPatterns'', default_attack_patterns)]"
    using n by (induction kvs) auto
  show ?thesis
    unfolding heap_after_run [OF r] heap_after_run [OF r2] a h f using u by simp
qed

text \<open>
  C9 as stated fails: after generate\_enemies.py has run, the record Froggit in memory has a
  field \<^verbatim>\<open>attackPatterns\<close> that the literal of the table does not have.
\<close>

theorem C9_counterexample:
  "records Enemies ! 0 = ut_froggit \<and>
   subscript ut_froggit ''attackPatterns'' = Inl KeyError \<and>
   subscript (heap_after (run Enemies fs_enemies_dir) ! 0) ''attackPatterns'' =
     Inr default_attack_patterns \<and>
   heap_after (run Enemies fs_enemies_dir) ! 0 \<noteq> ut_froggit"
proof -
  have r: "run Enemies fs_enemies_dir =
     Inr \<lparr>heap = final_heap Enemies,
          fs = fs_enemies_dir\<lparr>dirs := dirs fs_enemies_dir \<union> created Enemies,
                   files := files fs_enemies_dir ++ map_of (rev (outputs Enemies))\<rparr>\<rparr>"
    (is "_ = Inr ?w")
    by (rule run_enemies_from_dir)
  have z: "map snd ENEMIES ! 0 = ut_froggit" and l: "0 < length (map snd ENEMIES)"
    by (simp_all add: ENEMIES_def)
  have lp: "lacks_patterns ut_froggit" using nth_all [OF ENEMIES_lack l] unfolding z .
  have h: "heap ?w ! 0 = with_default ut_froggit" using l z by simp
  have a: "subscript (with_default ut_froggit) ''attackPatterns'' = Inr default_attack_patterns"
    using lp by (simp add: lacks_patterns_def)
  obtain kvs where k: "ut_froggit = PDict kvs" and n: "''attackPatterns'' \<notin> set (map fst kvs)"
    using lp unfolding lacks_patterns_def by (elim conjE exE)
  have b: "subscript ut_froggit ''attackPatterns'' = Inl KeyError"
    unfolding k using n by (simp add: map_of_eq_None_iff [THEN iffD2])
  have "with_default ut_froggit \<noteq> ut_froggit" using a b by auto
  then show ?thesis
    unfolding heap_after_run [OF r] h using a b z by simp
qed

section \<open>The example of the specification\<close>

lemma toriel_path:
  "fst (outputs Bosses_old ! 0) =
     ''/workspaces/Under-Delta-Tale-Rune-Fight-Sim/data/enemies/bosses/toriel.json''"
  "snd (outputs Bosses_old ! 0) = old_toriel"
  by (simp_all add: BOSSES_def join_def OUTPUT_DIR_bosses_def)

lemma toriel_fields:
  shows "subscript old_toriel ''hp'' = Inr (PInt 440)"
    and "subscript old_toriel ''attack'' = Inr (PInt 6)"
    and "subscript old_toriel ''defense'' = Inr (PInt 1)"
    and "\<exists>pattern waves.
           subscript old_toriel ''attackPatterns'' = Inr (PList [pattern]) \<and>
           subscript pattern ''name'' = Inr (PStr ''Fire Magic'') \<and>
           subscript pattern ''waves'' = Inr (PList waves) \<and>
           map (\<lambda>wave. subscript wave ''time'') waves =
             [Inr (PInt 0), Inr (PInt 1000), Inr (PInt 2000), Inr (PInt 3000)]"
  unfolding old_toriel_def
  by ((rule subscript_hit | (rule subscript_skip, simp))+,
      intro exI conjI, (rule subscript_hit | (rule subscript_skip, simp))+, simp)

text \<open>
  C3. Running generate\_bosses\_old.py, on any file system, completes and leaves a file
  toriel.json in its output directory whose descriptor has hp 440, attack 6, defense 1 and
  a list of attack patterns with exactly one pattern, named Fire Magic, whose list of waves
  has exactly four waves, at the times 0, 1000, 2000 and 3000 in this order.
\<close>

theorem C3_toriel_file:
  "\<exists>w v pattern waves.
     run Bosses_old fs0 = Inr w \<and>
     files (fs w) ''/workspaces/Under-Delta-Tale-Rune-Fight-Sim/data/enemies/bosses/toriel.json'' =
       Some v \<and>
     subscript v ''hp'' = Inr (PInt 440) \<and>
     subscript v ''attack'' = Inr (PInt 6) \<and>
     subscript v ''defense'' = Inr (PInt 1) \<and>
     subscript v ''attackPatterns'' = Inr (PList [pattern]) \<and>
     subscript pattern ''name'' = Inr (PStr ''Fire Magic'') \<and>
     subscript pattern ''waves'' = Inr (PList waves) \<and>
     map (\<lambda>wave. subscript wave ''time'') waves =
       [Inr (PInt 0), Inr (PInt 1000), Inr (PInt 2000), Inr (PInt 3000)]"
proof -
  have r: "run Bosses_old fs0 =
     Inr \<lparr>heap = final_heap Bosses_old,
          fs = fs0\<lparr>dirs := dirs fs0 \<union> created Bosses_old,
                   files := files fs0 ++ map_of (rev (outputs Bosses_old))\<rparr>\<rparr>"
    (is "_ = Inr ?w")
    by (rule run_eq) simp
  have l: "0 < length (records Bosses_old)" by (simp add: BOSSES_def)
  have f: "files (fs ?w)
      ''/workspaces/Under-Delta-Tale-Rune-Fight-Sim/data/enemies/bosses/toriel.json'' =
      Some old_toriel"
    using run_file(2) [OF r l] unfolding toriel_path .
  obtain pattern waves where
    p: "subscript old_toriel ''attackPatterns'' = Inr (PList [pattern])"
    and n: "subscript pattern ''name'' = Inr (PStr ''Fire Magic'')"
    and ws: "subscript pattern ''waves'' = Inr (PList waves)"
    and t: "map (\<lambda>wave. subscript wave ''time'') waves =
             [Inr (PInt 0), Inr (PInt 1000), Inr (PInt 2000), Inr (PInt 3000)]"
    using toriel_fields(4) by (elim exE conjE)
  show ?thesis
    by (intro exI conjI)
       (rule r, rule f, rule toriel_fields(1), rule toriel_fields(2), rule toriel_fields(3),
        rule p, rule n, rule ws, rule t)
qed

theorem C3_witness:
  "file_field (run Bosses_old fs_empty)
     ''/workspaces/Under-Delta-Tale-Rune-Fight-Sim/data/enemies/bosses/toriel.json'' ''hp'' =
     Some (Inr (PInt 440))"
proof -
  from C3_toriel_file [of fs_empty] obtain w v where
    "run Bosses_old fs_empty = Inr w"
    "files (fs w) ''/workspaces/Under-Delta-Tale-Rune-Fight-Sim/data/enemies/bosses/toriel.json'' =
       Some v"
    "subscript v ''hp'' = Inr (PInt 440)"
    by (elim exE conjE)
  then show ?thesis by (simp add: file_field_def file_after_def)
qed

section \<open>Runs do not depend on what was there before\<close>

lemma map_add_twice: "(a ++ m) ++ m = a ++ m"
  by (rule ext) (simp add: map_add_def split: option.split)

lemma run_again:
  assumes "run s fs0 = Inr w"
  shows "run s (fs w) = Inr w"
proof -
  let ?m = "map_of (rev (outputs s))"
  let ?f = "fs0\<lparr>dirs := dirs fs0 \<union> created s, files := files fs0 ++ ?m\<rparr>"
  have w: "w = \<lparr>heap = final_heap s, fs = ?f\<rparr>"
    by (rule run_closed [OF assms])
  have fw: "fs w = ?f" by (subst w) simp
  have d: "s = Enemies \<longrightarrow> OUTPUT_DIR_enemies \<in> dirs ?f"
  proof (intro impI, rule ccontr)
    assume s: "s = Enemies" and n: "OUTPUT_DIR_enemies \<notin> dirs ?f"
    then have "OUTPUT_DIR_enemies \<notin> dirs fs0" by simp
    then have "run Enemies fs0 = Inl FileNotFoundError" by (rule run_fail)
    then show False using assms s by simp
  qed
  have same: "?f\<lparr>dirs := dirs ?f \<union> created s, files := files ?f ++ ?m\<rparr> = ?f"
    by (simp add: Un_assoc map_add_twice)
  have "run s ?f =
     Inr \<lparr>heap = final_heap s,
          fs = ?f\<lparr>dirs := dirs ?f \<union> created s, files := files ?f ++ ?m\<rparr>\<rparr>"
    by (rule run_eq [OF d])
  then have "run s ?f = Inr \<lparr>heap = final_heap s, fs = ?f\<rparr>"
    unfolding same .
  then have "run s (fs w) = Inr \<lparr>heap = final_heap s, fs = ?f\<rparr>"
    unfolding fw .
  also have "\<lparr>heap = final_heap s, fs = ?f\<rparr> = w" by (rule w [symmetric])
  finally show ?thesis .
qed

text \<open>
  C5. A script reads nothing: the records in memory and the content of every file it writes
  are the same in any two runs that complete, whatever the file systems they started on.
  Running the script again on the file system a run has left changes nothing: every file is
  written again with the same content.
\<close>

theorem C5_runs_are_reproducible:
  assumes "run s fs1 = Inr w1" and "run s fs2 = Inr w2"
  shows "heap w1 = heap w2 \<and>
     (\<forall>i<length (records s). \<exists>p v.
        target s i = Inr p \<and> files (fs w1) p = Some v \<and> files (fs w2) p = Some v) \<and>
     run s (fs w1) = Inr w1"
proof (intro conjI allI impI)
  show "heap w1 = heap w2" unfolding run_heap [OF assms(1)] run_heap [OF assms(2)] by (rule refl)
next
  fix i assume i: "i < length (records s)"
  show "\<exists>p v. target s i = Inr p \<and> files (fs w1) p = Some v \<and> files (fs w2) p = Some v"
    by (intro exI conjI)
       (rule run_file(1) [OF assms(1) i], rule run_file(2) [OF assms(1) i],
        rule run_file(2) [OF assms(2) i])
next
  show "run s (fs w1) = Inr w1" by (rule run_again [OF assms(1)])
qed

theorem C5_witness:
  "file_after (run Missing_enemies fs_empty) ''data/enemies/chilldrake.json'' =
     file_after (run Missing_enemies fs_enemies_dir) ''data/enemies/chilldrake.json'' \<and>
   file_after (run Missing_enemies fs_empty) ''data/enemies/chilldrake.json'' \<noteq> None \<and>
   heap_after (run Missing_enemies fs_empty) = heap_after (run Missing_enemies fs_enemies_dir) \<and>
   (case run Missing_enemies fs_empty of
      Inl e \<Rightarrow> False
    | Inr w \<Rightarrow> run Missing_enemies (fs w) = Inr w)"
proof -
  have r1: "run Missing_enemies fs_empty =
     Inr \<lparr>heap = final_heap Missing_enemies,
          fs = fs_empty\<lparr>dirs := dirs fs_empty \<union> created Missing_enemies,
                   files := files fs_empty ++ map_of (rev (outputs Missing_enemies))\<rparr>\<rparr>"
    (is "_ = Inr ?w1")
    by (rule run_eq) simp
  have r2: "run Missing_enemies fs_enemies_dir =
     Inr \<lparr>heap = final_heap Missing_enemies,
          fs = fs_enemies_dir\<lparr>dirs := dirs fs_enemies_dir \<union> created Missing_enemies,
                   files := files fs_enemies_dir ++ map_of (rev (outputs Missing_enemies))\<rparr>\<rparr>"
    (is "_ = Inr ?w2")
    by (rule run_eq) simp
  note c = C5_runs_are_reproducible [OF r1 r2]
  have l: "0 < length (records Missing_enemies)" by (simp add: MISSING_ENEMIES_def)
  from c [THEN conjunct2, THEN conjunct1, rule_format, OF l]
  obtain p v where p: "target Missing_enemies 0 = Inr p"
    and f1: "files (fs ?w1) p = Some v" and f2: "files (fs ?w2) p = Some v"
    by (elim exE conjE)
  have p': "p = ''data/enemies/chilldrake.json''" using p by (simp add: MISSING_ENEMIES_def)
  have a: "file_after (run Missing_enemies fs_empty) ''data/enemies/chilldrake.json'' = Some v"
    unfolding file_after_run [OF r1] p' [symmetric] by (rule f1)
  have b: "file_after (run Missing_enemies fs_enemies_dir) ''data/enemies/chilldrake.json'' = Some v"
    unfolding file_after_run [OF r2] p' [symmetric] by (rule f2)
  have h: "heap_after (run Missing_enemies fs_empty) = heap_after (run Missing_enemies fs_enemies_dir)"
    unfolding heap_after_run [OF r1] heap_after_run [OF r2] by (rule c [THEN conjunct1])
  have again: "run Missing_enemies (fs ?w1) = Inr ?w1"
    by (rule c [THEN conjunct2, THEN conjunct2])
  have k: "(case run Missing_enemies fs_empty of
      Inl e \<Rightarrow> False
    | Inr w \<Rightarrow> run Missing_enemies (fs w) = Inr w)"
    unfolding r1 sum.case by (rule again)
  show ?thesis unfolding a b using h k by simp
qed

section \<open>The sprites of the written descriptors\<close>

lemma sprites_are_sequencesI:
  "subscript entity ''sprites'' = Inr (PDict states) \<Longrightarrow>
   list_all (\<lambda>(state, frames). is_path_sequence frames) states \<Longrightarrow>
   sprites_are_sequences entity"
  by (simp add: sprites_are_sequences_def)

lemma BOSSES_sprites: "list_all sprites_are_sequences (map snd BOSSES)"
  unfolding BOSSES_def list.map snd_conv list.pred_inject BOSSES_records
  by (intro conjI;
      ((rule sprites_are_sequencesI, (rule subscript_hit | (rule subscript_skip, simp))+,
        simp add: is_path_sequence_def) | simp))

lemma MISSING_ENEMIES_sprites: "list_all sprites_are_sequences (map snd MISSING_ENEMIES)"
  unfolding MISSING_ENEMIES_def list.map snd_conv list.pred_inject MISSING_ENEMIES_records
  by (intro conjI;
      ((rule sprites_are_sequencesI, (rule subscript_hit | (rule subscript_skip, simp))+,
        simp add: is_path_sequence_def) | simp))

lemma ENEMIES_sprites: "list_all sprites_are_sequences (map snd ENEMIES)"
  unfolding ENEMIES_def list.map snd_conv list.pred_inject ENEMIES_records
  by (intro conjI;
      ((rule sprites_are_sequencesI, (rule subscript_hit | (rule subscript_skip, simp))+,
        simp add: is_path_sequence_def) | simp))

lemma sprites_append:
  assumes "sprites_are_sequences (PDict kvs)"
  shows "sprites_are_sequences (PDict (kvs @ rest))"
proof (cases "map_of kvs ''sprites''")
  case None
  then show ?thesis using assms by (simp add: sprites_are_sequences_def)
next
  case (Some v)
  then have "map_of (kvs @ rest) ''sprites'' = Some v" by (simp add: map_add_Some_iff)
  then show ?thesis using assms Some by (simp add: sprites_are_sequences_def)
qed

lemma string_is_no_sequence:
  assumes "subscript v ''sprites'' = Inr (PDict [(''idle'', PStr path)])"
  shows "\<not> sprites_are_sequences v"
  using assms by (simp add: sprites_are_sequences_def is_path_sequence_def)

lemma outputs_sprites:
  assumes "i < length (records s)"
  shows "(case s of
            Deltarune_bosses \<Rightarrow>
              (\<exists>chapter folder.
                 subscript (records s ! i) ''chapter'' = Inr (PStr chapter) \<and>
                 subscript (records s ! i) ''folder'' = Inr (PStr folder) \<and>
                 subscript (snd (outputs s ! i)) ''sprites'' =
                   Inr (PDict [(''idle'', PStr (''Deltarune Sprites/Characters/Bosses/'' @
                      chapter @ ''/'' @ folder @ ''/'' @ ''idle_0.png''))])) \<and>
              \<not> sprites_are_sequences (snd (outputs s ! i))
          | Deltarune_enemies \<Rightarrow>
              (\<exists>folder.
                 subscript (records s ! i) ''folder'' = Inr (PStr folder) \<and>
                 subscript (snd (outputs s ! i)) ''sprites'' =
                   Inr (PDict [(''idle'', PStr (''Deltarune Sprites/Characters/Enemies/'' @
                      (if i < 6 then ''Ch1'' else ''Ch2'') @ ''/'' @ folder @ ''/'' @
                      ''idle_0.png''))])) \<and>
              \<not> sprites_are_sequences (snd (outputs s ! i))
          | _ \<Rightarrow> sprites_are_sequences (snd (outputs s ! i)))"
proof (cases s)
  case Bosses_old
  then have "snd (outputs s ! i) = map snd BOSSES ! i"
    using assms by (simp add: case_prod_unfold)
  then show ?thesis using nth_all [OF BOSSES_sprites, of i] assms Bosses_old by simp
next
  case Deltarune_bosses
  then have i: "i < length bosses" using assms by simp
  obtain path where
    p: "subscript (snd (outputs Deltarune_bosses ! i)) ''sprites'' = Inr (PDict [(''idle'', PStr path)])"
    using boss_descriptor_fields(5) [OF outputs_deltarune_bosses [OF i]] by (elim exE)
  show ?thesis unfolding Deltarune_bosses script.case records.simps
    by (intro conjI) (rule boss_file_sprites [OF i], rule string_is_no_sequence [OF p])
next
  case Deltarune_enemies
  then have i: "i < length ch1_enemies + length ch2_enemies" using assms by simp
  obtain path where
    p: "subscript (snd (outputs Deltarune_enemies ! i)) ''sprites'' = Inr (PDict [(''idle'', PStr path)])"
    using enemy_descriptor_fields(5) [OF outputs_deltarune_enemies [OF i]] by (elim exE)
  show ?thesis unfolding Deltarune_enemies script.case records.simps
    by (intro conjI) (rule enemy_file_sprites [OF i], rule string_is_no_sequence [OF p])
next
  case Enemies
  then have i: "i < length (map snd ENEMIES)" using assms by simp
  have "lacks_patterns (map snd ENEMIES ! i)" by (rule nth_all [OF ENEMIES_lack i])
  then obtain kvs where k: "map snd ENEMIES ! i = PDict kvs"
    and d: "with_default (map snd ENEMIES ! i) =
              PDict (kvs @ [(''attackPatterns'', default_attack_patterns)])"
    unfolding lacks_patterns_def by (elim exE conjE)
  have "sprites_are_sequences (PDict kvs)"
    using nth_all [OF ENEMIES_sprites i] unfolding k .
  then have "sprites_are_sequences (with_default (map snd ENEMIES ! i))"
    unfolding d by (rule sprites_append)
  then show ?thesis using i unfolding Enemies by (simp add: case_prod_unfold)
next
  case Missing_enemies
  then have "snd (outputs s ! i) = map snd MISSING_ENEMIES ! i"
    using assms by (simp add: case_prod_unfold)
  then show ?thesis using nth_all [OF MISSING_ENEMIES_sprites, of i] assms Missing_enemies by simp
qed

text \<open>
  C8. In the descriptors that generate\_bosses\_old.py, generate\_enemies.py and
  generate\_missing\_undertale\_enemies.py write, the field \<^verbatim>\<open>sprites\<close> maps every animation
  state to a list of strings. In every descriptor that generate\_deltarune\_bosses.py and
  generate\_deltarune\_enemies.py write it maps the one state idle to a single string, the
  path of the image idle\_0.png in the folder of the record, not to a list.
\<close>

theorem C8_deltarune_sprites_are_strings:
  assumes "run s fs0 = Inr w"
  shows "\<forall>i<length (records s). \<exists>p v.
           target s i = Inr p \<and> files (fs w) p = Some v \<and>
           (case s of
            Deltarune_bosses \<Rightarrow>
              (\<exists>chapter folder.
                 subscript (records s ! i) ''chapter'' = Inr (PStr chapter) \<and>
                 subscript (records s ! i) ''folder'' = Inr (PStr folder) \<and>
                 subscript v ''sprites'' =
                   Inr (PDict [(''idle'', PStr (''Deltarune Sprites/Characters/Bosses/'' @
                      chapter @ ''/'' @ folder @ ''/'' @ ''idle_0.png''))])) \<and>
              \<not> sprites_are_sequences v
          | Deltarune_enemies \<Rightarrow>
              (\<exists>folder.
                 subscript (records s ! i) ''folder'' = Inr (PStr folder) \<and>
                 subscript v ''sprites'' =
                   Inr (PDict [(''idle'', PStr (''Deltarune Sprites/Characters/Enemies/'' @
                      (if i < 6 then ''Ch1'' else ''Ch2'') @ ''/'' @ folder @ ''/'' @
                      ''idle_0.png''))])) \<and>
              \<not> sprites_are_sequences v
          | _ \<Rightarrow> sprites_are_sequences v)"
proof (intro allI impI)
  fix i assume i: "i < length (records s)"
  show "\<exists>p v. target s i = Inr p \<and> files (fs w) p = Some v \<and>
           (case s of
            Deltarune_bosses \<Rightarrow>
              (\<exists>chapter folder.
                 subscript (records s ! i) ''chapter'' = Inr (PStr chapter) \<and>
                 subscript (records s ! i) ''folder'' = Inr (PStr folder) \<and>
                 subscript v ''sprites'' =
                   Inr (PDict [(''idle'', PStr (''Deltarune Sprites/Characters/Bosses/'' @
                      chapter @ ''/'' @ folder @ ''/'' @ ''idle_0.png''))])) \<and>
              \<not> sprites_are_sequences v
          | Deltarune_enemies \<Rightarrow>
              (\<exists>folder.
                 subscript (records s ! i) ''folder'' = Inr (PStr folder) \<and>
                 subscript v ''sprites'' =
                   Inr (PDict [(''idle'', PStr (''Deltarune Sprites/Characters/Enemies/'' @
                      (if i < 6 then ''Ch1'' else ''Ch2'') @ ''/'' @ folder @ ''/'' @
                      ''idle_0.png''))])) \<and>
              \<not> sprites_are_sequences v
          | _ \<Rightarrow> sprites_are_sequences v)"
    by (intro exI conjI)
       (rule run_file(1) [OF assms i], rule run_file(2) [OF assms i], rule outputs_sprites [OF i])
qed

lemma jevil_sprites:
  "subscript (snd (outputs Deltarune_bosses ! 0)) ''sprites'' =
     Inr (PDict [(''idle'', PStr ''Deltarune Sprites/Characters/Bosses/Ch1/Jevil/Body/idle_0.png'')])"
proof -
  have l: "0 < length bosses" by (simp add: bosses_def)
  have z: "bosses ! 0 = drb_jevil" by (simp add: bosses_def)
  obtain name chap folder hp attack defense dialogue checkText acts patterns where
    b: "drb_jevil =
       PDict [(''name'', PStr name), (''chapter'', PStr chap), (''folder'', PStr folder),
              (''hp'', hp), (''attack'', attack), (''defense'', defense),
              (''dialogue'', dialogue), (''checkText'', checkText), (''acts'', acts),
              (''attackPatterns'', patterns)]"
    and v: "snd (outputs Deltarune_bosses ! 0) =
       PDict [(''name'', PStr name), (''hp'', hp), (''attack'', attack), (''defense'', defense),
              (''gold'', PInt 0), (''exp'', PInt 0), (''spareThreshold'', PInt 0),
              (''dialogue'', dialogue), (''checkText'', checkText),
              (''sprites'', PDict [(''idle'', PStr (''Deltarune Sprites/Characters/Bosses/'' @
                 chap @ ''/'' @ folder @ ''/'' @ ''idle_0.png''))]),
              (''acts'', acts), (''attackPatterns'', patterns)]"
    using boss_file_of_record [OF l] unfolding z by (elim exE conjE)
  have c: "chap = ''Ch1''" "folder = ''Jevil/Body''"
    using b unfolding drb_jevil_def by simp_all
  show ?thesis unfolding v c by simp
qed

theorem C8_witness:
  "file_field (run Deltarune_bosses fs_empty) ''data/enemies/deltarune/bosses/jevil.json''
     ''sprites'' =
     Some (Inr (PDict [(''idle'',
       PStr ''Deltarune Sprites/Characters/Bosses/Ch1/Jevil/Body/idle_0.png'')])) \<and>
   map_option sprites_are_sequences
     (file_after (run Deltarune_bosses fs_empty) ''data/enemies/deltarune/bosses/jevil.json'') =
     Some False \<and>
   map_option sprites_are_sequences
     (file_after (run Bosses_old fs_empty) (join OUTPUT_DIR_bosses ''toriel.json'')) = Some True"
proof -
  have r: "run Deltarune_bosses fs_empty =
     Inr \<lparr>heap = final_heap Deltarune_bosses,
          fs = fs_empty\<lparr>dirs := dirs fs_empty \<union> created Deltarune_bosses,
                   files := files fs_empty ++ map_of (rev (outputs Deltarune_bosses))\<rparr>\<rparr>"
    (is "_ = Inr ?w")
    by (rule run_from_empty) simp
  have l: "0 < length (records Deltarune_bosses)" by (simp add: bosses_def)
  from C8_deltarune_sprites_are_strings [OF r, rule_format, OF l, unfolded script.case]
  obtain p v where p: "target Deltarune_bosses 0 = Inr p" and f: "files (fs ?w) p = Some v"
    and n: "\<not> sprites_are_sequences v"
    by (elim exE conjE)
  have t: "target Deltarune_bosses 0 = Inr (fst (outputs Deltarune_bosses ! 0))"
    by (rule run_file(1) [OF r l])
  have "fst (outputs Deltarune_bosses ! 0) = map fst (outputs Deltarune_bosses) ! 0"
    using l by (simp add: outputs_length del: outputs.simps)
  then have j: "fst (outputs Deltarune_bosses ! 0) = ''data/enemies/deltarune/bosses/jevil.json''"
    unfolding bosses_paths by simp
  have p': "p = ''data/enemies/deltarune/bosses/jevil.json''"
    using p unfolding t j by simp
  have v': "v = snd (outputs Deltarune_bosses ! 0)"
    using f run_file(2) [OF r l] unfolding j p' by simp
  have a: "file_after (run Deltarune_bosses fs_empty) ''data/enemies/deltarune/bosses/jevil.json'' =
      Some v"
    unfolding file_after_run [OF r] p' [symmetric] by (rule f)
  have s: "subscript v ''sprites'' =
     Inr (PDict [(''idle'', PStr ''Deltarune Sprites/Characters/Bosses/Ch1/Jevil/Body/idle_0.png'')])"
    unfolding v' by (rule jevil_sprites)
  have r2: "run Bosses_old fs_empty =
     Inr \<lparr>heap = final_heap Bosses_old,
          fs = fs_empty\<lparr>dirs := dirs fs_empty \<union> created Bosses_old,
                   files := files fs_empty ++ map_of (rev (outputs Bosses_old))\<rparr>\<rparr>"
    (is "_ = Inr ?w2")
    by (rule run_from_empty) simp
  have l2: "0 < length (records Bosses_old)" by (simp add: BOSSES_def)
  from C8_deltarune_sprites_are_strings [OF r2, rule_format, OF l2, unfolded script.case]
  obtain q u where q: "target Bosses_old 0 = Inr q" and g: "files (fs ?w2) q = Some u"
    and y: "sprites_are_sequences u"
    by (elim exE conjE)
  have q': "q = join OUTPUT_DIR_bosses ''toriel.json''" using q by (simp add: BOSSES_def)
  have b: "file_after (run Bosses_old fs_empty) (join OUTPUT_DIR_bosses ''toriel.json'') = Some u"
    unfolding file_after_run [OF r2] q' [symmetric] by (rule g)
  show ?thesis unfolding file_field_def a b using s n y by simp
qed

section \<open>The names of the files\<close>

lemma outputs_names:
  assumes "i < length (records s)"
  shows "\<exists>n. subscript (records s ! i) ''name'' = Inr (PStr n) \<and>
     subscript (snd (outputs s ! i)) ''name'' = Inr (PStr n) \<and>
     fst (outputs s ! i) =
       (case s of
          Bosses_old \<Rightarrow> join OUTPUT_DIR_bosses (fst (BOSSES ! i) @ ''.json'')
        | Enemies \<Rightarrow> join OUTPUT_DIR_enemies (fst (ENEMIES ! i) @ ''.json'')
        | Missing_enemies \<Rightarrow> ''data/enemies/'' @ fst (MISSING_ENEMIES ! i) @ ''.json''
        | Deltarune_bosses \<Rightarrow>
            join ''data/enemies/deltarune/bosses''
              (replace (CHR ''-'') ''_'' (replace (CHR 0x27) ''''
                 (replace (CHR '' '') ''_'' (lower n))) @ ''.json'')
        | Deltarune_enemies \<Rightarrow>
            join ''data/enemies/deltarune''
              (replace (CHR ''-'') ''_'' (replace (CHR '' '') ''_'' (lower n)) @ ''.json''))"
proof (cases s)
  case Bosses_old
  then have i: "i < length (map snd BOSSES)" using assms by simp
  obtain n where n: "subscript (map snd BOSSES ! i) ''name'' = Inr (PStr n)"
    using nth_all [OF BOSSES_names i] by (elim exE)
  have o: "outputs Bosses_old ! i =
      (join OUTPUT_DIR_bosses (fst (BOSSES ! i) @ ''.json''), map snd BOSSES ! i)"
    using i by (simp add: case_prod_unfold)
  show ?thesis unfolding Bosses_old script.case records.simps o fst_conv snd_conv
    by (intro exI conjI) (rule n, rule n, rule refl)
next
  case Deltarune_bosses
  then have i: "i < length bosses" using assms by simp
  obtain name chap folder hp attack defense dialogue checkText acts patterns where
    b: "bosses ! i =
       PDict [(''name'', PStr name), (''chapter'', PStr chap), (''folder'', PStr folder),
              (''hp'', hp), (''attack'', attack), (''defense'', defense),
              (''dialogue'', dialogue), (''checkText'', checkText), (''acts'', acts),
              (''attackPatterns'', patterns)]"
    using list_all_length [THEN iffD1, rule_format, OF bosses_shape i]
    by (elim exE conjE)
  have n: "subscript (bosses ! i) ''name'' = Inr (PStr name)" unfolding b by (rule subscript_hit)
  have f: "boss_filename (bosses ! i) =
     Inr (replace (CHR ''-'') ''_'' (replace (CHR 0x27) ''''
            (replace (CHR '' '') ''_'' (lower name))) @ ''.json'')"
    by (rule boss_filename_name [OF n])
  have p: "fst (outputs Deltarune_bosses ! i) =
     join ''data/enemies/deltarune/bosses''
       (replace (CHR ''-'') ''_'' (replace (CHR 0x27) ''''
          (replace (CHR '' '') ''_'' (lower name))) @ ''.json'')"
    using i by (simp add: f)
  have v: "subscript (snd (outputs Deltarune_bosses ! i)) ''name'' = Inr (PStr name)"
    using boss_descriptor_fields(1) [OF outputs_deltarune_bosses [OF i]] unfolding n .
  show ?thesis unfolding Deltarune_bosses script.case records.simps
    by (intro exI conjI) (rule n, rule v, rule p)
next
  case Deltarune_enemies
  then have i: "i < length ch1_enemies + length ch2_enemies" using assms by simp
  then have l: "i < length (ch1_enemies @ ch2_enemies)" by simp
  obtain name hp attack defense folder dialogue acts where
    e: "(ch1_enemies @ ch2_enemies) ! i =
       PDict [(''name'', PStr name), (''hp'', hp), (''attack'', PInt attack),
              (''defense'', PInt defense), (''folder'', PStr folder),
              (''dialogue'', dialogue), (''acts'', acts)]"
    using list_all_length [THEN iffD1, rule_format, OF enemies_shape l]
    by (elim exE conjE)
  have n: "subscript ((ch1_enemies @ ch2_enemies) ! i) ''name'' = Inr (PStr name)"
    unfolding e by (rule subscript_hit)
  have f: "enemy_filename ((ch1_enemies @ ch2_enemies) ! i) =
     Inr (replace (CHR ''-'') ''_'' (replace (CHR '' '') ''_'' (lower name)) @ ''.json'')"
    by (rule enemy_filename_name [OF n])
  have "fst (outputs Deltarune_enemies ! i) =
      join ''data/enemies/deltarune'' (projr (enemy_filename ((ch1_enemies @ ch2_enemies) ! i)))"
    using i by (simp add: nth_append)
  then have p: "fst (outputs Deltarune_enemies ! i) =
     join ''data/enemies/deltarune''
       (replace (CHR ''-'') ''_'' (replace (CHR '' '') ''_'' (lower name)) @ ''.json'')"
    unfolding f by simp
  have v: "subscript (snd (outputs Deltarune_enemies ! i)) ''name'' = Inr (PStr name)"
    using enemy_descriptor_fields(1) [OF outputs_deltarune_enemies [OF i]] unfolding n .
  show ?thesis unfolding Deltarune_enemies script.case records.simps
    by (intro exI conjI) (rule n, rule v, rule p)
next
  case Enemies
  then have i: "i < length (map snd ENEMIES)" using assms by simp
  obtain n where n: "subscript (map snd ENEMIES ! i) ''name'' = Inr (PStr n)"
    using nth_all [OF ENEMIES_names i] by (elim exE)
  have "lacks_patterns (map snd ENEMIES ! i)" by (rule nth_all [OF ENEMIES_lack i])
  then have "subscript (with_default (map snd ENEMIES ! i)) ''name'' =
      subscript (map snd ENEMIES ! i) ''name''"
    unfolding lacks_patterns_def by (elim conjE)
  then have v: "subscript (with_default (map snd ENEMIES ! i)) ''name'' = Inr (PStr n)"
    unfolding n .
  have o: "outputs Enemies ! i =
      (join OUTPUT_DIR_enemies (fst (ENEMIES ! i) @ ''.json''), with_default (map snd ENEMIES ! i))"
    using i by (simp add: case_prod_unfold)
  show ?thesis unfolding Enemies script.case records.simps o fst_conv snd_conv
    by (intro exI conjI) (rule n, rule v, rule refl)
next
  case Missing_enemies
  then have i: "i < length (map snd MISSING_ENEMIES)" using assms by simp
  obtain n where n: "subscript (map snd MISSING_ENEMIES ! i) ''name'' = Inr (PStr n)"
    using nth_all [OF MISSING_ENEMIES_names i] by (elim exE)
  have o: "outputs Missing_enemies ! i =
      (''data/enemies/'' @ fst (MISSING_ENEMIES ! i) @ ''.json'', map snd MISSING_ENEMIES ! i)"
    using i by (simp add: case_prod_unfold)
  show ?thesis unfolding Missing_enemies script.case records.simps o fst_conv snd_conv
    by (intro exI conjI) (rule n, rule n, rule refl)
qed

text \<open>
  C4, as amended. A run that completes has written, for every record of the script's
  tables, a file that holds the display name of that record. In
  generate\_deltarune\_bosses.py the name of the file is the display name in lower case,
  with every space replaced by an underscore, every apostrophe removed and every hyphen
  replaced by an underscore, followed by .json; in generate\_deltarune\_enemies.py it is
  the display name in lower case with every space and every hyphen replaced by an
  underscore, followed by .json. In generate\_bosses\_old.py, generate\_enemies.py and
  generate\_missing\_undertale\_enemies.py the name of the file is the key of the record in
  the table, followed by .json: it is not computed from the display name.
\<close>

theorem C4_file_names_amended:
  assumes "run s fs0 = Inr w"
  shows "\<forall>i<length (records s). \<exists>p v n.
     target s i = Inr p \<and> files (fs w) p = Some v \<and>
     subscript (records s ! i) ''name'' = Inr (PStr n) \<and>
     subscript v ''name'' = Inr (PStr n) \<and>
     p = (case s of
            Bosses_old \<Rightarrow> join OUTPUT_DIR_bosses (fst (BOSSES ! i) @ ''.json'')
          | Enemies \<Rightarrow> join OUTPUT_DIR_enemies (fst (ENEMIES ! i) @ ''.json'')
          | Missing_enemies \<Rightarrow> ''data/enemies/'' @ fst (MISSING_ENEMIES ! i) @ ''.json''
          | Deltarune_bosses \<Rightarrow>
              join ''data/enemies/deltarune/bosses''
                (replace (CHR ''-'') ''_'' (replace (CHR 0x27) ''''
                   (replace (CHR '' '') ''_'' (lower n))) @ ''.json'')
          | Deltarune_enemies \<Rightarrow>
              join ''data/enemies/deltarune''
                (replace (CHR ''-'') ''_'' (replace (CHR '' '') ''_'' (lower n)) @ ''.json''))"
proof (intro allI impI)
  fix i assume i: "i < length (records s)"
  obtain n where n: "subscript (records s ! i) ''name'' = Inr (PStr n)"
    and v: "subscript (snd (outputs s ! i)) ''name'' = Inr (PStr n)"
    and p: "fst (outputs s ! i) =
       (case s of
          Bosses_old \<Rightarrow> join OUTPUT_DIR_bosses (fst (BOSSES ! i) @ ''.json'')
        | Enemies \<Rightarrow> join OUTPUT_DIR_enemies (fst (ENEMIES ! i) @ ''.json'')
        | Missing_enemies \<Rightarrow> ''data/enemies/'' @ fst (MISSING_ENEMIES ! i) @ ''.json''
        | Deltarune_bosses \<Rightarrow>
            join ''data/enemies/deltarune/bosses''
              (replace (CHR ''-'') ''_'' (replace (CHR 0x27) ''''
                 (replace (CHR '' '') ''_'' (lower n))) @ ''.json'')
        | Deltarune_enemies \<Rightarrow>
            join ''data/enemies/deltarune''
              (replace (CHR ''-'') ''_'' (replace (CHR '' '') ''_'' (lower n)) @ ''.json''))"
    using outputs_names [OF i] by (elim exE conjE)
  show "\<exists>p v n.
     target s i = Inr p \<and> files (fs w) p = Some v \<and>
     subscript (records s ! i) ''name'' = Inr (PStr n) \<and>
     subscript v ''name'' = Inr (PStr n) \<and>
     p = (case s of
            Bosses_old \<Rightarrow> join OUTPUT_DIR_bosses (fst (BOSSES ! i) @ ''.json'')
          | Enemies \<Rightarrow> join OUTPUT_DIR_enemies (fst (ENEMIES ! i) @ ''.json'')
          | Missing_enemies \<Rightarrow> ''data/enemies/'' @ fst (MISSING_ENEMIES ! i) @ ''.json''
          | Deltarune_bosses \<Rightarrow>
              join ''data/enemies/deltarune/bosses''
                (replace (CHR ''-'') ''_'' (replace (CHR 0x27) ''''
                   (replace (CHR '' '') ''_'' (lower n))) @ ''.json'')
          | Deltarune_enemies \<Rightarrow>
              join ''data/enemies/deltarune''
                (replace (CHR ''-'') ''_'' (replace (CHR '' '') ''_'' (lower n)) @ ''.json''))"
    by (intro exI conjI)
       (rule run_file(1) [OF assms i], rule run_file(2) [OF assms i], rule n, rule v, rule p)
qed

lemma cakes_name:
  "records Deltarune_bosses ! 5 = drb_sweet_capn_cakes"
  "subscript drb_sweet_capn_cakes ''name'' = Inr (PStr ''Sweet Cap'n Cakes'')"
proof -
  show "records Deltarune_bosses ! 5 = drb_sweet_capn_cakes" by (simp add: bosses_def)
  have "subscript (bosses ! 5) ''name'' = map (\<lambda>b. subscript b ''name'') bosses ! 5"
    by (simp add: bosses_def)
  then show "subscript drb_sweet_capn_cakes ''name'' = Inr (PStr ''Sweet Cap'n Cakes'')"
    unfolding bosses_names by (simp add: bosses_def)
qed

lemma mettaton_name:
  "records Bosses_old ! 3 = old_mettaton"
  "fst (BOSSES ! 3) = ''mettaton''"
  "subscript old_mettaton ''name'' = Inr (PStr ''Mettaton EX'')"
proof -
  show "records Bosses_old ! 3 = old_mettaton" by (simp add: BOSSES_def)
  show "fst (BOSSES ! 3) = ''mettaton''" by (simp add: BOSSES_def)
  show "subscript old_mettaton ''name'' = Inr (PStr ''Mettaton EX'')"
    unfolding old_mettaton_def by (rule subscript_hit)
qed

theorem C4_witness:
  "file_field (run Deltarune_bosses fs_empty)
     ''data/enemies/deltarune/bosses/sweet_capn_cakes.json'' ''name'' =
     Some (Inr (PStr ''Sweet Cap'n Cakes'')) \<and>
   file_field (run Bosses_old fs_empty)
     ''/workspaces/Under-Delta-Tale-Rune-Fight-Sim/data/enemies/bosses/mettaton.json'' ''name'' =
     Some (Inr (PStr ''Mettaton EX''))"
proof -
  have r: "run Deltarune_bosses fs_empty =
     Inr \<lparr>heap = final_heap Deltarune_bosses,
          fs = fs_empty\<lparr>dirs := dirs fs_empty \<union> created Deltarune_bosses,
                   files := files fs_empty ++ map_of (rev (outputs Deltarune_bosses))\<rparr>\<rparr>"
    (is "_ = Inr ?w")
    by (rule run_from_empty) simp
  have l: "5 < length (records Deltarune_bosses)" by (simp add: bosses_def)
  from C4_file_names_amended [OF r, rule_format, OF l, unfolded script.case cakes_name(1)]
  obtain p v n where f: "files (fs ?w) p = Some v"
    and n: "subscript drb_sweet_capn_cakes ''name'' = Inr (PStr n)"
    and vn: "subscript v ''name'' = Inr (PStr n)"
    and p: "p = join ''data/enemies/deltarune/bosses''
                (replace (CHR ''-'') ''_'' (replace (CHR 0x27) ''''
                   (replace (CHR '' '') ''_'' (lower n))) @ ''.json'')"
    by (elim exE conjE)
  have n': "n = ''Sweet Cap'n Cakes''" using n unfolding cakes_name(2) by simp
  have p': "p = ''data/enemies/deltarune/bosses/sweet_capn_cakes.json''"
    unfolding p n' by (simp add: name_rules join_def)
  have a: "file_field (run Deltarune_bosses fs_empty)
     ''data/enemies/deltarune/bosses/sweet_capn_cakes.json'' ''name'' =
     Some (Inr (PStr ''Sweet Cap'n Cakes''))"
    unfolding file_field_def file_after_run [OF r] p' [symmetric] f using vn n' by simp
  have r2: "run Bosses_old fs_empty =
     Inr \<lparr>heap = final_heap Bosses_old,
          fs = fs_empty\<lparr>dirs := dirs fs_empty \<union> created Bosses_old,
                   files := files fs_empty ++ map_of (rev (outputs Bosses_old))\<rparr>\<rparr>"
    (is "_ = Inr ?w2")
    by (rule run_from_empty) simp
  have l2: "3 < length (records Bosses_old)" by (simp add: BOSSES_def)
  from C4_file_names_amended [OF r2, rule_format, OF l2,
      unfolded script.case mettaton_name(1) mettaton_name(2)]
  obtain q u m where g: "files (fs ?w2) q = Some u"
    and m: "subscript old_mettaton ''name'' = Inr (PStr m)"
    and um: "subscript u ''name'' = Inr (PStr m)"
    and q: "q = join OUTPUT_DIR_bosses (''mettaton'' @ ''.json'')"
    by (elim exE conjE)
  have m': "m = ''Mettaton EX''" using m unfolding mettaton_name(3) by simp
  have q': "q = ''/workspaces/Under-Delta-Tale-Rune-Fight-Sim/data/enemies/bosses/mettaton.json''"
    unfolding q by (simp add: join_def OUTPUT_DIR_bosses_def)
  have b: "file_field (run Bosses_old fs_empty)
     ''/workspaces/Under-Delta-Tale-Rune-Fight-Sim/data/enemies/bosses/mettaton.json'' ''name'' =
     Some (Inr (PStr ''Mettaton EX''))"
    unfolding file_field_def file_after_run [OF r2] q' [symmetric] g using um m' by simp
  show ?thesis by (intro conjI) (rule a, rule b)
qed

lemma bosses_old_paths:
  "map fst (outputs Bosses_old) =
     [''/workspaces/Under-Delta-Tale-Rune-Fight-Sim/data/enemies/bosses/toriel.json'',
      ''/workspaces/Under-Delta-Tale-Rune-Fight-Sim/data/enemies/bosses/papyrus.json'',
      ''/workspaces/Under-Delta-Tale-Rune-Fight-Sim/data/enemies/bosses/undyne.json'',
      ''/workspaces/Under-Delta-Tale-Rune-Fight-Sim/data/enemies/bosses/mettaton.json'',
      ''/workspaces/Under-Delta-Tale-Rune-Fight-Sim/data/enemies/bosses/asgore.json'',
      ''/workspaces/Under-Delta-Tale-Rune-Fight-Sim/data/enemies/bosses/sans.json'',
      ''/workspaces/Under-Delta-Tale-Rune-Fight-Sim/data/enemies/bosses/flowey.json'',
      ''/workspaces/Under-Delta-Tale-Rune-Fight-Sim/data/enemies/bosses/asriel.json'']"
  unfolding outputs_paths BOSSES_keys by (simp add: join_def OUTPUT_DIR_bosses_def)

lemma not_written:
  assumes "run s fs_empty = Inr w" "p \<notin> set (map fst (outputs s))"
  shows "file_after (run s fs_empty) p = None"
proof -
  have "p \<notin> fst ` set (outputs s)" using assms(2) by simp
  then have "(files fs_empty ++ map_of (rev (outputs s))) p = files fs_empty p"
    by (rule files_untouched)
  then show ?thesis
    unfolding file_after_run [OF assms(1)] run_files [OF assms(1)] by (simp add: fs_empty_def)
qed

text \<open>
  C4 as stated fails. generate\_bosses\_old.py writes the record with the display name
  Mettaton EX to the file mettaton.json, named after the key of the record in the table. The
  display name in lower case is \<^verbatim>\<open>mettaton ex\<close>; the rules of the two Deltarune generators
  make mettaton\_ex.json of it and removing the space makes mettatonex.json. No such file is
  written, and no rule that keeps the letters of the name gives mettaton.json, which has no
  letter x.
\<close>

theorem C4_counterexample:
  "records Bosses_old ! 3 = old_mettaton \<and>
   subscript old_mettaton ''name'' = Inr (PStr ''Mettaton EX'') \<and>
   target Bosses_old 3 =
     Inr ''/workspaces/Under-Delta-Tale-Rune-Fight-Sim/data/enemies/bosses/mettaton.json'' \<and>
   file_after (run Bosses_old fs_empty)
     ''/workspaces/Under-Delta-Tale-Rune-Fight-Sim/data/enemies/bosses/mettaton.json'' =
     Some old_mettaton \<and>
   lower ''Mettaton EX'' = ''mettaton ex'' \<and>
   CHR ''x'' \<in> set (lower ''Mettaton EX'') \<and> CHR ''x'' \<notin> set ''mettaton.json'' \<and>
   boss_filename old_mettaton = Inr ''mettaton_ex.json'' \<and>
   enemy_filename old_mettaton = Inr ''mettaton_ex.json'' \<and>
   file_after (run Bosses_old fs_empty)
     ''/workspaces/Under-Delta-Tale-Rune-Fight-Sim/data/enemies/bosses/mettaton_ex.json'' = None \<and>
   file_after (run Bosses_old fs_empty)
     ''/workspaces/Under-Delta-Tale-Rune-Fight-Sim/data/enemies/bosses/mettatonex.json'' = None"
proof -
  have r: "run Bosses_old fs_empty =
     Inr \<lparr>heap = final_heap Bosses_old,
          fs = fs_empty\<lparr>dirs := dirs fs_empty \<union> created Bosses_old,
                   files := files fs_empty ++ map_of (rev (outputs Bosses_old))\<rparr>\<rparr>"
    (is "_ = Inr ?w")
    by (rule run_from_empty) simp
  have l: "3 < length (records Bosses_old)" by (simp add: BOSSES_def)
  have "fst (outputs Bosses_old ! 3) = map fst (outputs Bosses_old) ! 3"
    using l by (simp add: outputs_length del: outputs.simps)
  then have p: "fst (outputs Bosses_old ! 3) =
      ''/workspaces/Under-Delta-Tale-Rune-Fight-Sim/data/enemies/bosses/mettaton.json''"
    unfolding bosses_old_paths by simp
  have v: "snd (outputs Bosses_old ! 3) = old_mettaton" by (simp add: BOSSES_def)
  have t: "target Bosses_old 3 =
     Inr ''/workspaces/Under-Delta-Tale-Rune-Fight-Sim/data/enemies/bosses/mettaton.json''"
    using run_file(1) [OF r l] unfolding p .
  have f: "file_after (run Bosses_old fs_empty)
     ''/workspaces/Under-Delta-Tale-Rune-Fight-Sim/data/enemies/bosses/mettaton.json'' =
     Some old_mettaton"
    unfolding file_after_run [OF r] using run_file(2) [OF r l] unfolding p v .
  have lo: "lower ''Mettaton EX'' = ''mettaton ex''" by (simp add: name_rules)
  have x: "CHR ''x'' \<in> set (lower ''Mettaton EX'')" unfolding lo by simp
  have y: "CHR ''x'' \<notin> set ''mettaton.json''" by simp
  have bf: "boss_filename old_mettaton = Inr ''mettaton_ex.json''"
    unfolding boss_filename_name [OF mettaton_name(3)] lo by (simp add: name_rules)
  have ef: "enemy_filename old_mettaton = Inr ''mettaton_ex.json''"
    unfolding enemy_filename_name [OF mettaton_name(3)] lo by (simp add: name_rules)
  have n1: "file_after (run Bosses_old fs_empty)
     ''/workspaces/Under-Delta-Tale-Rune-Fight-Sim/data/enemies/bosses/mettaton_ex.json'' = None"
    by (rule not_written [OF r]) (simp add: bosses_old_paths del: outputs.simps)
  have n2: "file_after (run Bosses_old fs_empty)
     ''/workspaces/Under-Delta-Tale-Rune-Fight-Sim/data/enemies/bosses/mettatonex.json'' = None"
    by (rule not_written [OF r]) (simp add: bosses_old_paths del: outputs.simps)
  show ?thesis
    by (intro conjI)
       (rule mettaton_name(1), rule mettaton_name(3), rule t, rule f, rule lo, rule x, rule y,
        rule bf, rule ef, rule n1, rule n2)
qed

end
